theory Spec2Isabelle
  imports Complex_Main
begin

section \<open>Tensors and the two numerical primitives of the notebook\<close>

text \<open>
  A tensor is the list of its entries, in storage order. The entries are real numbers:
  the order and the arithmetic of the entries are what the definitions below use, not
  their machine representation.
\<close>

type_synonym tensor = "real list"

datatype error =
  ShapeError | ValueError | IndexError | ZeroDivisionError | BackendError | SinkError

text \<open>
  \<^verbatim>\<open>backend.clip(x, min_value, max_value)\<close> of the Keras backend: every entry is cut
  from above at \<open>max_value\<close>, then from below at \<open>min_value\<close>.
\<close>

definition backend_clip :: "tensor \<Rightarrow> real \<Rightarrow> real \<Rightarrow> tensor" where
  "backend_clip x min_value max_value = map (\<lambda>v. max min_value (min max_value v)) x"

text \<open>
  \<^verbatim>\<open>
  class ClipConstraint(Constraint):
      def __init__(self, clip_value):
          self.clip_value = clip_value
      def __call__(self, weights):
          return backend.clip(weights, -self.clip_value, self.clip_value)
  \<close>
\<close>

record ClipConstraint =
  clip_value :: real

definition ClipConstraint_call :: "ClipConstraint \<Rightarrow> tensor \<Rightarrow> tensor" where
  "ClipConstraint_call self weights =
     backend_clip weights (- clip_value self) (clip_value self)"

text \<open>
  \<^verbatim>\<open>backend.mean(x)\<close> over all entries. The mean of a tensor with no entry is the
  backend's not-a-number, which is \<open>None\<close> here.
\<close>

definition backend_mean :: "tensor \<Rightarrow> real option" where
  "backend_mean x = (if x = [] then None else Some (sum_list x / real (length x)))"

text \<open>
  The product \<^verbatim>\<open>y_true * y_pred\<close> of two vectors: entry by entry when the lengths
  agree, a vector with one entry is broadcast over the other, and any other pair of
  lengths is refused by the backend.
\<close>

definition tensor_mul :: "tensor \<Rightarrow> tensor \<Rightarrow> error + tensor" where
  "tensor_mul a b =
     (if length a = length b then Inr (map2 (*) a b)
      else if length a = 1 then Inr (map (\<lambda>v. hd a * v) b)
      else if length b = 1 then Inr (map (\<lambda>v. v * hd b) a)
      else Inl ShapeError)"

text \<open>
  \<^verbatim>\<open>
  def wasserstein_loss(y_true, y_pred):
      return backend.mean(y_true * y_pred)
  \<close>
\<close>

definition wasserstein_loss :: "tensor \<Rightarrow> tensor \<Rightarrow> error + real option" where
  "wasserstein_loss y_true y_pred =
     (case tensor_mul y_true y_pred of
        Inl e \<Rightarrow> Inl e
      | Inr p \<Rightarrow> Inr (backend_mean p))"

section \<open>Random sources and the sample generators\<close>

text \<open>
  The process-level random generator of numpy is an explicit value: a stream of raw
  naturals that \<^verbatim>\<open>randint\<close> reads and a stream of standard-normal draws that
  \<^verbatim>\<open>randn\<close> reads. A call returns the generator advanced past what it read.
\<close>

record rng =
  ints :: "nat \<Rightarrow> nat"
  normals :: "nat \<Rightarrow> real"

text \<open>
  \<^verbatim>\<open>randint(low, high, size)\<close>: \<open>sz\<close> integers (the argument \<^verbatim>\<open>size\<close>) of the half-open range from \<open>low\<close>
  to \<open>high\<close>, each reduced from one raw draw. numpy raises \<^verbatim>\<open>ValueError\<close> when the
  range is empty and at least one integer is asked for.
\<close>

definition randint :: "nat \<Rightarrow> nat \<Rightarrow> nat \<Rightarrow> rng \<Rightarrow> error + (nat list \<times> rng)" where
  "randint low high sz g =
     (if sz = 0 then Inr ([], g)
      else if high \<le> low then Inl ValueError
      else Inr (map (\<lambda>k. low + ints g k mod (high - low)) [0..<sz],
                g\<lparr>ints := (\<lambda>k. ints g (k + sz))\<rparr>))"

definition randn :: "nat \<Rightarrow> rng \<Rightarrow> tensor \<times> rng" where
  "randn sz g = (map (normals g) [0..<sz], g\<lparr>normals := (\<lambda>k. normals g (k + sz))\<rparr>)"

text \<open>\<^verbatim>\<open>x.reshape(rows, cols)\<close> of a vector: numpy refuses a vector of another size.\<close>

definition reshape2 :: "nat \<Rightarrow> nat \<Rightarrow> tensor \<Rightarrow> error + tensor list" where
  "reshape2 rows cols x =
     (if length x = rows * cols
      then Inr (map (\<lambda>i. take cols (drop (i * cols) x)) [0..<rows])
      else Inl ValueError)"

text \<open>\<^verbatim>\<open>ones((n, m))\<close> and the negation of a matrix.\<close>

definition ones :: "nat \<Rightarrow> nat \<Rightarrow> tensor list" where
  "ones n m = replicate n (replicate m 1)"

definition neg :: "tensor list \<Rightarrow> tensor list" where
  "neg y = map (map uminus) y"

text \<open>
  \<^verbatim>\<open>
  def generate_real_samples(dataset, n_samples):
      ix = randint(0, dataset.shape[0], n_samples)
      X = dataset[ix]
      y = -ones((n_samples, 1))
      return X, y
  \<close>
  An image is the tensor of its pixels; the dataset is the list of its images.
\<close>

definition generate_real_samples ::
  "tensor list \<Rightarrow> nat \<Rightarrow> rng \<Rightarrow> error + ((tensor list \<times> tensor list) \<times> rng)" where
  "generate_real_samples dataset n_samples g =
     (case randint 0 (length dataset) n_samples g of
        Inl e \<Rightarrow> Inl e
      | Inr (ix, g') \<Rightarrow>
          Inr ((map (\<lambda>i. dataset ! i) ix, neg (ones n_samples 1)), g'))"

text \<open>
  \<^verbatim>\<open>
  def generate_latent_points(latent_dim, n_samples):
      x_input = randn(latent_dim * n_samples)
      x_input = x_input.reshape(n_samples, latent_dim)
      return x_input
  \<close>
\<close>

definition generate_latent_points :: "nat \<Rightarrow> nat \<Rightarrow> rng \<Rightarrow> error + (tensor list \<times> rng)" where
  "generate_latent_points latent_dim n_samples g =
     (case randn (latent_dim * n_samples) g of
        (x_input, g') \<Rightarrow>
          (case reshape2 n_samples latent_dim x_input of
             Inl e \<Rightarrow> Inl e
           | Inr x \<Rightarrow> Inr (x, g')))"

text \<open>
  \<^verbatim>\<open>
  def generate_fake_samples(generator, latent_dim, n_samples):
      x_input = generate_latent_points(latent_dim, n_samples)
      X = generator.predict(x_input)
      y = ones((n_samples, 1))
      return X, y
  \<close>
  \<open>predict\<close> is the forward pass of the generator on one latent point, computed by the
  tensor backend from the generator's current parameters; \<^verbatim>\<open>generator.predict\<close> applies
  it to every row of its input, and raises \<^verbatim>\<open>ValueError\<close> when its input has no row.
\<close>

definition generate_fake_samples ::
  "(tensor \<Rightarrow> tensor) \<Rightarrow> nat \<Rightarrow> nat \<Rightarrow> rng \<Rightarrow> error + ((tensor list \<times> tensor list) \<times> rng)" where
  "generate_fake_samples predict latent_dim n_samples g =
     (case generate_latent_points latent_dim n_samples g of
        Inl e \<Rightarrow> Inl e
      | Inr (x_input, g') \<Rightarrow>
          if x_input = [] then Inl ValueError
          else Inr ((map predict x_input, ones n_samples 1), g'))"


section \<open>Layers, weights and compiled models\<close>

text \<open>
  The notebook builds its networks from Keras layers. What the training loop reads and
  writes of a layer is its kind, its \<^verbatim>\<open>trainable\<close> flag and its weights; a weight has
  a name, a value, the constraint it was built with (if any) and whether it is a
  trainable weight of its layer (the moving statistics of a normalization layer are
  not: the optimizer never updates them, the layer itself does while it trains).
  The forward pass and the gradients belong to the tensor backend and are parameters
  of the model, see \<open>env\<close> below.
\<close>

datatype layer_kind =
  Dense | Reshape | Flatten | Conv2D | Conv2DTranspose | LeakyReLU | BatchNormalization

record weight =
  w_name :: string
  w_value :: tensor
  w_constraint :: "ClipConstraint option"
  w_trainable :: bool

record layer =
  l_kind :: layer_kind
  trainable :: bool
  l_weights :: "weight list"

text \<open>
  A layer with a kernel and a bias (\<^verbatim>\<open>Dense\<close>, \<^verbatim>\<open>Conv2D\<close>, \<^verbatim>\<open>Conv2DTranspose\<close>): the
  kernel is drawn by the initializer and carries the \<^verbatim>\<open>kernel_constraint\<close> the layer was
  given; the bias starts at zero and has no constraint, as nothing passes a
  \<^verbatim>\<open>bias_constraint\<close>.
\<close>

definition kernel_layer :: "layer_kind \<Rightarrow> tensor \<Rightarrow> ClipConstraint option \<Rightarrow> nat \<Rightarrow> layer" where
  "kernel_layer kind kernel_value kernel_constraint units =
     \<lparr>l_kind = kind, trainable = True,
      l_weights =
        [\<lparr>w_name = ''kernel'', w_value = kernel_value, w_constraint = kernel_constraint,
          w_trainable = True\<rparr>,
         \<lparr>w_name = ''bias'', w_value = replicate units 0, w_constraint = None,
          w_trainable = True\<rparr>]\<rparr>"

text \<open>
  \<^verbatim>\<open>BatchNormalization()\<close> with the defaults of Keras: scale \<open>gamma\<close> of ones and shift
  \<open>beta\<close> of zeros, both trainable and unconstrained, and the moving mean (zeros) and
  moving variance (ones).
\<close>

definition batch_normalization :: "nat \<Rightarrow> layer" where
  "batch_normalization channels =
     \<lparr>l_kind = BatchNormalization, trainable = True,
      l_weights =
        [\<lparr>w_name = ''gamma'', w_value = replicate channels 1, w_constraint = None,
          w_trainable = True\<rparr>,
         \<lparr>w_name = ''beta'', w_value = replicate channels 0, w_constraint = None,
          w_trainable = True\<rparr>,
         \<lparr>w_name = ''moving_mean'', w_value = replicate channels 0, w_constraint = None,
          w_trainable = False\<rparr>,
         \<lparr>w_name = ''moving_variance'', w_value = replicate channels 1, w_constraint = None,
          w_trainable = False\<rparr>]\<rparr>"

definition plain_layer :: "layer_kind \<Rightarrow> layer" where
  "plain_layer kind = \<lparr>l_kind = kind, trainable = True, l_weights = []\<rparr>"

text \<open>
  The two networks live in one store; a weight is addressed by its network, the index
  of its layer and its index within the layer. Every model object of the notebook
  (\<^verbatim>\<open>critic\<close>, \<^verbatim>\<open>generator\<close>, \<^verbatim>\<open>wgan_model\<close>) refers to this storage.
\<close>

datatype net = Generator | Critic

type_synonym wref = "net \<times> nat \<times> nat"

record store =
  critic_net :: "layer list"
  generator_net :: "layer list"

definition net_layers :: "store \<Rightarrow> net \<Rightarrow> layer list" where
  "net_layers st n = (case n of Critic \<Rightarrow> critic_net st | Generator \<Rightarrow> generator_net st)"

text \<open>
  \<^verbatim>\<open>layer.trainable_weights\<close> is empty for a layer whose flag is off;
  \<^verbatim>\<open>model.trainable_weights\<close> collects its layers' in order.
\<close>

definition layer_trainable_weights :: "net \<Rightarrow> nat \<Rightarrow> layer \<Rightarrow> wref list" where
  "layer_trainable_weights n i l =
     (if trainable l
      then map (\<lambda>j. (n, i, j)) (filter (\<lambda>j. w_trainable (l_weights l ! j)) [0..<length (l_weights l)])
      else [])"

definition trainable_weights :: "net \<Rightarrow> layer list \<Rightarrow> wref list" where
  "trainable_weights n ls =
     concat (map (\<lambda>i. layer_trainable_weights n i (ls ! i)) [0..<length ls])"

text \<open>
  \<^verbatim>\<open>model.compile(loss=wasserstein_loss, optimizer=opt)\<close> records the weights that are
  trainable at that moment; the model's later updates are computed for exactly these
  (Keras keeps them as the model's collected trainable weights), whatever happens to
  the layers' flags afterwards.
\<close>

record compiled =
  nets :: "net list"
  collected_trainable_weights :: "wref list"

definition compile :: "(net \<times> layer list) list \<Rightarrow> compiled" where
  "compile members =
     \<lparr>nets = map fst members,
      collected_trainable_weights = concat (map (\<lambda>(n, ls). trainable_weights n ls) members)\<rparr>"

text \<open>
  \<^verbatim>\<open>define_critic\<close>: four blocks of \<^verbatim>\<open>Conv2D(64, (4,4), ..., kernel_constraint=const)\<close>,
  \<^verbatim>\<open>BatchNormalization()\<close>, \<^verbatim>\<open>LeakyReLU(alpha=0.2)\<close>, then \<^verbatim>\<open>Flatten()\<close> and \<^verbatim>\<open>Dense(1)\<close>,
  compiled with the loss and an RMSprop optimizer. \<open>const\<close> is \<^verbatim>\<open>ClipConstraint(0.005)\<close>.
  \<open>init i\<close> is the initializer's draw for the kernel of layer \<open>i\<close>.
\<close>

definition define_critic :: "(nat \<Rightarrow> tensor) \<Rightarrow> layer list \<times> compiled" where
  "define_critic init =
     (let const = \<lparr>clip_value = 0.005\<rparr>;
          model =
            [kernel_layer Conv2D (init 0) (Some const) 64,
             batch_normalization 64,
             plain_layer LeakyReLU,
             kernel_layer Conv2D (init 3) (Some const) 64,
             batch_normalization 64,
             plain_layer LeakyReLU,
             kernel_layer Conv2D (init 6) (Some const) 64,
             batch_normalization 64,
             plain_layer LeakyReLU,
             kernel_layer Conv2D (init 9) (Some const) 64,
             batch_normalization 64,
             plain_layer LeakyReLU,
             plain_layer Flatten,
             kernel_layer Dense (init 13) None 1]
      in (model, compile [(Critic, model)]))"

text \<open>
  \<^verbatim>\<open>define_generator(latent_dim)\<close>: \<^verbatim>\<open>Dense(128 * 5 * 5)\<close>, \<^verbatim>\<open>LeakyReLU\<close>, \<^verbatim>\<open>Reshape\<close>, four
  blocks of \<^verbatim>\<open>Conv2DTranspose(128, (4,4), ...)\<close>, \<^verbatim>\<open>BatchNormalization()\<close>, \<^verbatim>\<open>LeakyReLU\<close>,
  and a last \<^verbatim>\<open>Conv2D(1, (5,5), activation='tanh')\<close>. It is not compiled on its own.
\<close>

definition define_generator :: "nat \<Rightarrow> (nat \<Rightarrow> tensor) \<Rightarrow> layer list" where
  "define_generator latent_dim init =
     (let n_nodes = 128 * 5 * 5
      in [kernel_layer Dense (init 0) None n_nodes,
          plain_layer LeakyReLU,
          plain_layer Reshape,
          kernel_layer Conv2DTranspose (init 3) None 128,
          batch_normalization 128,
          plain_layer LeakyReLU,
          kernel_layer Conv2DTranspose (init 6) None 128,
          batch_normalization 128,
          plain_layer LeakyReLU,
          kernel_layer Conv2DTranspose (init 9) None 128,
          batch_normalization 128,
          plain_layer LeakyReLU,
          kernel_layer Conv2DTranspose (init 12) None 128,
          batch_normalization 128,
          plain_layer LeakyReLU,
          kernel_layer Conv2D (init 15) None 1])"

text \<open>
  \<^verbatim>\<open>
  def define_wgan(generator, critic):
      for layer in critic.layers:
          if not isinstance(layer, BatchNormalization):
              layer.trainable = False
      model = Sequential()
      model.add(generator)
      model.add(critic)
      opt = RMSprop(lr=0.00005)
      model.compile(loss=wasserstein_loss, optimizer=opt)
      return model
  \<close>
  The two arguments are the two networks of the store. The assignment to
  \<^verbatim>\<open>layer.trainable\<close> writes the critic's own layers, so the function returns the store
  it leaves behind together with the compiled composite.
\<close>

definition freeze :: "layer \<Rightarrow> layer" where
  "freeze l = (if l_kind l \<noteq> BatchNormalization then l\<lparr>trainable := False\<rparr> else l)"

definition define_wgan :: "store \<Rightarrow> store \<times> compiled" where
  "define_wgan st =
     (let st' = st\<lparr>critic_net := map freeze (critic_net st)\<rparr>
      in (st', compile [(Generator, generator_net st'), (Critic, critic_net st')]))"

text \<open>
  The notebook's set-up cell:
  \<^verbatim>\<open>
  critic = define_critic()
  generator = define_generator(latent_dim)
  wgan_model = define_wgan(generator, critic)
  \<close>
  The result is the store and the two compiled models that \<^verbatim>\<open>train\<close> is given.
\<close>

definition notebook_setup ::
  "nat \<Rightarrow> (nat \<Rightarrow> tensor) \<Rightarrow> (nat \<Rightarrow> tensor) \<Rightarrow> store \<times> compiled \<times> compiled" where
  "notebook_setup latent_dim c_init g_init =
     (case define_critic c_init of
        (critic, c_model) \<Rightarrow>
          (case define_wgan \<lparr>critic_net = critic,
                             generator_net = define_generator latent_dim g_init\<rparr> of
             (st, wgan_model) \<Rightarrow> (st, c_model, wgan_model)))"

section \<open>One optimizer update\<close>

text \<open>
  The tensor backend is a parameter. For the \<open>c\<close>-th call of \<^verbatim>\<open>train_on_batch\<close>, on a
  given model, store, batch and labels, \<open>backend\<close> answers \<open>None\<close> when the backend
  raises and otherwise the loss it reports and, for every weight, the value the
  optimizer step computes for it before any constraint. \<open>forward\<close> is the generator's
  forward pass on one latent point; \<open>sink_ok t\<close> says whether writing the checkpoint
  files tagged \<open>t\<close> succeeds, \<open>plot_ok\<close> whether writing the loss plot does.
\<close>

datatype model_id = CModel | GanModel

record step_result =
  loss :: real
  new_value :: "wref \<Rightarrow> tensor"

record env =
  backend :: "model_id \<Rightarrow> nat \<Rightarrow> store \<Rightarrow> tensor list \<Rightarrow> tensor list \<Rightarrow> step_result option"
  forward :: "layer list \<Rightarrow> tensor \<Rightarrow> tensor"
  sink_ok :: "nat \<Rightarrow> bool"
  plot_ok :: bool

definition apply_constraint :: "ClipConstraint option \<Rightarrow> tensor \<Rightarrow> tensor" where
  "apply_constraint c v = (case c of None \<Rightarrow> v | Some k \<Rightarrow> ClipConstraint_call k v)"

text \<open>
  What one update of a compiled model \<open>m\<close> does to a weight: a collected trainable weight
  takes the optimizer's new value, passed through the weight's constraint when it has
  one (the optimizer applies \<^verbatim>\<open>p.constraint(new_p)\<close> before it stores); the moving
  statistics of a trainable normalization layer of one of the model's networks are
  rewritten by the layer; every other weight is left as it is.
\<close>

definition update_weight ::
  "compiled \<Rightarrow> step_result \<Rightarrow> net \<Rightarrow> nat \<Rightarrow> layer \<Rightarrow> nat \<Rightarrow> weight \<Rightarrow> weight" where
  "update_weight m r n i l j w =
     (if (n, i, j) \<in> set (collected_trainable_weights m)
      then w\<lparr>w_value := apply_constraint (w_constraint w) (new_value r (n, i, j))\<rparr>
      else if n \<in> set (nets m) \<and> l_kind l = BatchNormalization \<and> trainable l \<and> \<not> w_trainable w
      then w\<lparr>w_value := new_value r (n, i, j)\<rparr>
      else w)"

definition update_layer :: "compiled \<Rightarrow> step_result \<Rightarrow> net \<Rightarrow> nat \<Rightarrow> layer \<Rightarrow> layer" where
  "update_layer m r n i l =
     l\<lparr>l_weights := map (\<lambda>j. update_weight m r n i l j (l_weights l ! j)) [0..<length (l_weights l)]\<rparr>"

definition update_net :: "compiled \<Rightarrow> step_result \<Rightarrow> net \<Rightarrow> layer list \<Rightarrow> layer list" where
  "update_net m r n ls = map (\<lambda>i. update_layer m r n i (ls ! i)) [0..<length ls]"

definition apply_updates :: "compiled \<Rightarrow> step_result \<Rightarrow> store \<Rightarrow> store" where
  "apply_updates m r st =
     \<lparr>critic_net = update_net m r Critic (critic_net st),
      generator_net = update_net m r Generator (generator_net st)\<rparr>"

section \<open>The training loop\<close>

text \<open>
  What a run does to the outside is kept as a list of events: every call of
  \<^verbatim>\<open>train_on_batch\<close> with the model it is called on, its batch, its labels, the loss it
  returned and the store it left; every checkpoint written by
  \<^verbatim>\<open>summarize_performance\<close> with its tag, the plotted images and the saved generator;
  and the final loss plot.
\<close>

datatype event =
    TrainOnBatch model_id "tensor list" "tensor list" real store
  | Checkpoint nat "tensor list" "layer list"
  | PlotHistory "real option list" "real option list" "real list"

record state =
  st_store :: store
  st_rng :: rng
  st_calls :: nat
  st_trace :: "event list"
  c1_hist :: "real option list"
  c2_hist :: "real option list"
  g_hist :: "real list"

definition initial_state :: "store \<Rightarrow> rng \<Rightarrow> state" where
  "initial_state st g =
     \<lparr>st_store = st, st_rng = g, st_calls = 0, st_trace = [],
      c1_hist = [], c2_hist = [], g_hist = []\<rparr>"

text \<open>\<^verbatim>\<open>model.train_on_batch(X, y)\<close> on the compiled model \<open>m\<close>, known to the loop as \<open>mid\<close>.\<close>

definition train_on_batch ::
  "env \<Rightarrow> model_id \<Rightarrow> compiled \<Rightarrow> tensor list \<Rightarrow> tensor list \<Rightarrow> state \<Rightarrow> error + (real \<times> state)" where
  "train_on_batch e mid m X y s =
     (case backend e mid (st_calls s) (st_store s) X y of
        None \<Rightarrow> Inl BackendError
      | Some r \<Rightarrow>
          (let st' = apply_updates m r (st_store s)
           in Inr (loss r,
                   s\<lparr>st_store := st', st_calls := Suc (st_calls s),
                     st_trace := st_trace s @ [TrainOnBatch mid X y (loss r) st']\<rparr>)))"

text \<open>
  numpy's \<^verbatim>\<open>mean\<close> of a list of losses; of the empty list it is not-a-number (\<open>None\<close>).
\<close>

definition mean :: "real list \<Rightarrow> real option" where
  "mean xs = (if xs = [] then None else Some (sum_list xs / real (length xs)))"

text \<open>
  \<^verbatim>\<open>
  def summarize_performance(step, g_model, latent_dim, n_samples=100):
      X, _ = generate_fake_samples(g_model, latent_dim, n_samples)
      X = (X + 1) / 2.0
      for i in range(4 * 6):
          ... pyplot.imshow(X[i, :, :, 0], cmap='gray_r')
      filename1 = 'generated_plot_%04d.png' % (step+1)
      pyplot.savefig(filename1)
      pyplot.close()
      filename2 = 'model_%04d.h5' % (step+1)
      g_model.save(filename2)
  \<close>
\<close>

definition summarize_performance :: "env \<Rightarrow> nat \<Rightarrow> nat \<Rightarrow> nat \<Rightarrow> state \<Rightarrow> error + state" where
  "summarize_performance e step latent_dim n_samples s =
     (case generate_fake_samples (forward e (generator_net (st_store s))) latent_dim n_samples
             (st_rng s) of
        Inl err \<Rightarrow> Inl err
      | Inr ((X, _), g') \<Rightarrow>
          if n_samples < 4 * 6 then Inl IndexError
          else if \<not> sink_ok e (step + 1) then Inl SinkError
          else Inr (s\<lparr>st_rng := g',
                      st_trace := st_trace s @
                        [Checkpoint (step + 1)
                           (map (\<lambda>i. map (\<lambda>v. (v + 1) / 2) (X ! i)) [0..<4 * 6])
                           (generator_net (st_store s))]\<rparr>))"

definition plot_history :: "env \<Rightarrow> state \<Rightarrow> error + state" where
  "plot_history e s =
     (if plot_ok e
      then Inr (s\<lparr>st_trace := st_trace s @ [PlotHistory (c1_hist s) (c2_hist s) (g_hist s)]\<rparr>)
      else Inl SinkError)"

text \<open>The values \<^verbatim>\<open>train\<close> computes before its loop, and its arguments.\<close>

record params =
  p_c_model :: compiled
  p_gan_model :: compiled
  p_dataset :: "tensor list"
  p_latent_dim :: nat
  p_n_batch :: nat
  p_n_critic :: nat
  p_bat_per_epo :: nat
  p_half_batch :: nat

text \<open>
  The body of \<^verbatim>\<open>for _ in range(n_critic)\<close>:
  \<^verbatim>\<open>
  X_real, y_real = generate_real_samples(dataset, half_batch)
  c_loss1 = c_model.train_on_batch(X_real, y_real)
  c1_tmp.append(c_loss1)
  X_fake, y_fake = generate_fake_samples(g_model, latent_dim, half_batch)
  c_loss2 = c_model.train_on_batch(X_fake, y_fake)
  c2_tmp.append(c_loss2)
  \<close>
\<close>

definition critic_substep :: "env \<Rightarrow> params \<Rightarrow> state \<Rightarrow> error + (state \<times> real \<times> real)" where
  "critic_substep e p s =
     (case generate_real_samples (p_dataset p) (p_half_batch p) (st_rng s) of
        Inl err \<Rightarrow> Inl err
      | Inr ((X_real, y_real), g1) \<Rightarrow>
     (case train_on_batch e CModel (p_c_model p) X_real y_real (s\<lparr>st_rng := g1\<rparr>) of
        Inl err \<Rightarrow> Inl err
      | Inr (c_loss1, s1) \<Rightarrow>
     (case generate_fake_samples (forward e (generator_net (st_store s1))) (p_latent_dim p)
             (p_half_batch p) (st_rng s1) of
        Inl err \<Rightarrow> Inl err
      | Inr ((X_fake, y_fake), g2) \<Rightarrow>
     (case train_on_batch e CModel (p_c_model p) X_fake y_fake (s1\<lparr>st_rng := g2\<rparr>) of
        Inl err \<Rightarrow> Inl err
      | Inr (c_loss2, s2) \<Rightarrow> Inr (s2, c_loss1, c_loss2)))))"

fun critic_loop ::
  "env \<Rightarrow> params \<Rightarrow> nat \<Rightarrow> state \<times> real list \<times> real list \<Rightarrow> error + (state \<times> real list \<times> real list)" where
  "critic_loop e p 0 acc = Inr acc"
| "critic_loop e p (Suc k) (s, c1_tmp, c2_tmp) =
     (case critic_substep e p s of
        Inl err \<Rightarrow> Inl err
      | Inr (s', c_loss1, c_loss2) \<Rightarrow>
          critic_loop e p k (s', c1_tmp @ [c_loss1], c2_tmp @ [c_loss2]))"

text \<open>
  The body of \<^verbatim>\<open>for i in range(n_steps)\<close>: the critic's sub-steps, the two means, the
  generator's update through the composite, and the checkpoint when
  \<^verbatim>\<open>(i+1) % bat_per_epo == 0\<close>. (The line printed for every step is not modelled.)
\<close>

definition train_step :: "env \<Rightarrow> params \<Rightarrow> nat \<Rightarrow> state \<Rightarrow> error + state" where
  "train_step e p i s =
     (case critic_loop e p (p_n_critic p) (s, [], []) of
        Inl err \<Rightarrow> Inl err
      | Inr (s1, c1_tmp, c2_tmp) \<Rightarrow>
     (let s2 = s1\<lparr>c1_hist := c1_hist s1 @ [mean c1_tmp], c2_hist := c2_hist s1 @ [mean c2_tmp]\<rparr>
      in
     (case generate_latent_points (p_latent_dim p) (p_n_batch p) (st_rng s2) of
        Inl err \<Rightarrow> Inl err
      | Inr (X_gan, g') \<Rightarrow>
     (let y_gan = neg (ones (p_n_batch p) 1)
      in
     (case train_on_batch e GanModel (p_gan_model p) X_gan y_gan (s2\<lparr>st_rng := g'\<rparr>) of
        Inl err \<Rightarrow> Inl err
      | Inr (g_loss, s3) \<Rightarrow>
     (let s4 = s3\<lparr>g_hist := g_hist s3 @ [g_loss]\<rparr>
      in if p_bat_per_epo p = 0 then Inl ZeroDivisionError
         else if (i + 1) mod p_bat_per_epo p = 0
         then summarize_performance e i (p_latent_dim p) 100 s4
         else Inr s4))))))"

fun train_loop :: "env \<Rightarrow> params \<Rightarrow> nat list \<Rightarrow> state \<Rightarrow> error + state" where
  "train_loop e p [] s = Inr s"
| "train_loop e p (i # steps) s =
     (case train_step e p i s of
        Inl err \<Rightarrow> Inl err
      | Inr s' \<Rightarrow> train_loop e p steps s')"

text \<open>
  \<^verbatim>\<open>
  def train(g_model, c_model, gan_model, dataset, latent_dim, n_epochs=30, n_batch=64, n_critic=10):
      bat_per_epo = int(dataset.shape[0] / n_batch)
      n_steps = bat_per_epo * n_epochs
      half_batch = int(n_batch / 2)
      c1_hist, c2_hist, g_hist = list(), list(), list()
      for i in range(n_steps):
          ...
      plot_history(c1_hist, c2_hist, g_hist)
  \<close>
  \<open>g_model\<close> is the generator of the store held by the state. The sizes and counts are
  natural numbers, on which \<^verbatim>\<open>int(a / b)\<close> is the integer quotient; the division by a
  batch size of zero raises. \<open>train_params\<close> holds the arguments and \<open>bat_per_epo\<close>
  and \<open>half_batch\<close>.
\<close>

definition train_params ::
  "compiled \<Rightarrow> compiled \<Rightarrow> tensor list \<Rightarrow> nat \<Rightarrow> nat \<Rightarrow> nat \<Rightarrow> params" where
  "train_params c_model gan_model dataset latent_dim n_batch n_critic =
     \<lparr>p_c_model = c_model, p_gan_model = gan_model, p_dataset = dataset,
      p_latent_dim = latent_dim, p_n_batch = n_batch, p_n_critic = n_critic,
      p_bat_per_epo = length dataset div n_batch,
      p_half_batch = n_batch div 2\<rparr>"

definition train ::
  "env \<Rightarrow> state \<Rightarrow> compiled \<Rightarrow> compiled \<Rightarrow> tensor list \<Rightarrow> nat \<Rightarrow> nat \<Rightarrow> nat \<Rightarrow> nat \<Rightarrow> error + state" where
  "train e s c_model gan_model dataset latent_dim n_epochs n_batch n_critic =
     (if n_batch = 0 then Inl ZeroDivisionError
      else
        (let p = train_params c_model gan_model dataset latent_dim n_batch n_critic;
             n_steps = p_bat_per_epo p * n_epochs
         in (case train_loop e p [0..<n_steps]
                    (s\<lparr>c1_hist := [], c2_hist := [], g_hist := []\<rparr>) of
               Inl err \<Rightarrow> Inl err
             | Inr s' \<Rightarrow> plot_history e s')))"

section \<open>Reading a trace\<close>

text \<open>The losses the updates of one model returned, in the order of the updates.\<close>

fun model_losses :: "model_id \<Rightarrow> event list \<Rightarrow> real list" where
  "model_losses mid [] = []"
| "model_losses mid (TrainOnBatch mid' X y l w # evs) =
     (if mid' = mid then l # model_losses mid evs else model_losses mid evs)"
| "model_losses mid (Checkpoint t imgs g # evs) = model_losses mid evs"
| "model_losses mid (PlotHistory c1 c2 g # evs) = model_losses mid evs"

text \<open>The tags of the checkpoints, in order.\<close>

fun checkpoint_tags :: "event list \<Rightarrow> nat list" where
  "checkpoint_tags [] = []"
| "checkpoint_tags (Checkpoint t imgs g # evs) = t # checkpoint_tags evs"
| "checkpoint_tags (TrainOnBatch mid X y l w # evs) = checkpoint_tags evs"
| "checkpoint_tags (PlotHistory c1 c2 g # evs) = checkpoint_tags evs"

text \<open>The first, third, ... and the second, fourth, ... elements of a list.\<close>

fun evens :: "'a list \<Rightarrow> 'a list" where
  "evens [] = []"
| "evens [x] = [x]"
| "evens (x # y # xs) = x # evens xs"

fun odds :: "'a list \<Rightarrow> 'a list" where
  "odds [] = []"
| "odds [x] = []"
| "odds (x # y # xs) = y # odds xs"

text \<open>
  The events of one sub-step of the critic: an update of the critic's model on
  \<open>half_batch\<close> images of the dataset labelled \<open>-1\<close>, then an update of the critic's
  model on the generator's outputs for \<open>half_batch\<close> latent points of dimension
  \<open>latent_dim\<close>, labelled \<open>+1\<close>.
\<close>

definition is_critic_substep :: "env \<Rightarrow> params \<Rightarrow> event list \<Rightarrow> bool" where
  "is_critic_substep e p sub \<longleftrightarrow>
     (\<exists>X_real l1 w1 z l2 w2.
        sub = [TrainOnBatch CModel X_real (replicate (p_half_batch p) [- 1]) l1 w1,
               TrainOnBatch CModel (map (forward e (generator_net w1)) z)
                 (replicate (p_half_batch p) [1]) l2 w2]
        \<and> length X_real = p_half_batch p \<and> set X_real \<subseteq> set (p_dataset p)
        \<and> length z = p_half_batch p \<and> (\<forall>r\<in>set z. length r = p_latent_dim p))"

text \<open>
  The generator's update: one update of the composite on \<open>n_batch\<close> latent points of
  dimension \<open>latent_dim\<close>, all labelled \<open>-1\<close>.
\<close>

definition is_generator_update :: "params \<Rightarrow> event \<Rightarrow> bool" where
  "is_generator_update p ev \<longleftrightarrow>
     (\<exists>z l w. ev = TrainOnBatch GanModel z (replicate (p_n_batch p) [- 1]) l w
        \<and> length z = p_n_batch p \<and> (\<forall>r\<in>set z. length r = p_latent_dim p))"

text \<open>
  The events of training step \<open>i\<close> (counted from zero): \<open>n_critic\<close> sub-steps of the critic,
  then the generator's update, then one checkpoint tagged \<open>i + 1\<close> when \<open>i + 1\<close> is a
  multiple of the number of batches per epoch, and nothing else.
\<close>

definition is_train_step :: "env \<Rightarrow> params \<Rightarrow> nat \<Rightarrow> event list \<Rightarrow> bool" where
  "is_train_step e p i evs \<longleftrightarrow>
     (\<exists>subs gen ckpt.
        evs = concat subs @ gen # ckpt
        \<and> length subs = p_n_critic p
        \<and> (\<forall>sub\<in>set subs. is_critic_substep e p sub)
        \<and> is_generator_update p gen
        \<and> (if (i + 1) mod p_bat_per_epo p = 0
            then \<exists>imgs g. ckpt = [Checkpoint (i + 1) imgs g]
            else ckpt = []))"

section \<open>Predicates of the statements\<close>

text \<open>
  The backend answered call number \<open>c\<close> for at least one choice of arguments; and an
  environment in which no backend call and no sink ever fails.
\<close>

definition replied :: "env \<Rightarrow> nat \<Rightarrow> bool" where
  "replied e c \<longleftrightarrow> (\<exists>mid st X y. backend e mid c st X y \<noteq> None)"

definition backend_total :: "env \<Rightarrow> bool" where
  "backend_total e \<longleftrightarrow> (\<forall>mid c st X y. backend e mid c st X y \<noteq> None)"

definition reliable :: "env \<Rightarrow> bool" where
  "reliable e \<longleftrightarrow> backend_total e \<and> (\<forall>t. sink_ok e t) \<and> plot_ok e"


text \<open>
  A weight is in range when it has no constraint or every entry of its value lies
  within the bound of its constraint; a network is when all its weights are.
\<close>

definition weight_in_range :: "weight \<Rightarrow> bool" where
  "weight_in_range w =
     (case w_constraint w of
        None \<Rightarrow> True
      | Some k \<Rightarrow> list_all (\<lambda>v. - clip_value k \<le> v \<and> v \<le> clip_value k) (w_value w))"

definition constrained_in_range :: "layer list \<Rightarrow> bool" where
  "constrained_in_range ls = list_all (\<lambda>l. list_all weight_in_range (l_weights l)) ls"

text \<open>Every entry of every weight of a network lies within \<open>[-c, c]\<close>.\<close>

definition all_within :: "real \<Rightarrow> layer list \<Rightarrow> bool" where
  "all_within c ls =
     list_all (\<lambda>l. list_all (\<lambda>w. list_all (\<lambda>v. - c \<le> v \<and> v \<le> c) (w_value w)) (l_weights l)) ls"

text \<open>
  What an update never changes of a network: the kinds and flags of its layers and the
  names, constraints and trainability of their weights.
\<close>

type_synonym skeleton = "(layer_kind \<times> bool \<times> (string \<times> ClipConstraint option \<times> bool) list) list"

definition skeleton :: "layer list \<Rightarrow> skeleton" where
  "skeleton ls =
     map (\<lambda>l. (l_kind l, trainable l,
                map (\<lambda>w. (w_name w, w_constraint w, w_trainable w)) (l_weights l))) ls"

text \<open>
  Every constrained weight of the critic, by its place in the skeleton, is one of the
  weights the compiled model \<open>m\<close> updates, is a trainable weight, and has a bound that
  is not negative.
\<close>

definition covered :: "compiled \<Rightarrow> skeleton \<Rightarrow> bool" where
  "covered m sk =
     list_all (\<lambda>i. list_all (\<lambda>j.
         (case snd (snd (sk ! i)) ! j of
            (_, None, _) \<Rightarrow> True
          | (_, Some k, tr) \<Rightarrow>
              (Critic, i, j) \<in> set (collected_trainable_weights m) \<and> 0 \<le> clip_value k \<and> tr))
       [0..<length (snd (snd (sk ! i)))]) [0..<length sk]"

text \<open>
  The invariant of a run, for the updates of the models selected by \<open>which\<close>: the critic
  keeps its skeleton \<open>sk\<close>, every selected update that has happened left the
  constrained weights of the critic in range, and, when the composite's updates are
  selected, so does the store as soon as one update has happened.
\<close>

fun is_update :: "event \<Rightarrow> bool" where
  "is_update (TrainOnBatch mid X y l w) = True"
| "is_update (Checkpoint t imgs g) = False"
| "is_update (PlotHistory c1 c2 g) = False"

definition range_invariant :: "(model_id \<Rightarrow> bool) \<Rightarrow> skeleton \<Rightarrow> state \<Rightarrow> bool" where
  "range_invariant which sk s \<longleftrightarrow>
     skeleton (critic_net (st_store s)) = sk
     \<and> (\<forall>mid X y l w. TrainOnBatch mid X y l w \<in> set (st_trace s) \<and> which mid \<longrightarrow>
           constrained_in_range (critic_net w) \<and> skeleton (critic_net w) = sk)
     \<and> (which GanModel \<and> list_ex is_update (st_trace s) \<longrightarrow>
           constrained_in_range (critic_net (st_store s)))"

text \<open>
  What the two kinds of update store on the notebook's models, written out weight by
  weight; the statement on the order of a step compares these with what
  \<open>train_on_batch\<close> stores through the collected weights, the flags and the constraints.
  \<open>set_values f l\<close> is the layer \<open>l\<close> with the value of its \<open>j\<close>-th weight \<open>w\<close> replaced by
  \<open>f j w\<close>. An update of the critic replaces the value of every weight of the critic by
  the value the optimizer step computes for it, passed through the weight's constraint,
  and leaves the generator as it is. An update through the composite replaces the value
  of every weight of the generator, and of every weight of the critic's normalization
  layers (their flags stay on in \<^verbatim>\<open>define_wgan\<close>), by the value the step computes for it,
  and leaves the other layers of the critic as they are.
\<close>

definition set_values :: "(nat \<Rightarrow> weight \<Rightarrow> tensor) \<Rightarrow> layer \<Rightarrow> layer" where
  "set_values f l =
     l\<lparr>l_weights := map (\<lambda>j. (l_weights l ! j)\<lparr>w_value := f j (l_weights l ! j)\<rparr>)
                        [0..<length (l_weights l)]\<rparr>"

definition critic_update :: "step_result \<Rightarrow> store \<Rightarrow> store" where
  "critic_update r st =
     \<lparr>critic_net =
        map (\<lambda>i. set_values
                    (\<lambda>j w. apply_constraint (w_constraint w) (new_value r (Critic, i, j)))
                    (critic_net st ! i))
          [0..<length (critic_net st)],
      generator_net = generator_net st\<rparr>"

definition generator_update :: "step_result \<Rightarrow> store \<Rightarrow> store" where
  "generator_update r st =
     \<lparr>critic_net =
        map (\<lambda>i. if l_kind (critic_net st ! i) = BatchNormalization
                  then set_values (\<lambda>j w. new_value r (Critic, i, j)) (critic_net st ! i)
                  else critic_net st ! i)
          [0..<length (critic_net st)],
      generator_net =
        map (\<lambda>i. set_values (\<lambda>j w. new_value r (Generator, i, j)) (generator_net st ! i))
          [0..<length (generator_net st)]\<rparr>"

text \<open>
  A trace replays from call number \<open>c\<close> and store \<open>st\<close> when every update in it is the
  backend's answer to the call of that number, for the event's model, batch and labels,
  on the store the previous update left (\<open>st\<close> for the first); its loss is the loss the
  backend reports and its store is what an update of its kind stores; and every
  checkpoint saves the generator of the store of that moment.
\<close>

fun replay :: "env \<Rightarrow> nat \<Rightarrow> store \<Rightarrow> event list \<Rightarrow> bool" where
  "replay e c st [] = True"
| "replay e c st (TrainOnBatch mid X y l w # evs) =
     (case backend e mid c st X y of
        None \<Rightarrow> False
      | Some r \<Rightarrow>
          l = loss r
          \<and> w = (case mid of CModel \<Rightarrow> critic_update r st | GanModel \<Rightarrow> generator_update r st)
          \<and> replay e (Suc c) w evs)"
| "replay e c st (Checkpoint t imgs g # evs) = (g = generator_net st \<and> replay e c st evs)"
| "replay e c st (PlotHistory c1 c2 g # evs) = replay e c st evs"

text \<open>The store a trace leaves behind: the store of its last update.\<close>

fun final_store :: "store \<Rightarrow> event list \<Rightarrow> store" where
  "final_store st [] = st"
| "final_store st (TrainOnBatch mid X y l w # evs) = final_store w evs"
| "final_store st (Checkpoint t imgs g # evs) = final_store st evs"
| "final_store st (PlotHistory c1 c2 g # evs) = final_store st evs"

text \<open>
  The invariant of a run that starts from the store \<open>st0\<close> with an empty trace and no call
  made: the trace replays, the state counts its updates and holds the store the trace
  leaves, and the two networks keep their skeletons.
\<close>

definition replayed :: "env \<Rightarrow> store \<Rightarrow> state \<Rightarrow> bool" where
  "replayed e st0 s \<longleftrightarrow>
     replay e 0 st0 (st_trace s)
     \<and> st_calls s = length (filter is_update (st_trace s))
     \<and> st_store s = final_store st0 (st_trace s)
     \<and> skeleton (critic_net (st_store s)) = skeleton (critic_net st0)
     \<and> skeleton (generator_net (st_store s)) = skeleton (generator_net st0)"

text \<open>
  The constraints of the critic's weights, layer by layer, as \<^verbatim>\<open>define_critic\<close> attaches
  them: \<^verbatim>\<open>kernel_constraint=const\<close> on the four \<^verbatim>\<open>Conv2D\<close> layers and nothing else.
\<close>

definition critic_constraints :: "ClipConstraint option list list" where
  "critic_constraints =
     (let k = Some \<lparr>clip_value = 0.005\<rparr>;
          conv = [k, None];
          norm = [None, None, None, None]
      in [conv, norm, [], conv, norm, [], conv, norm, [], conv, norm, [], [], [None, None]])"

section \<open>A concrete environment for the examples\<close>

text \<open>
  The examples run the definitions on a backend whose optimizer step lowers every entry
  of every weight by \<open>0.0001\<close> and reports the number of the call as its loss, a
  generator whose forward pass divides its latent point by ten, sinks that accept every
  file, a random source that counts, and kernels drawn as \<open>[0.02, -0.01]\<close>.
\<close>

definition demo_backend ::
  "model_id \<Rightarrow> nat \<Rightarrow> store \<Rightarrow> tensor list \<Rightarrow> tensor list \<Rightarrow> step_result option" where
  "demo_backend mid c st X y =
     Some \<lparr>loss = real c,
           new_value = (\<lambda>(n, i, j). map (\<lambda>v. v - 1 / 10000) (w_value (l_weights (net_layers st n ! i) ! j)))\<rparr>"

definition demo_env :: env where
  "demo_env = \<lparr>backend = demo_backend, forward = (\<lambda>ls z. map (\<lambda>v. v / 10) z),
               sink_ok = (\<lambda>t. True), plot_ok = True\<rparr>"

definition demo_rng :: rng where
  "demo_rng = \<lparr>ints = id, normals = real\<rparr>"

definition demo_init :: "nat \<Rightarrow> tensor" where
  "demo_init i = [0.02, - 0.01]"

text \<open>
  Three more backends for the examples of failing runs: one that refuses every batch of
  the critic holding an image whose size is not \<open>d\<close>, one that refuses the critic's fake
  batches (those with a label \<open>+1\<close>), and one that refuses the updates of the composite.
\<close>

definition shape_env :: "nat \<Rightarrow> env" where
  "shape_env d =
     demo_env\<lparr>backend := (\<lambda>mid c st X y.
       if mid = CModel \<and> list_ex (\<lambda>x. length x \<noteq> d) X then None
       else demo_backend mid c st X y)\<rparr>"

definition fake_refusing_env :: env where
  "fake_refusing_env =
     demo_env\<lparr>backend := (\<lambda>mid c st X y.
       if mid = CModel \<and> [1] \<in> set y then None else demo_backend mid c st X y)\<rparr>"

definition composite_refusing_env :: env where
  "composite_refusing_env =
     demo_env\<lparr>backend := (\<lambda>mid c st X y.
       if mid = GanModel then None else demo_backend mid c st X y)\<rparr>"

section \<open>The weight constraint\<close>

lemma clip_entry_bounds:
  "0 \<le> c \<Longrightarrow> - c \<le> max (- c) (min c (v::real)) \<and> max (- c) (min c v) \<le> c"
  by auto

lemma clip_entry_fixed:
  "- c \<le> (v::real) \<Longrightarrow> v \<le> c \<Longrightarrow> max (- c) (min c v) = v"
  by auto

lemma ClipConstraint_call_bounds:
  assumes "0 \<le> clip_value k" and "v \<in> set (ClipConstraint_call k w)"
  shows "- clip_value k \<le> v \<and> v \<le> clip_value k"
  using assms clip_entry_bounds [of "clip_value k"]
  by (auto simp: ClipConstraint_call_def backend_clip_def)

lemma ClipConstraint_call_fixed:
  assumes "\<forall>v\<in>set w. - clip_value k \<le> v \<and> v \<le> clip_value k"
  shows "ClipConstraint_call k w = w"
  unfolding ClipConstraint_call_def backend_clip_def
  using assms by (intro map_idI) (simp add: clip_entry_fixed)

lemma length_ClipConstraint_call [simp]:
  "length (ClipConstraint_call k w) = length w"
  by (simp add: ClipConstraint_call_def backend_clip_def)

text \<open>
  Claim C2. For every weight tensor \<open>w\<close> and every clip bound \<open>c > 0\<close>: clipping is
  idempotent, every entry of the clipped tensor lies in \<open>[-c, c]\<close>, and a tensor whose
  entries already lie in \<open>[-c, c]\<close> is returned unchanged.
\<close>

theorem clip_idempotent_and_bounded:
  assumes "0 < clip_value k"
  shows "ClipConstraint_call k (ClipConstraint_call k w) = ClipConstraint_call k w
       \<and> (\<forall>v\<in>set (ClipConstraint_call k w). - clip_value k \<le> v \<and> v \<le> clip_value k)
       \<and> ((\<forall>v\<in>set w. - clip_value k \<le> v \<and> v \<le> clip_value k)
            \<longrightarrow> ClipConstraint_call k w = w)"
proof -
  have c: "0 \<le> clip_value k" using assms by simp
  have inside: "\<forall>v\<in>set (ClipConstraint_call k w). - clip_value k \<le> v \<and> v \<le> clip_value k"
    using ClipConstraint_call_bounds [OF c] by blast
  have idem: "ClipConstraint_call k (ClipConstraint_call k w) = ClipConstraint_call k w"
    using inside by (rule ClipConstraint_call_fixed)
  show ?thesis
    using inside idem ClipConstraint_call_fixed [of w k] by blast
qed

theorem clip_idempotent_and_bounded_witness:
  "(0::real) < clip_value \<lparr>clip_value = 0.005\<rparr>
   \<and> ClipConstraint_call \<lparr>clip_value = 0.005\<rparr> [0.02, - 0.3, 0.001] = [0.005, - 0.005, 0.001]
   \<and> ClipConstraint_call \<lparr>clip_value = 0.005\<rparr>
        (ClipConstraint_call \<lparr>clip_value = 0.005\<rparr> [0.02, - 0.3, 0.001])
      = ClipConstraint_call \<lparr>clip_value = 0.005\<rparr> [0.02, - 0.3, 0.001]
   \<and> ClipConstraint_call \<lparr>clip_value = 0.005\<rparr> [0.005, - 0.005, 0.001]
      = [0.005, - 0.005, 0.001]"
proof -
  have pos: "(0::real) < clip_value \<lparr>clip_value = 0.005\<rparr>" by simp
  have inside: "\<forall>v\<in>set [0.005, - 0.005, 0.001 :: real].
      - clip_value \<lparr>clip_value = 0.005\<rparr> \<le> v \<and> v \<le> clip_value \<lparr>clip_value = 0.005\<rparr>"
    by simp
  have val: "ClipConstraint_call \<lparr>clip_value = 0.005\<rparr> [0.02, - 0.3, 0.001]
      = [0.005, - 0.005, 0.001]"
    by (simp add: ClipConstraint_call_def backend_clip_def)
  show ?thesis
    using pos val inside
      clip_idempotent_and_bounded [OF pos, of "[0.02, - 0.3, 0.001]"]
      clip_idempotent_and_bounded [OF pos, of "[0.005, - 0.005, 0.001]"]
    by blast
qed

section \<open>The loss\<close>

lemma sum_list_map2_nth:
  "length xs = length ys \<Longrightarrow>
   sum_list (map2 (*) xs ys) = (\<Sum>i<length ys. xs ! i * (ys ! i :: real))"
proof (induction xs ys rule: list_induct2)
  case Nil
  then show ?case by simp
next
  case (Cons x xs y ys)
  have "(\<Sum>i<Suc (length ys). (x # xs) ! i * (y # ys) ! i)
        = x * y + (\<Sum>i<length ys. xs ! i * ys ! i)"
    by (subst sum.lessThan_Suc_shift) simp
  with Cons show ?case by simp
qed

lemma map2_all_same:
  "length xs = length ys \<Longrightarrow> \<forall>v\<in>set xs. v = c \<Longrightarrow>
   map2 (*) xs ys = map (\<lambda>v. c * (v::real)) ys"
  by (induction xs ys rule: list_induct2) auto

lemma sum_list_uminus: "sum_list (map (\<lambda>v. - 1 * (v::real)) ys) = - sum_list ys"
  by (induction ys) auto

text \<open>
  Claim C3. For vectors \<open>y_true\<close> and \<open>y_pred\<close> of equal length the loss is the mean of
  the entrywise products; when every label is \<open>-1\<close> it is the negated mean of \<open>y_pred\<close>,
  and when every label is \<open>+1\<close> it is the mean of \<open>y_pred\<close>.
\<close>

theorem wasserstein_loss_mean:
  assumes "length y_true = length y_pred"
  shows "wasserstein_loss y_true y_pred =
           Inr (if y_pred = [] then None
                else Some ((\<Sum>i<length y_pred. y_true ! i * y_pred ! i) / real (length y_pred)))
       \<and> ((\<forall>v\<in>set y_true. v = - 1) \<longrightarrow>
            wasserstein_loss y_true y_pred = Inr (map_option uminus (backend_mean y_pred)))
       \<and> ((\<forall>v\<in>set y_true. v = 1) \<longrightarrow>
            wasserstein_loss y_true y_pred = Inr (backend_mean y_pred))"
proof -
  have general: "wasserstein_loss y_true y_pred =
      Inr (if y_pred = [] then None
           else Some ((\<Sum>i<length y_pred. y_true ! i * y_pred ! i) / real (length y_pred)))"
    using assms sum_list_map2_nth [OF assms]
    by (auto simp: wasserstein_loss_def tensor_mul_def backend_mean_def)
  have neg: "wasserstein_loss y_true y_pred = Inr (map_option uminus (backend_mean y_pred))"
    if "\<forall>v\<in>set y_true. v = - 1"
    using assms map2_all_same [OF assms that] sum_list_uminus [of y_pred]
    by (auto simp: wasserstein_loss_def tensor_mul_def backend_mean_def)
  have pos: "wasserstein_loss y_true y_pred = Inr (backend_mean y_pred)"
    if "\<forall>v\<in>set y_true. v = 1"
    using assms map2_all_same [OF assms that]
    by (auto simp: wasserstein_loss_def tensor_mul_def backend_mean_def)
  show ?thesis using general neg pos by blast
qed

theorem wasserstein_loss_mean_witness:
  "length [- 1, - 1 :: real] = length [3, 5 :: real]
   \<and> wasserstein_loss [- 1, - 1] [3, 5] = Inr (Some (- 4))
   \<and> wasserstein_loss [1, 1] [3, 5] = Inr (Some 4)
   \<and> wasserstein_loss [- 1, 1] [3, 5] = Inr (Some 1)"
proof -
  have len: "length [- 1, - 1 :: real] = length [3, 5 :: real]" by simp
  have len1: "length [1, 1 :: real] = length [3, 5 :: real]" by simp
  have len2: "length [- 1, 1 :: real] = length [3, 5 :: real]" by simp
  have m: "backend_mean [3, 5] = Some 4" by (simp add: backend_mean_def)
  have s: "(\<Sum>i<length [3, 5 :: real]. [- 1, 1] ! i * [3, 5 :: real] ! i) = 2"
    by (simp add: lessThan_Suc)
  show ?thesis
    using len m s wasserstein_loss_mean [OF len] wasserstein_loss_mean [OF len1]
      wasserstein_loss_mean [OF len2]
    by simp
qed

section \<open>The sample generators\<close>

lemma randint_Inr:
  "low < high \<Longrightarrow>
   randint low high sz g =
     Inr (map (\<lambda>k. low + ints g k mod (high - low)) [0..<sz],
          if sz = 0 then g else g\<lparr>ints := (\<lambda>k. ints g (k + sz))\<rparr>)"
  by (simp add: randint_def)

lemma randint_empty_range:
  "high \<le> low \<Longrightarrow> 0 < sz \<Longrightarrow> randint low high sz g = Inl ValueError"
  by (simp add: randint_def)

lemma row_length:
  assumes "i < n" and "length x = n * L"
  shows "length (take L (drop (i * L) x)) = L"
proof -
  have "Suc i * L \<le> n * L" using assms(1) by (intro mult_le_mono1) simp
  then show ?thesis using assms(2) by simp
qed

lemma generate_latent_points_Inr:
  "generate_latent_points latent_dim n g =
     Inr (map (\<lambda>i. take latent_dim (drop (i * latent_dim) (map (normals g) [0..<latent_dim * n])))
            [0..<n],
          g\<lparr>normals := (\<lambda>k. normals g (k + latent_dim * n))\<rparr>)"
  by (simp add: generate_latent_points_def randn_def reshape2_def mult.commute)

lemma generate_latent_points_shape:
  assumes "generate_latent_points latent_dim n g = Inr (z, g')"
  shows "length z = n \<and> (\<forall>r\<in>set z. length r = latent_dim)"
proof -
  have z: "z = map (\<lambda>i. take latent_dim (drop (i * latent_dim)
      (map (normals g) [0..<latent_dim * n]))) [0..<n]"
    using assms by (simp add: generate_latent_points_Inr)
  have "length r = latent_dim" if "r \<in> set z" for r
  proof -
    from that z obtain i where i: "i < n"
      and r: "r = take latent_dim (drop (i * latent_dim) (map (normals g) [0..<latent_dim * n]))"
      by auto
    show ?thesis unfolding r by (rule row_length [OF i]) (simp add: mult.commute)
  qed
  then show ?thesis using z by simp
qed

lemma neg_ones: "neg (ones n m) = replicate n (replicate m (- 1))"
  by (simp add: neg_def ones_def)

lemma generate_real_samples_Inr:
  assumes "dataset \<noteq> []"
  shows "generate_real_samples dataset n g =
     Inr ((map (\<lambda>i. dataset ! i) (map (\<lambda>k. ints g k mod length dataset) [0..<n]),
           replicate n [- 1]),
          if n = 0 then g else g\<lparr>ints := (\<lambda>k. ints g (k + n))\<rparr>)"
  using assms by (simp add: generate_real_samples_def randint_Inr neg_ones)

text \<open>Every vector of indices within range, repeated indices included, is a possible draw.\<close>

lemma generate_real_samples_any_draw:
  assumes "\<forall>i\<in>set ix. i < length dataset"
  shows "\<exists>g'. generate_real_samples dataset (length ix) \<lparr>ints = (\<lambda>k. ix ! k), normals = nm\<rparr>
     = Inr ((map (\<lambda>i. dataset ! i) ix, replicate (length ix) [- 1]), g')"
proof (cases "ix = []")
  case True
  then show ?thesis by (simp add: generate_real_samples_def randint_def neg_ones)
next
  case False
  then have ne: "dataset \<noteq> []" using assms by (cases ix) auto
  have "map (\<lambda>k. ix ! k mod length dataset) [0..<length ix] = ix"
    using assms by (intro nth_equalityI) auto
  then show ?thesis using generate_real_samples_Inr [OF ne, of "length ix" "\<lparr>ints = (\<lambda>k. ix ! k), normals = nm\<rparr>"] by simp
qed

text \<open>
  Claim C4, as amended. For every dataset that holds at least one image and every
  \<open>n \<ge> 1\<close>: \<open>generate_real_samples\<close> returns \<open>n\<close> images, each the dataset's image at an
  index below the dataset's size, with \<open>n\<close> label rows that are all \<open>[-1]\<close>; and
  \<open>generate_fake_samples\<close> returns \<open>n\<close> images, each the generator's output on one of
  the \<open>n\<close> latent points of dimension \<open>latent_dim\<close>, with \<open>n\<close> label rows that are
  all \<open>[1]\<close>. (On an empty dataset numpy's \<^verbatim>\<open>randint\<close> raises, see the counterexample.)
\<close>

theorem sample_generators:
  assumes "dataset \<noteq> []" and "1 \<le> n"
  shows "(\<exists>ix g'. generate_real_samples dataset n g =
              Inr ((map (\<lambda>i. dataset ! i) ix, replicate n [- 1]), g')
            \<and> length ix = n \<and> (\<forall>i\<in>set ix. i < length dataset)
            \<and> length (map (\<lambda>i. dataset ! i) ix) = n
            \<and> (\<forall>x\<in>set (map (\<lambda>i. dataset ! i) ix). x \<in> set dataset))
       \<and> (\<exists>z g'. generate_latent_points latent_dim n g = Inr (z, g')
            \<and> length z = n \<and> (\<forall>r\<in>set z. length r = latent_dim)
            \<and> generate_fake_samples predict latent_dim n g =
                Inr ((map predict z, replicate n [1]), g')
            \<and> length (map predict z) = n)"
proof -
  define ix where "ix = map (\<lambda>k. ints g k mod length dataset) [0..<n]"
  define g1 where "g1 = (if n = 0 then g else g\<lparr>ints := (\<lambda>k. ints g (k + n))\<rparr>)"
  have r: "generate_real_samples dataset n g =
      Inr ((map (\<lambda>i. dataset ! i) ix, replicate n [- 1]), g1)"
    unfolding ix_def g1_def by (rule generate_real_samples_Inr [OF assms(1)])
  have len: "length ix = n" by (simp add: ix_def)
  have range: "\<forall>i\<in>set ix. i < length dataset" using assms(1) by (simp add: ix_def)
  have mem: "\<forall>x\<in>set (map (\<lambda>i. dataset ! i) ix). x \<in> set dataset"
    using range by simp
  have len': "length (map (\<lambda>i. dataset ! i) ix) = n" using len by simp
  have real_part: "\<exists>ix g'. generate_real_samples dataset n g =
              Inr ((map (\<lambda>i. dataset ! i) ix, replicate n [- 1]), g')
            \<and> length ix = n \<and> (\<forall>i\<in>set ix. i < length dataset)
            \<and> length (map (\<lambda>i. dataset ! i) ix) = n
            \<and> (\<forall>x\<in>set (map (\<lambda>i. dataset ! i) ix). x \<in> set dataset)"
    using r len range len' mem by blast
  obtain z g' where z: "generate_latent_points latent_dim n g = Inr (z, g')"
    by (simp add: generate_latent_points_Inr)
  have shape: "length z = n \<and> (\<forall>r\<in>set z. length r = latent_dim)"
    by (rule generate_latent_points_shape [OF z])
  have "z \<noteq> []" using shape assms(2) by auto
  then have f: "generate_fake_samples predict latent_dim n g = Inr ((map predict z, replicate n [1]), g')"
    using z by (simp add: generate_fake_samples_def ones_def)
  have len'': "length (map predict z) = n" using shape by simp
  have fake_part: "\<exists>z g'. generate_latent_points latent_dim n g = Inr (z, g')
            \<and> length z = n \<and> (\<forall>r\<in>set z. length r = latent_dim)
            \<and> generate_fake_samples predict latent_dim n g =
                Inr ((map predict z, replicate n [1]), g')
            \<and> length (map predict z) = n"
    using z shape f len'' by blast
  show ?thesis using real_part fake_part by (rule conjI)
qed

text \<open>
  On the empty dataset a request for one real sample raises: \<^verbatim>\<open>randint(0, 0, 1)\<close> has
  no integer to draw.
\<close>

theorem sample_generators_counterexample:
  "generate_real_samples [] 1 \<lparr>ints = id, normals = real\<rparr> = Inl ValueError"
  by (simp add: generate_real_samples_def randint_def)

theorem sample_generators_witness:
  "[[0.5], [- 0.25 :: real]] \<noteq> [] \<and> (1::nat) \<le> 3
   \<and> fst (projr (generate_real_samples [[0.5], [- 0.25]] 3 \<lparr>ints = id, normals = real\<rparr>))
       = ([[0.5], [- 0.25], [0.5]], [[- 1], [- 1], [- 1]])
   \<and> fst (projr (generate_fake_samples (map (\<lambda>v. v / 10)) 2 3 \<lparr>ints = id, normals = real\<rparr>))
       = ([[0, 0.1], [0.2, 0.3], [0.4, 0.5]], [[1], [1], [1]])"
proof -
  have ne: "[[0.5], [- 0.25 :: real]] \<noteq> []" by simp
  have n: "(1::nat) \<le> 3" by simp
  have a: "fst (projr (generate_real_samples [[0.5], [- 0.25]] 3 \<lparr>ints = id, normals = real\<rparr>))
       = ([[0.5], [- 0.25], [0.5]], [[- 1], [- 1], [- 1]])"
    by (simp add: generate_real_samples_def randint_def neg_ones numeral_3_eq_3 upt_Suc)
  have b: "fst (projr (generate_fake_samples (map (\<lambda>v. v / 10)) 2 3 \<lparr>ints = id, normals = real\<rparr>))
       = ([[0, 0.1], [0.2, 0.3], [0.4, 0.5]], [[1], [1], [1]])"
    by (simp add: generate_fake_samples_def generate_latent_points_def randn_def reshape2_def
        ones_def numeral_3_eq_3 numeral_2_eq_2 upt_Suc)
  show ?thesis
    using ne n a b sample_generators [OF ne n, of "\<lparr>ints = id, normals = real\<rparr>" 2 "map (\<lambda>v. v / 10)"]
    by simp
qed

section \<open>Optimizer updates keep the constrained weights in range\<close>

lemma length_update_net [simp]: "length (update_net m r n ls) = length ls"
  by (simp add: update_net_def)

lemma update_net_nth:
  "i < length ls \<Longrightarrow> update_net m r n ls ! i = update_layer m r n i (ls ! i)"
  by (simp add: update_net_def)

lemma update_layer_simps [simp]:
  "l_kind (update_layer m r n i l) = l_kind l"
  "trainable (update_layer m r n i l) = trainable l"
  "length (l_weights (update_layer m r n i l)) = length (l_weights l)"
  by (simp_all add: update_layer_def)

lemma update_layer_nth:
  "j < length (l_weights l) \<Longrightarrow>
   l_weights (update_layer m r n i l) ! j = update_weight m r n i l j (l_weights l ! j)"
  by (simp add: update_layer_def)

lemma update_weight_simps [simp]:
  "w_name (update_weight m r n i l j w) = w_name w"
  "w_constraint (update_weight m r n i l j w) = w_constraint w"
  "w_trainable (update_weight m r n i l j w) = w_trainable w"
  by (simp_all add: update_weight_def)

lemma skeleton_update_layer:
  "(\<lambda>w. (w_name w, w_constraint w, w_trainable w)) (update_weight m r n i l j w)
   = (w_name w, w_constraint w, w_trainable w)"
  by simp

lemma weights_skeleton_update_layer:
  "map (\<lambda>w. (w_name w, w_constraint w, w_trainable w)) (l_weights (update_layer m r n i l))
   = map (\<lambda>w. (w_name w, w_constraint w, w_trainable w)) (l_weights l)"
  by (rule nth_equalityI) (simp_all add: update_layer_nth)

lemma skeleton_update_net [simp]: "skeleton (update_net m r n ls) = skeleton ls"
  unfolding skeleton_def
  by (rule nth_equalityI) (simp_all add: update_net_nth weights_skeleton_update_layer)

lemma skeleton_nth:
  "i < length ls \<Longrightarrow>
   skeleton ls ! i = (l_kind (ls ! i), trainable (ls ! i),
      map (\<lambda>w. (w_name w, w_constraint w, w_trainable w)) (l_weights (ls ! i)))"
  by (simp add: skeleton_def)

lemma length_skeleton [simp]: "length (skeleton ls) = length ls"
  by (simp add: skeleton_def)

lemma coveredD:
  assumes "covered m (skeleton ls)" and "i < length ls" and "j < length (l_weights (ls ! i))"
    and "w_constraint (l_weights (ls ! i) ! j) = Some k"
  shows "(Critic, i, j) \<in> set (collected_trainable_weights m) \<and> 0 \<le> clip_value k
     \<and> w_trainable (l_weights (ls ! i) ! j)"
proof -
  have "case w_constraint (l_weights (ls ! i) ! j) of
          None \<Rightarrow> True
        | Some k \<Rightarrow> (Critic, i, j) \<in> set (collected_trainable_weights m) \<and> 0 \<le> clip_value k
            \<and> w_trainable (l_weights (ls ! i) ! j)"
    using assms(1-3) by (simp add: covered_def list_all_iff skeleton_nth)
  with assms(4) show ?thesis by simp
qed

lemma weight_in_range_clip:
  assumes "w_constraint w = Some k" and "0 \<le> clip_value k"
  shows "weight_in_range (w\<lparr>w_value := apply_constraint (w_constraint w) v\<rparr>)"
  using assms ClipConstraint_call_bounds [of k _ v]
  by (auto simp: weight_in_range_def apply_constraint_def list_all_iff)

lemma weight_in_range_update:
  assumes "\<And>k. w_constraint w = Some k \<Longrightarrow> 0 \<le> clip_value k \<and> w_trainable w"
    and "(n, i, j) \<in> set (collected_trainable_weights m) \<or> weight_in_range w"
  shows "weight_in_range (update_weight m r n i l j w)"
proof (cases "w_constraint w")
  case None
  then have "w_constraint (update_weight m r n i l j w) = None" by simp
  then show ?thesis unfolding weight_in_range_def by simp
next
  case (Some k)
  with assms(1) have k: "0 \<le> clip_value k" and tr: "w_trainable w" by blast+
  show ?thesis
  proof (cases "(n, i, j) \<in> set (collected_trainable_weights m)")
    case True
    then show ?thesis using weight_in_range_clip [OF Some k] by (simp add: update_weight_def)
  next
    case False
    with assms(2) have "weight_in_range w" by simp
    with False tr show ?thesis by (simp add: update_weight_def)
  qed
qed

lemma constrained_in_range_iff:
  "constrained_in_range ls \<longleftrightarrow>
   (\<forall>i<length ls. \<forall>j<length (l_weights (ls ! i)). weight_in_range (l_weights (ls ! i) ! j))"
  by (simp add: constrained_in_range_def list_all_length)

text \<open>An update of the covering model brings every constrained weight into range.\<close>

lemma constrained_in_range_established:
  assumes "covered m (skeleton ls)"
  shows "constrained_in_range (update_net m r Critic ls)"
  unfolding constrained_in_range_iff
proof (intro allI impI)
  fix i j
  assume i: "i < length (update_net m r Critic ls)"
    and j: "j < length (l_weights (update_net m r Critic ls ! i))"
  then have i': "i < length ls" and j': "j < length (l_weights (ls ! i))"
    by (simp_all add: update_net_nth)
  have "weight_in_range (update_weight m r Critic i (ls ! i) j (l_weights (ls ! i) ! j))"
  proof (rule weight_in_range_update)
    fix k
    assume "w_constraint (l_weights (ls ! i) ! j) = Some k"
    then show "0 \<le> clip_value k \<and> w_trainable (l_weights (ls ! i) ! j)"
      using coveredD [OF assms i' j'] by blast
  next
    show "(Critic, i, j) \<in> set (collected_trainable_weights m)
        \<or> weight_in_range (l_weights (ls ! i) ! j)"
    proof (cases "w_constraint (l_weights (ls ! i) ! j)")
      case None
      then show ?thesis by (simp add: weight_in_range_def)
    next
      case (Some k)
      then show ?thesis using coveredD [OF assms i' j'] by blast
    qed
  qed
  then show "weight_in_range (l_weights (update_net m r Critic ls ! i) ! j)"
    using i' j' by (simp add: update_net_nth update_layer_nth)
qed

text \<open>An update of any model keeps the constrained weights in range.\<close>

lemma constrained_in_range_preserved:
  assumes "covered m0 (skeleton ls)" and "constrained_in_range ls"
  shows "constrained_in_range (update_net m r Critic ls)"
  unfolding constrained_in_range_iff
proof (intro allI impI)
  fix i j
  assume i: "i < length (update_net m r Critic ls)"
    and j: "j < length (l_weights (update_net m r Critic ls ! i))"
  then have i': "i < length ls" and j': "j < length (l_weights (ls ! i))"
    by (simp_all add: update_net_nth)
  have "weight_in_range (l_weights (ls ! i) ! j)"
    using assms(2) i' j' by (simp add: constrained_in_range_iff)
  then have "weight_in_range (update_weight m r Critic i (ls ! i) j (l_weights (ls ! i) ! j))"
    using coveredD [OF assms(1) i' j'] by (intro weight_in_range_update) blast+
  then show "weight_in_range (l_weights (update_net m r Critic ls ! i) ! j)"
    using i' j' by (simp add: update_net_nth update_layer_nth)
qed

lemma apply_updates_simps [simp]:
  "critic_net (apply_updates m r st) = update_net m r Critic (critic_net st)"
  "generator_net (apply_updates m r st) = update_net m r Generator (generator_net st)"
  by (simp_all add: apply_updates_def)

text \<open>The set-up of the notebook.\<close>

lemma notebook_setup_c_model:
  "notebook_setup latent_dim c_init g_init = (st, c_model, gan_model) \<Longrightarrow>
   c_model = snd (define_critic c_init)"
  by (auto simp: notebook_setup_def define_wgan_def Let_def split: prod.splits)

lemma notebook_setup_critic:
  "notebook_setup latent_dim c_init g_init = (st, c_model, gan_model) \<Longrightarrow>
   critic_net st = map freeze (fst (define_critic c_init))"
  by (auto simp: notebook_setup_def define_wgan_def Let_def split: prod.splits)

lemma covered_define_critic:
  "covered (snd (define_critic c_init)) (skeleton (map freeze (fst (define_critic c_init))))"
  by (simp add: covered_def skeleton_def define_critic_def compile_def trainable_weights_def
      layer_trainable_weights_def kernel_layer_def batch_normalization_def plain_layer_def
      freeze_def Let_def upt_conv_Cons)

lemma notebook_setup_covered:
  "notebook_setup latent_dim c_init g_init = (st, c_model, gan_model) \<Longrightarrow>
   covered c_model (skeleton (critic_net st))"
  using covered_define_critic [of c_init] notebook_setup_c_model [of latent_dim c_init g_init st c_model gan_model]
    notebook_setup_critic [of latent_dim c_init g_init st c_model gan_model]
  by simp

section \<open>The composite model and the flags of the critic\<close>

lemma mem_trainable_weights:
  "(n', i, j) \<in> set (trainable_weights n ls) \<longleftrightarrow>
     n' = n \<and> i < length ls \<and> trainable (ls ! i) \<and> j < length (l_weights (ls ! i))
     \<and> w_trainable (l_weights (ls ! i) ! j)"
  by (auto simp: trainable_weights_def layer_trainable_weights_def)

lemma freeze_simps [simp]:
  "l_kind (freeze l) = l_kind l"
  "l_weights (freeze l) = l_weights l"
  "trainable (freeze l) = (l_kind l = BatchNormalization \<and> trainable l)"
  by (simp_all add: freeze_def)

lemma define_wgan_critic:
  "define_wgan st0 = (st, gan_model) \<Longrightarrow> critic_net st = map freeze (critic_net st0)"
  by (auto simp: define_wgan_def Let_def)

lemma define_wgan_collected:
  assumes "define_wgan st0 = (st, gan_model)"
  shows "(Critic, i, j) \<in> set (collected_trainable_weights gan_model) \<longleftrightarrow>
     i < length (critic_net st) \<and> trainable (critic_net st ! i)
     \<and> j < length (l_weights (critic_net st ! i))
     \<and> w_trainable (l_weights (critic_net st ! i) ! j)"
  using assms by (auto simp: define_wgan_def Let_def compile_def mem_trainable_weights)

lemma train_on_batch_Some:
  assumes "backend e mid (st_calls s) (st_store s) X y = Some r"
  shows "train_on_batch e mid m X y s =
     Inr (loss r,
          s\<lparr>st_store := apply_updates m r (st_store s), st_calls := Suc (st_calls s),
            st_trace := st_trace s @ [TrainOnBatch mid X y (loss r) (apply_updates m r (st_store s))]\<rparr>)"
  using assms by (simp add: train_on_batch_def Let_def)

lemma train_on_batch_None:
  "backend e mid (st_calls s) (st_store s) X y = None \<Longrightarrow>
   train_on_batch e mid m X y s = Inl BackendError"
  by (simp add: train_on_batch_def)

lemma train_on_batch_InrE:
  assumes "train_on_batch e mid m X y s = Inr (l, s')"
  obtains r where "backend e mid (st_calls s) (st_store s) X y = Some r"
    and "l = loss r"
    and "s' = s\<lparr>st_store := apply_updates m r (st_store s), st_calls := Suc (st_calls s),
            st_trace := st_trace s @ [TrainOnBatch mid X y (loss r) (apply_updates m r (st_store s))]\<rparr>"
  using assms by (auto simp: train_on_batch_def Let_def split: option.splits)

lemma update_layer_unchanged:
  assumes "\<And>j. j < length (l_weights l) \<Longrightarrow> update_weight m r n i l j (l_weights l ! j) = l_weights l ! j"
  shows "update_layer m r n i l = l"
proof -
  have "map (\<lambda>j. update_weight m r n i l j (l_weights l ! j)) [0..<length (l_weights l)]
      = map (\<lambda>j. l_weights l ! j) [0..<length (l_weights l)]"
    using assms by simp
  then show ?thesis by (simp add: update_layer_def map_nth)
qed

lemma skeleton_eq_nth:
  assumes "skeleton ls = skeleton ls'" and "i < length ls'"
  shows "i < length ls" and "l_kind (ls ! i) = l_kind (ls' ! i)"
    and "trainable (ls ! i) = trainable (ls' ! i)"
    and "length (l_weights (ls ! i)) = length (l_weights (ls' ! i))"
    and "j < length (l_weights (ls' ! i)) \<Longrightarrow>
         w_constraint (l_weights (ls ! i) ! j) = w_constraint (l_weights (ls' ! i) ! j)"
    and "j < length (l_weights (ls' ! i)) \<Longrightarrow>
         w_trainable (l_weights (ls ! i) ! j) = w_trainable (l_weights (ls' ! i) ! j)"
proof -
  have len: "length ls = length ls'"
    using assms(1) by (metis length_skeleton)
  then show i: "i < length ls" using assms(2) by simp
  have eq: "skeleton ls ! i = skeleton ls' ! i" using assms(1) by simp
  then have parts: "l_kind (ls ! i) = l_kind (ls' ! i) \<and> trainable (ls ! i) = trainable (ls' ! i)
      \<and> map (\<lambda>w. (w_name w, w_constraint w, w_trainable w)) (l_weights (ls ! i))
        = map (\<lambda>w. (w_name w, w_constraint w, w_trainable w)) (l_weights (ls' ! i))"
    using i assms(2) by (simp add: skeleton_nth)
  then show "l_kind (ls ! i) = l_kind (ls' ! i)" and "trainable (ls ! i) = trainable (ls' ! i)"
    by simp_all
  from parts have m: "map (\<lambda>w. (w_name w, w_constraint w, w_trainable w)) (l_weights (ls ! i))
        = map (\<lambda>w. (w_name w, w_constraint w, w_trainable w)) (l_weights (ls' ! i))"
    by blast
  have "length (map (\<lambda>w. (w_name w, w_constraint w, w_trainable w)) (l_weights (ls ! i)))
      = length (map (\<lambda>w. (w_name w, w_constraint w, w_trainable w)) (l_weights (ls' ! i)))"
    by (simp only: m)
  then show wl: "length (l_weights (ls ! i)) = length (l_weights (ls' ! i))"
    by simp
  have both: "w_constraint (l_weights (ls ! i) ! j) = w_constraint (l_weights (ls' ! i) ! j)
        \<and> w_trainable (l_weights (ls ! i) ! j) = w_trainable (l_weights (ls' ! i) ! j)"
    if j: "j < length (l_weights (ls' ! i))"
  proof -
    have "map (\<lambda>w. (w_name w, w_constraint w, w_trainable w)) (l_weights (ls ! i)) ! j
        = map (\<lambda>w. (w_name w, w_constraint w, w_trainable w)) (l_weights (ls' ! i)) ! j"
      by (simp only: m)
    then show ?thesis using j wl by simp
  qed
  show "j < length (l_weights (ls' ! i)) \<Longrightarrow>
         w_constraint (l_weights (ls ! i) ! j) = w_constraint (l_weights (ls' ! i) ! j)"
    using both by blast
  show "j < length (l_weights (ls' ! i)) \<Longrightarrow>
         w_trainable (l_weights (ls ! i) ! j) = w_trainable (l_weights (ls' ! i) ! j)"
    using both by blast
qed

text \<open>
  Claim C8. In the composite built by \<open>define_wgan\<close> every layer of the critic that is
  not a normalization layer is marked non-trainable, a normalization layer keeps the
  flag it had, and an optimizer update through the composite leaves every layer of the
  critic that is not a normalization layer as it was, whatever the optimizer computes.
\<close>

theorem composite_update_leaves_frozen_layers:
  assumes "define_wgan st0 = (st, gan_model)"
    and "skeleton (critic_net (st_store s)) = skeleton (critic_net st)"
    and "train_on_batch e GanModel gan_model X y s = Inr (l, s')"
  shows "length (critic_net st) = length (critic_net st0)
       \<and> (\<forall>i<length (critic_net st). l_kind (critic_net st ! i) = l_kind (critic_net st0 ! i))
       \<and> (\<forall>i<length (critic_net st). l_kind (critic_net st ! i) \<noteq> BatchNormalization \<longrightarrow>
            \<not> trainable (critic_net st ! i)
            \<and> critic_net (st_store s') ! i = critic_net (st_store s) ! i)
       \<and> (\<forall>i<length (critic_net st). l_kind (critic_net st ! i) = BatchNormalization \<longrightarrow>
            trainable (critic_net st ! i) = trainable (critic_net st0 ! i)
            \<and> (\<forall>j<length (l_weights (critic_net st ! i)).
                  (Critic, i, j) \<in> set (collected_trainable_weights gan_model) \<longleftrightarrow>
                  trainable (critic_net st0 ! i) \<and> w_trainable (l_weights (critic_net st ! i) ! j)))"
proof -
  have c: "critic_net st = map freeze (critic_net st0)"
    by (rule define_wgan_critic [OF assms(1)])
  obtain r where s': "s' = s\<lparr>st_store := apply_updates gan_model r (st_store s),
        st_calls := Suc (st_calls s),
        st_trace := st_trace s @ [TrainOnBatch GanModel X y (loss r)
          (apply_updates gan_model r (st_store s))]\<rparr>"
    using assms(3) by (rule train_on_batch_InrE)
  have frozen: "\<not> trainable (critic_net st ! i)
      \<and> critic_net (st_store s') ! i = critic_net (st_store s) ! i"
    if i: "i < length (critic_net st)" and k: "l_kind (critic_net st ! i) \<noteq> BatchNormalization"
    for i
  proof -
    let ?cur = "critic_net (st_store s)"
    have flag: "\<not> trainable (critic_net st ! i)" using i k by (simp add: c)
    have i': "i < length ?cur" and k': "l_kind (?cur ! i) = l_kind (critic_net st ! i)"
      using skeleton_eq_nth(1,2) [OF assms(2) i] by simp_all
    have "update_weight gan_model r Critic i (?cur ! i) j (l_weights (?cur ! i) ! j)
        = l_weights (?cur ! i) ! j" for j
      using flag k k' define_wgan_collected [OF assms(1), of i j]
      by (simp add: update_weight_def)
    then have "update_layer gan_model r Critic i (?cur ! i) = ?cur ! i"
      by (intro update_layer_unchanged)
    then have "critic_net (st_store s') ! i = ?cur ! i"
      using i' by (simp add: s' update_net_nth)
    with flag show ?thesis by simp
  qed
  have bn: "(Critic, i, j) \<in> set (collected_trainable_weights gan_model) \<longleftrightarrow>
      trainable (critic_net st0 ! i) \<and> w_trainable (l_weights (critic_net st ! i) ! j)"
    if "i < length (critic_net st)" and "l_kind (critic_net st ! i) = BatchNormalization"
      and "j < length (l_weights (critic_net st ! i))" for i j
    using that define_wgan_collected [OF assms(1), of i j] by (simp add: c)
  show ?thesis using frozen bn by (simp add: c)
qed

lemma define_critic_layers:
  "length (fst (define_critic c_init)) = 14"
  "\<forall>l\<in>set (fst (define_critic c_init)). trainable l"
  "\<forall>l\<in>set (fst (define_critic c_init)). l_kind l \<noteq> BatchNormalization \<longrightarrow>
     (\<forall>w\<in>set (l_weights l). w_trainable w)"
  "snd (define_critic c_init) = compile [(Critic, fst (define_critic c_init))]"
  by (simp_all add: define_critic_def Let_def kernel_layer_def batch_normalization_def
      plain_layer_def)

lemma define_critic_collected:
  "(Critic, i, j) \<in> set (collected_trainable_weights (snd (define_critic c_init))) \<longleftrightarrow>
     i < length (fst (define_critic c_init))
     \<and> j < length (l_weights (fst (define_critic c_init) ! i))
     \<and> w_trainable (l_weights (fst (define_critic c_init) ! i) ! j)"
  using define_critic_layers(2) [of c_init]
  by (auto simp: define_critic_layers(4) compile_def mem_trainable_weights)

text \<open>
  Claim C10. \<open>define_wgan\<close> rewrites the flags of the critic it is given: the critic of
  the store that training uses is the one \<open>define_critic\<close> built, with every layer that
  is not a normalization layer marked non-trainable. The critic was compiled before,
  so an update of the critic's own compiled model still stores, in every weight of
  those layers, the value the optimizer computes (passed through the weight's
  constraint), and the flags stay off.
\<close>

theorem define_wgan_flags_do_not_stop_critic_updates:
  assumes "notebook_setup latent_dim c_init g_init = (st, c_model, gan_model)"
    and "skeleton (critic_net (st_store s)) = skeleton (critic_net st)"
    and "backend e CModel (st_calls s) (st_store s) X y = Some r"
  shows "critic_net st = map freeze (fst (define_critic c_init))
       \<and> c_model = snd (define_critic c_init)
       \<and> (\<forall>i<length (critic_net st). l_kind (critic_net st ! i) \<noteq> BatchNormalization \<longrightarrow>
            trainable (fst (define_critic c_init) ! i) \<and> \<not> trainable (critic_net st ! i))
       \<and> (\<exists>s'. train_on_batch e CModel c_model X y s = Inr (loss r, s')
            \<and> (\<forall>i<length (critic_net st).
                  l_kind (critic_net st ! i) \<noteq> BatchNormalization \<longrightarrow>
                  \<not> trainable (critic_net (st_store s') ! i)
                  \<and> (\<forall>j<length (l_weights (critic_net st ! i)).
                        w_value (l_weights (critic_net (st_store s') ! i) ! j) =
                        apply_constraint (w_constraint (l_weights (critic_net st ! i) ! j))
                          (new_value r (Critic, i, j)))))"
proof -
  let ?c0 = "fst (define_critic c_init)"
  let ?cur = "critic_net (st_store s)"
  define s' where "s' = s\<lparr>st_store := apply_updates c_model r (st_store s),
      st_calls := Suc (st_calls s),
      st_trace := st_trace s @ [TrainOnBatch CModel X y (loss r)
        (apply_updates c_model r (st_store s))]\<rparr>"
  have c: "critic_net st = map freeze ?c0" by (rule notebook_setup_critic [OF assms(1)])
  have m: "c_model = snd (define_critic c_init)" by (rule notebook_setup_c_model [OF assms(1)])
  have run: "train_on_batch e CModel c_model X y s = Inr (loss r, s')"
    unfolding s'_def by (rule train_on_batch_Some [OF assms(3)])
  have flags: "trainable (?c0 ! i) \<and> \<not> trainable (critic_net st ! i)"
    if "i < length (critic_net st)" and "l_kind (critic_net st ! i) \<noteq> BatchNormalization" for i
    using that define_critic_layers(2) [of c_init] by (simp add: c)
  have upd: "\<not> trainable (critic_net (st_store s') ! i)
      \<and> (\<forall>j<length (l_weights (critic_net st ! i)).
            w_value (l_weights (critic_net (st_store s') ! i) ! j) =
            apply_constraint (w_constraint (l_weights (critic_net st ! i) ! j))
              (new_value r (Critic, i, j)))"
    if i: "i < length (critic_net st)" and k: "l_kind (critic_net st ! i) \<noteq> BatchNormalization"
    for i
  proof -
    have i0: "i < length ?c0" using i by (simp add: c)
    have k0: "l_kind (?c0 ! i) \<noteq> BatchNormalization" using i k by (simp add: c)
    have i': "i < length ?cur" and t': "trainable (?cur ! i) = trainable (critic_net st ! i)"
      and wl: "length (l_weights (?cur ! i)) = length (l_weights (critic_net st ! i))"
      using skeleton_eq_nth(1,3,4) [OF assms(2) i] by simp_all
    have off: "\<not> trainable (critic_net (st_store s') ! i)"
      using i' t' flags [OF i k] by (simp add: s'_def update_net_nth)
    have val: "w_value (l_weights (critic_net (st_store s') ! i) ! j) =
        apply_constraint (w_constraint (l_weights (critic_net st ! i) ! j))
          (new_value r (Critic, i, j))"
      if j: "j < length (l_weights (critic_net st ! i))" for j
    proof -
      have j0: "j < length (l_weights (?c0 ! i))" using j i0 by (simp add: c)
      have "l_weights (?c0 ! i) ! j \<in> set (l_weights (?c0 ! i))" using j0 by simp
      moreover have "?c0 ! i \<in> set ?c0" using i0 by simp
      ultimately have "w_trainable (l_weights (?c0 ! i) ! j)"
        using define_critic_layers(3) [of c_init] k0 by blast
      then have coll: "(Critic, i, j) \<in> set (collected_trainable_weights c_model)"
        using i0 j0 by (simp add: m define_critic_collected)
      have con: "w_constraint (l_weights (?cur ! i) ! j) = w_constraint (l_weights (critic_net st ! i) ! j)"
        by (rule skeleton_eq_nth(5) [OF assms(2) i j])
      have "l_weights (critic_net (st_store s') ! i) ! j
          = update_weight c_model r Critic i (?cur ! i) j (l_weights (?cur ! i) ! j)"
        using i' j wl by (simp add: s'_def update_net_nth update_layer_nth)
      then show ?thesis using coll con by (simp add: update_weight_def)
    qed
    show ?thesis using off val by blast
  qed
  show ?thesis using c m flags run upd by blast
qed

lemma demo_critic_facts:
  assumes "notebook_setup latent_dim demo_init g_init = (st, c_model, gan_model)"
  shows "length (critic_net st) = 14"
    and "l_kind (critic_net st ! 0) = Conv2D"
    and "l_kind (critic_net st ! 1) = BatchNormalization"
    and "l_kind (critic_net st ! 13) = Dense"
    and "length (l_weights (critic_net st ! 13)) = 2"
    and "w_constraint (l_weights (critic_net st ! 13) ! 0) = None"
    and "w_value (l_weights (critic_net st ! 13) ! 0) = [0.02, - 0.01]"
    and "w_value (l_weights (critic_net st ! 1) ! 0) = replicate 64 1"
    and "w_constraint (l_weights (critic_net st ! 0) ! 0) = Some \<lparr>clip_value = 0.005\<rparr>"
    and "w_value (l_weights (critic_net st ! 0) ! 0) = [0.02, - 0.01]"
    and "length (l_weights (critic_net st ! 0)) = 2"
    and "trainable (critic_net st ! 1)"
  unfolding notebook_setup_critic [OF assms]
  by (simp_all add: define_critic_def Let_def kernel_layer_def batch_normalization_def
      plain_layer_def demo_init_def freeze_def)

theorem define_wgan_flags_do_not_stop_critic_updates_witness:
  "\<exists>st c_model gan_model s'.
     notebook_setup 2 demo_init demo_init = (st, c_model, gan_model)
     \<and> train_on_batch demo_env CModel c_model [[0.5]] [[- 1]] (initial_state st demo_rng)
         = Inr (0, s')
     \<and> \<not> trainable (critic_net st ! 13)
     \<and> \<not> trainable (critic_net (st_store s') ! 13)
     \<and> w_value (l_weights (critic_net st ! 13) ! 0) = [0.02, - 0.01]
     \<and> w_value (l_weights (critic_net (st_store s') ! 13) ! 0) = [0.0199, - 0.0101]
     \<and> w_value (l_weights (critic_net (st_store s') ! 0) ! 0) = [0.005, - 0.005]"
proof -
  obtain st c_model gan_model
    where nb: "notebook_setup 2 demo_init demo_init = (st, c_model, gan_model)"
    by (cases "notebook_setup 2 demo_init demo_init") auto
  define r where "r = \<lparr>loss = 0,
     new_value = (\<lambda>(n, i, j). map (\<lambda>v. v - 1 / 10000) (w_value (l_weights (net_layers st n ! i) ! j)))\<rparr>"
  let ?s = "initial_state st demo_rng"
  have sk: "skeleton (critic_net (st_store ?s)) = skeleton (critic_net st)"
    by (simp add: initial_state_def)
  have b: "backend demo_env CModel (st_calls ?s) (st_store ?s) [[0.5]] [[- 1]] = Some r"
    by (simp add: demo_env_def demo_backend_def initial_state_def r_def)
  note facts = demo_critic_facts [OF nb]
  from define_wgan_flags_do_not_stop_critic_updates [OF nb sk b]
  obtain s' where run: "train_on_batch demo_env CModel c_model [[0.5]] [[- 1]] ?s = Inr (loss r, s')"
    and all: "\<forall>i<length (critic_net st).
                  l_kind (critic_net st ! i) \<noteq> BatchNormalization \<longrightarrow>
                  \<not> trainable (critic_net (st_store s') ! i)
                  \<and> (\<forall>j<length (l_weights (critic_net st ! i)).
                        w_value (l_weights (critic_net (st_store s') ! i) ! j) =
                        apply_constraint (w_constraint (l_weights (critic_net st ! i) ! j))
                          (new_value r (Critic, i, j)))"
    and flags: "\<forall>i<length (critic_net st). l_kind (critic_net st ! i) \<noteq> BatchNormalization \<longrightarrow>
            trainable (fst (define_critic demo_init) ! i) \<and> \<not> trainable (critic_net st ! i)"
    by blast
  have l: "loss r = 0" by (simp add: r_def)
  have f13: "\<not> trainable (critic_net st ! 13)" using flags facts(1,4) by simp
  have a13: "\<not> trainable (critic_net (st_store s') ! 13)
      \<and> w_value (l_weights (critic_net (st_store s') ! 13) ! 0) =
        apply_constraint (w_constraint (l_weights (critic_net st ! 13) ! 0)) (new_value r (Critic, 13, 0))"
    using all facts(1,4,5) by simp
  have a0: "w_value (l_weights (critic_net (st_store s') ! 0) ! 0) =
        apply_constraint (w_constraint (l_weights (critic_net st ! 0) ! 0)) (new_value r (Critic, 0, 0))"
    using all facts(1,2,11) by simp
  have v13: "w_value (l_weights (critic_net (st_store s') ! 13) ! 0) = [0.0199, - 0.0101]"
    using a13 facts(6,7) by (simp add: apply_constraint_def r_def net_layers_def)
  have v0: "w_value (l_weights (critic_net (st_store s') ! 0) ! 0) = [0.005, - 0.005]"
    using a0 facts(9,10)
    by (simp add: apply_constraint_def r_def net_layers_def ClipConstraint_call_def backend_clip_def)
  show ?thesis using nb run l f13 a13 facts(7) v13 v0 by auto
qed

theorem composite_update_leaves_frozen_layers_witness:
  "\<exists>st gan_model l s'.
     define_wgan \<lparr>critic_net = fst (define_critic demo_init),
                  generator_net = define_generator 2 demo_init\<rparr> = (st, gan_model)
     \<and> train_on_batch demo_env GanModel gan_model [[1, 2]] [[- 1]] (initial_state st demo_rng)
         = Inr (l, s')
     \<and> l_kind (critic_net st ! 0) = Conv2D
     \<and> \<not> trainable (critic_net st ! 0)
     \<and> critic_net (st_store s') ! 0 = critic_net st ! 0
     \<and> critic_net (st_store s') ! 13 = critic_net st ! 13
     \<and> l_kind (critic_net st ! 1) = BatchNormalization
     \<and> trainable (critic_net st ! 1)"
proof -
  let ?st0 = "\<lparr>critic_net = fst (define_critic demo_init),
                generator_net = define_generator 2 demo_init\<rparr>"
  obtain st gan_model where dw: "define_wgan ?st0 = (st, gan_model)"
    by (cases "define_wgan ?st0") auto
  have nb: "notebook_setup 2 demo_init demo_init = (st, snd (define_critic demo_init), gan_model)"
    using dw by (simp add: notebook_setup_def case_prod_beta)
  note facts = demo_critic_facts [OF nb]
  let ?s = "initial_state st demo_rng"
  have sk: "skeleton (critic_net (st_store ?s)) = skeleton (critic_net st)"
    by (simp add: initial_state_def)
  obtain r where b: "backend demo_env GanModel (st_calls ?s) (st_store ?s) [[1, 2]] [[- 1]] = Some r"
    by (simp add: demo_env_def demo_backend_def)
  define s' where "s' = ?s\<lparr>st_store := apply_updates gan_model r (st_store ?s),
      st_calls := Suc (st_calls ?s),
      st_trace := st_trace ?s @ [TrainOnBatch GanModel [[1, 2]] [[- 1]] (loss r)
        (apply_updates gan_model r (st_store ?s))]\<rparr>"
  have run: "train_on_batch demo_env GanModel gan_model [[1, 2]] [[- 1]] ?s = Inr (loss r, s')"
    unfolding s'_def by (rule train_on_batch_Some [OF b])
  have st: "st_store ?s = st" by (simp add: initial_state_def)
  from composite_update_leaves_frozen_layers [OF dw sk run]
  have frozen: "\<forall>i<length (critic_net st). l_kind (critic_net st ! i) \<noteq> BatchNormalization \<longrightarrow>
            \<not> trainable (critic_net st ! i)
            \<and> critic_net (st_store s') ! i = critic_net (st_store ?s) ! i"
    by blast
  have "\<not> trainable (critic_net st ! 0) \<and> critic_net (st_store s') ! 0 = critic_net st ! 0"
    using frozen facts(1,2) st by simp
  moreover have "critic_net (st_store s') ! 13 = critic_net st ! 13"
    using frozen facts(1,4) st by simp
  ultimately show ?thesis using dw run facts(2,3,12) by blast
qed

section \<open>The training loop, call by call\<close>

subsection \<open>What the calls of the loop return\<close>

lemma generate_real_samples_InrD:
  assumes "generate_real_samples dataset n g = Inr ((X, y), g')"
  shows "y = replicate n [- 1] \<and> length X = n \<and> set X \<subseteq> set dataset"
proof (cases "n = 0")
  case True
  with assms show ?thesis by (simp add: generate_real_samples_def randint_def neg_ones)
next
  case False
  with assms have ne: "dataset \<noteq> []"
    by (auto simp: generate_real_samples_def randint_def)
  from assms show ?thesis
    unfolding generate_real_samples_Inr [OF ne] using ne by auto
qed

lemma generate_real_samples_total:
  "dataset \<noteq> [] \<or> n = 0 \<Longrightarrow> \<exists>X y g'. generate_real_samples dataset n g = Inr ((X, y), g')"
  by (auto simp: generate_real_samples_def randint_def)

lemma generate_fake_samples_InrD:
  assumes "generate_fake_samples f latent_dim n g = Inr ((X, y), g')"
  shows "y = replicate n [1]
     \<and> (\<exists>z. length z = n \<and> (\<forall>r\<in>set z. length r = latent_dim) \<and> X = map f z)"
proof -
  obtain z g1 where z: "generate_latent_points latent_dim n g = Inr (z, g1)"
    by (simp add: generate_latent_points_Inr)
  have "X = map f z" and "y = replicate n [1]"
    using assms z by (simp_all add: generate_fake_samples_def ones_def split: if_splits)
  then show ?thesis using generate_latent_points_shape [OF z] by blast
qed

lemma generate_fake_samples_total:
  "0 < n \<Longrightarrow> \<exists>X y g'. generate_fake_samples f latent_dim n g = Inr ((X, y), g')"
  by (simp add: generate_fake_samples_def generate_latent_points_Inr)

lemma generate_fake_samples_empty:
  "generate_fake_samples f latent_dim 0 g = Inl ValueError"
  by (simp add: generate_fake_samples_def generate_latent_points_Inr)

lemma critic_substep_InrE:
  assumes "critic_substep e p s = Inr (s2, l1, l2)"
  obtains X_real y_real g1 s1 X_fake y_fake g2 where
    "generate_real_samples (p_dataset p) (p_half_batch p) (st_rng s) = Inr ((X_real, y_real), g1)"
    and "train_on_batch e CModel (p_c_model p) X_real y_real (s\<lparr>st_rng := g1\<rparr>) = Inr (l1, s1)"
    and "generate_fake_samples (forward e (generator_net (st_store s1))) (p_latent_dim p)
           (p_half_batch p) (st_rng s1) = Inr ((X_fake, y_fake), g2)"
    and "train_on_batch e CModel (p_c_model p) X_fake y_fake (s1\<lparr>st_rng := g2\<rparr>) = Inr (l2, s2)"
  using assms unfolding critic_substep_def
  by (auto split: sum.splits prod.splits)

lemma summarize_performance_InrE:
  assumes "summarize_performance e step latent_dim n_samples s = Inr s'"
  obtains imgs g' where "sink_ok e (step + 1)"
    and "s' = s\<lparr>st_rng := g',
               st_trace := st_trace s @ [Checkpoint (step + 1) imgs (generator_net (st_store s))]\<rparr>"
  using assms unfolding summarize_performance_def
  by (auto split: sum.splits prod.splits if_splits)

lemma train_step_InrE:
  assumes "train_step e p i s = Inr s'"
  obtains s1 c1_tmp c2_tmp X_gan g' g_loss s3 where
    "critic_loop e p (p_n_critic p) (s, [], []) = Inr (s1, c1_tmp, c2_tmp)"
    and "generate_latent_points (p_latent_dim p) (p_n_batch p) (st_rng s1) = Inr (X_gan, g')"
    and "train_on_batch e GanModel (p_gan_model p) X_gan (neg (ones (p_n_batch p) 1))
           (s1\<lparr>c1_hist := c1_hist s1 @ [mean c1_tmp], c2_hist := c2_hist s1 @ [mean c2_tmp],
               st_rng := g'\<rparr>) = Inr (g_loss, s3)"
    and "p_bat_per_epo p \<noteq> 0"
    and "(i + 1) mod p_bat_per_epo p = 0 \<longrightarrow>
           summarize_performance e i (p_latent_dim p) 100 (s3\<lparr>g_hist := g_hist s3 @ [g_loss]\<rparr>) = Inr s'"
    and "(i + 1) mod p_bat_per_epo p \<noteq> 0 \<longrightarrow> s' = s3\<lparr>g_hist := g_hist s3 @ [g_loss]\<rparr>"
  using assms unfolding train_step_def Let_def
  by (auto split: sum.splits prod.splits if_splits)

subsection \<open>Invariants of the two loops\<close>

lemma critic_loop_invariant:
  assumes "critic_loop e p k a = Inr a'"
    and "Q 0 a"
    and "\<And>j s t1 t2 s' l1 l2. j < k \<Longrightarrow> Q j (s, t1, t2) \<Longrightarrow>
           critic_substep e p s = Inr (s', l1, l2) \<Longrightarrow> Q (Suc j) (s', t1 @ [l1], t2 @ [l2])"
  shows "Q k a'"
  using assms
proof (induction k arbitrary: a Q)
  case 0
  then show ?case by simp
next
  case (Suc k)
  obtain s t1 t2 where a: "a = (s, t1, t2)" by (cases a)
  from Suc.prems(1) obtain s1 l1 l2
    where sub: "critic_substep e p s = Inr (s1, l1, l2)"
      and rest: "critic_loop e p k (s1, t1 @ [l1], t2 @ [l2]) = Inr a'"
    unfolding a by (auto split: sum.splits)
  have first: "Q (Suc 0) (s1, t1 @ [l1], t2 @ [l2])"
    using Suc.prems(2) sub by (intro Suc.prems(3)) (simp_all add: a)
  have "(\<lambda>j. Q (Suc j)) k a'"
  proof (rule Suc.IH [OF rest])
    show "Q (Suc 0) (s1, t1 @ [l1], t2 @ [l2])" by (rule first)
  next
    fix j s t1 t2 s' l1 l2
    assume "j < k" and "Q (Suc j) (s, t1, t2)" and "critic_substep e p s = Inr (s', l1, l2)"
    then show "Q (Suc (Suc j)) (s', t1 @ [l1], t2 @ [l2])"
      by (intro Suc.prems(3)) simp_all
  qed
  then show ?case .
qed

lemma train_loop_invariant:
  assumes "train_loop e p steps s = Inr s'"
    and "Q 0 s"
    and "\<And>j s s'. j < length steps \<Longrightarrow> Q j s \<Longrightarrow>
           train_step e p (steps ! j) s = Inr s' \<Longrightarrow> Q (Suc j) s'"
  shows "Q (length steps) s'"
  using assms
proof (induction steps arbitrary: s Q)
  case Nil
  then show ?case by simp
next
  case (Cons i steps)
  from Cons.prems(1) obtain s1
    where step: "train_step e p i s = Inr s1"
      and rest: "train_loop e p steps s1 = Inr s'"
    by (auto split: sum.splits)
  have first: "Q (Suc 0) s1"
    using Cons.prems(3) [of 0 s s1] Cons.prems(2) step by simp
  have "(\<lambda>j. Q (Suc j)) (length steps) s'"
  proof (rule Cons.IH [OF rest])
    show "Q (Suc 0) s1" by (rule first)
  next
    fix j s s'
    assume "j < length steps" and "Q (Suc j) s" and "train_step e p (steps ! j) s = Inr s'"
    then show "Q (Suc (Suc j)) s'"
      using Cons.prems(3) [of "Suc j" s s'] by simp
  qed
  then show ?case by simp
qed

subsection \<open>The events of a run\<close>

lemma model_losses_append [simp]:
  "model_losses mid (xs @ ys) = model_losses mid xs @ model_losses mid ys"
  by (induction mid xs rule: model_losses.induct) simp_all

lemma checkpoint_tags_append [simp]:
  "checkpoint_tags (xs @ ys) = checkpoint_tags xs @ checkpoint_tags ys"
  by (induction xs rule: checkpoint_tags.induct) simp_all

lemma evens_odds_pairs:
  "evens (concat (map (\<lambda>(a, b). [a, b]) ps)) = map fst ps"
  "odds (concat (map (\<lambda>(a, b). [a, b]) ps)) = map snd ps"
  by (induction ps) auto

lemma is_critic_substep_losses:
  assumes "is_critic_substep e p sub"
  shows "\<exists>l1 l2. model_losses CModel sub = [l1, l2]"
    and "model_losses GanModel sub = []" and "checkpoint_tags sub = []"
  using assms by (auto simp: is_critic_substep_def)

lemma critic_substep_effect:
  assumes "critic_substep e p s = Inr (s2, l1, l2)"
  shows "\<exists>sub. is_critic_substep e p sub \<and> model_losses CModel sub = [l1, l2]
       \<and> st_trace s2 = st_trace s @ sub
       \<and> c1_hist s2 = c1_hist s \<and> c2_hist s2 = c2_hist s \<and> g_hist s2 = g_hist s
       \<and> st_calls s2 = st_calls s + 2
       \<and> replied e (st_calls s) \<and> replied e (st_calls s + 1)"
proof -
  from assms obtain X_real y_real g1 s1 X_fake y_fake g2 where
    real: "generate_real_samples (p_dataset p) (p_half_batch p) (st_rng s) = Inr ((X_real, y_real), g1)"
    and t1: "train_on_batch e CModel (p_c_model p) X_real y_real (s\<lparr>st_rng := g1\<rparr>) = Inr (l1, s1)"
    and fake: "generate_fake_samples (forward e (generator_net (st_store s1))) (p_latent_dim p)
           (p_half_batch p) (st_rng s1) = Inr ((X_fake, y_fake), g2)"
    and t2: "train_on_batch e CModel (p_c_model p) X_fake y_fake (s1\<lparr>st_rng := g2\<rparr>) = Inr (l2, s2)"
    by (rule critic_substep_InrE)
  from generate_real_samples_InrD [OF real]
  have yr: "y_real = replicate (p_half_batch p) [- 1]" and lr: "length X_real = p_half_batch p"
    and sr: "set X_real \<subseteq> set (p_dataset p)" by simp_all
  from generate_fake_samples_InrD [OF fake] obtain z
    where yf: "y_fake = replicate (p_half_batch p) [1]" and lz: "length z = p_half_batch p"
      and rz: "\<forall>r\<in>set z. length r = p_latent_dim p"
      and xf: "X_fake = map (forward e (generator_net (st_store s1))) z" by blast
  from t1 obtain r1 where s1: "s1 = s\<lparr>st_rng := g1\<rparr>\<lparr>st_store := apply_updates (p_c_model p) r1 (st_store (s\<lparr>st_rng := g1\<rparr>)),
        st_calls := Suc (st_calls (s\<lparr>st_rng := g1\<rparr>)),
        st_trace := st_trace (s\<lparr>st_rng := g1\<rparr>) @ [TrainOnBatch CModel X_real y_real (loss r1)
          (apply_updates (p_c_model p) r1 (st_store (s\<lparr>st_rng := g1\<rparr>)))]\<rparr>"
    and l1: "l1 = loss r1"
    and b1: "backend e CModel (st_calls (s\<lparr>st_rng := g1\<rparr>)) (st_store (s\<lparr>st_rng := g1\<rparr>)) X_real y_real = Some r1"
    by (rule train_on_batch_InrE)
  from t2 obtain r2 where s2: "s2 = s1\<lparr>st_rng := g2\<rparr>\<lparr>st_store := apply_updates (p_c_model p) r2 (st_store (s1\<lparr>st_rng := g2\<rparr>)),
        st_calls := Suc (st_calls (s1\<lparr>st_rng := g2\<rparr>)),
        st_trace := st_trace (s1\<lparr>st_rng := g2\<rparr>) @ [TrainOnBatch CModel X_fake y_fake (loss r2)
          (apply_updates (p_c_model p) r2 (st_store (s1\<lparr>st_rng := g2\<rparr>)))]\<rparr>"
    and l2: "l2 = loss r2"
    and b2: "backend e CModel (st_calls (s1\<lparr>st_rng := g2\<rparr>)) (st_store (s1\<lparr>st_rng := g2\<rparr>)) X_fake y_fake = Some r2"
    by (rule train_on_batch_InrE)
  define w1 where "w1 = apply_updates (p_c_model p) r1 (st_store s)"
  define w2 where "w2 = apply_updates (p_c_model p) r2 w1"
  define sub where "sub = [TrainOnBatch CModel X_real (replicate (p_half_batch p) [- 1]) l1 w1,
      TrainOnBatch CModel (map (forward e (generator_net w1)) z) (replicate (p_half_batch p) [1]) l2 w2]"
  have st1: "st_store s1 = w1" by (simp add: s1 w1_def)
  have "is_critic_substep e p sub"
    unfolding is_critic_substep_def sub_def using lr sr lz rz by blast
  moreover have "model_losses CModel sub = [l1, l2]" by (simp add: sub_def)
  moreover have "st_trace s2 = st_trace s @ sub"
    by (simp add: s2 s1 sub_def w1_def w2_def yr yf xf l1 l2)
  moreover have "c1_hist s2 = c1_hist s \<and> c2_hist s2 = c2_hist s \<and> g_hist s2 = g_hist s
      \<and> st_calls s2 = st_calls s + 2"
    by (simp add: s2 s1)
  moreover have "replied e (st_calls s)"
    unfolding replied_def using b1 by (intro exI [of _ CModel] exI [of _ "st_store s"]
        exI [of _ X_real] exI [of _ y_real]) simp
  moreover have "replied e (st_calls s + 1)"
    unfolding replied_def using b2 by (intro exI [of _ CModel] exI [of _ "st_store s1"]
        exI [of _ X_fake] exI [of _ y_fake]) (simp add: s1)
  ultimately show ?thesis by blast
qed

lemma critic_loop_effect:
  assumes "critic_loop e p k (s, t1, t2) = Inr (s', t1', t2')"
  shows "\<exists>subs ps. length subs = k \<and> length ps = k
       \<and> (\<forall>sub\<in>set subs. is_critic_substep e p sub)
       \<and> model_losses CModel (concat subs) = concat (map (\<lambda>(a, b). [a, b]) ps)
       \<and> st_trace s' = st_trace s @ concat subs
       \<and> t1' = t1 @ map fst ps \<and> t2' = t2 @ map snd ps
       \<and> c1_hist s' = c1_hist s \<and> c2_hist s' = c2_hist s \<and> g_hist s' = g_hist s
       \<and> st_calls s' = st_calls s + 2 * k
       \<and> (\<forall>c. st_calls s \<le> c \<and> c < st_calls s + 2 * k \<longrightarrow> replied e c)"
proof -
  define Q where "Q = (\<lambda>j (a :: state \<times> real list \<times> real list).
     \<exists>subs ps. length subs = j \<and> length ps = j
       \<and> (\<forall>sub\<in>set subs. is_critic_substep e p sub)
       \<and> model_losses CModel (concat subs) = concat (map (\<lambda>(a, b). [a, b]) ps)
       \<and> st_trace (fst a) = st_trace s @ concat subs
       \<and> fst (snd a) = t1 @ map fst ps \<and> snd (snd a) = t2 @ map snd ps
       \<and> c1_hist (fst a) = c1_hist s \<and> c2_hist (fst a) = c2_hist s \<and> g_hist (fst a) = g_hist s
       \<and> st_calls (fst a) = st_calls s + 2 * j
       \<and> (\<forall>c. st_calls s \<le> c \<and> c < st_calls s + 2 * j \<longrightarrow> replied e c))"
  have "Q k (s', t1', t2')"
  proof (rule critic_loop_invariant [OF assms])
    show "Q 0 (s, t1, t2)"
      unfolding Q_def by (intro exI [of _ "[]"]) auto
  next
    fix j sa u1 u2 sb l1 l2
    assume "j < k" and q: "Q j (sa, u1, u2)" and sub: "critic_substep e p sa = Inr (sb, l1, l2)"
    from q obtain subs ps where IH: "length subs = j" "length ps = j"
      "\<forall>sub\<in>set subs. is_critic_substep e p sub"
      "model_losses CModel (concat subs) = concat (map (\<lambda>(a, b). [a, b]) ps)"
      "st_trace sa = st_trace s @ concat subs"
      "u1 = t1 @ map fst ps" "u2 = t2 @ map snd ps"
      "c1_hist sa = c1_hist s" "c2_hist sa = c2_hist s" "g_hist sa = g_hist s"
      "st_calls sa = st_calls s + 2 * j"
      "\<forall>c. st_calls s \<le> c \<and> c < st_calls s + 2 * j \<longrightarrow> replied e c"
      unfolding Q_def by auto
    from critic_substep_effect [OF sub] obtain ev where ev:
      "is_critic_substep e p ev" "model_losses CModel ev = [l1, l2]"
      "st_trace sb = st_trace sa @ ev"
      "c1_hist sb = c1_hist sa" "c2_hist sb = c2_hist sa" "g_hist sb = g_hist sa"
      "st_calls sb = st_calls sa + 2"
      "replied e (st_calls sa)" "replied e (st_calls sa + 1)"
      by blast
    have calls: "\<forall>c. st_calls s \<le> c \<and> c < st_calls s + 2 * Suc j \<longrightarrow> replied e c"
    proof (intro allI impI)
      fix c assume c: "st_calls s \<le> c \<and> c < st_calls s + 2 * Suc j"
      show "replied e c"
      proof (cases "c < st_calls s + 2 * j")
        case True
        then show ?thesis using c IH(12) by simp
      next
        case False
        then have "c = st_calls sa \<or> c = st_calls sa + 1" using c IH(11) by arith
        then show ?thesis using ev(8,9) by auto
      qed
    qed
    show "Q (Suc j) (sb, u1 @ [l1], u2 @ [l2])"
      unfolding Q_def using IH(1-11) ev(1-7) calls
      by (intro exI [of _ "subs @ [ev]"] exI [of _ "ps @ [(l1, l2)]"]) simp
  qed
  then show ?thesis unfolding Q_def by simp
qed


lemma concat_losses:
  assumes "\<forall>sub\<in>set subs. is_critic_substep e p sub"
  shows "model_losses GanModel (concat subs) = []" and "checkpoint_tags (concat subs) = []"
  using assms by (induction subs) (auto simp: is_critic_substep_losses(2,3))

lemma concat_critic_losses_length:
  assumes "\<forall>sub\<in>set subs. is_critic_substep e p sub"
  shows "\<exists>ps. length ps = length subs
     \<and> model_losses CModel (concat subs) = concat (map (\<lambda>(a, b). [a, b]) ps)"
  using assms
proof (induction subs)
  case Nil
  then show ?case by simp
next
  case (Cons sub subs)
  then obtain ps where ps: "length ps = length subs"
    "model_losses CModel (concat subs) = concat (map (\<lambda>(a, b). [a, b]) ps)" by auto
  from Cons.prems obtain l1 l2 where "model_losses CModel sub = [l1, l2]"
    using is_critic_substep_losses(1) [of e p sub] by auto
  then show ?case using ps by (intro exI [of _ "(l1, l2) # ps"]) simp
qed

text \<open>What the shape of a step says about its losses and its checkpoint.\<close>

lemma is_train_step_facts:
  assumes "is_train_step e p i evs"
  shows "length (model_losses GanModel evs) = 1"
    and "length (evens (model_losses CModel evs)) = p_n_critic p"
    and "length (odds (model_losses CModel evs)) = p_n_critic p"
    and "checkpoint_tags evs = (if (i + 1) mod p_bat_per_epo p = 0 then [i + 1] else [])"
proof -
  from assms obtain subs gen ckpt where evs: "evs = concat subs @ gen # ckpt"
    and len: "length subs = p_n_critic p"
    and subs: "\<forall>sub\<in>set subs. is_critic_substep e p sub"
    and gen: "is_generator_update p gen"
    and ckpt: "if (i + 1) mod p_bat_per_epo p = 0
            then \<exists>imgs g. ckpt = [Checkpoint (i + 1) imgs g] else ckpt = []"
    unfolding is_train_step_def by blast
  from gen obtain z l w where g: "gen = TrainOnBatch GanModel z (replicate (p_n_batch p) [- 1]) l w"
    unfolding is_generator_update_def by blast
  from concat_critic_losses_length [OF subs] obtain ps where ps: "length ps = length subs"
    "model_losses CModel (concat subs) = concat (map (\<lambda>(a, b). [a, b]) ps)" by blast
  have c: "model_losses CModel ckpt = [] \<and> model_losses GanModel ckpt = []
      \<and> checkpoint_tags ckpt = (if (i + 1) mod p_bat_per_epo p = 0 then [i + 1] else [])"
    using ckpt by (auto split: if_splits)
  show "length (model_losses GanModel evs) = 1"
    using c concat_losses(1) [OF subs] by (simp add: evs g)
  have "model_losses CModel evs = concat (map (\<lambda>(a, b). [a, b]) ps)"
    using c ps by (simp add: evs g)
  then show "length (evens (model_losses CModel evs)) = p_n_critic p"
    and "length (odds (model_losses CModel evs)) = p_n_critic p"
    using ps(1) len by (simp_all add: evens_odds_pairs)
  show "checkpoint_tags evs = (if (i + 1) mod p_bat_per_epo p = 0 then [i + 1] else [])"
    using c concat_losses(2) [OF subs] by (simp add: evs g)
qed

lemma train_step_effect:
  assumes "train_step e p i s = Inr s'"
  shows "\<exists>evs. is_train_step e p i evs
       \<and> st_trace s' = st_trace s @ evs
       \<and> c1_hist s' = c1_hist s @ [mean (evens (model_losses CModel evs))]
       \<and> c2_hist s' = c2_hist s @ [mean (odds (model_losses CModel evs))]
       \<and> g_hist s' = g_hist s @ model_losses GanModel evs
       \<and> st_calls s' = st_calls s + (2 * p_n_critic p + 1)
       \<and> (\<forall>c. st_calls s \<le> c \<and> c < st_calls s + (2 * p_n_critic p + 1) \<longrightarrow> replied e c)
       \<and> ((i + 1) mod p_bat_per_epo p = 0 \<longrightarrow> sink_ok e (i + 1))"
proof -
  from assms obtain s1 c1_tmp c2_tmp X_gan g' g_loss s3 where
    loop: "critic_loop e p (p_n_critic p) (s, [], []) = Inr (s1, c1_tmp, c2_tmp)"
    and lat: "generate_latent_points (p_latent_dim p) (p_n_batch p) (st_rng s1) = Inr (X_gan, g')"
    and gan: "train_on_batch e GanModel (p_gan_model p) X_gan (neg (ones (p_n_batch p) 1))
           (s1\<lparr>c1_hist := c1_hist s1 @ [mean c1_tmp], c2_hist := c2_hist s1 @ [mean c2_tmp],
               st_rng := g'\<rparr>) = Inr (g_loss, s3)"
    and bpe: "p_bat_per_epo p \<noteq> 0"
    and due: "(i + 1) mod p_bat_per_epo p = 0 \<longrightarrow>
           summarize_performance e i (p_latent_dim p) 100 (s3\<lparr>g_hist := g_hist s3 @ [g_loss]\<rparr>) = Inr s'"
    and not_due: "(i + 1) mod p_bat_per_epo p \<noteq> 0 \<longrightarrow> s' = s3\<lparr>g_hist := g_hist s3 @ [g_loss]\<rparr>"
    by (rule train_step_InrE)
  from critic_loop_effect [OF loop] obtain subs ps where L:
    "length subs = p_n_critic p" "length ps = p_n_critic p"
    "\<forall>sub\<in>set subs. is_critic_substep e p sub"
    "model_losses CModel (concat subs) = concat (map (\<lambda>(a, b). [a, b]) ps)"
    "st_trace s1 = st_trace s @ concat subs"
    "c1_tmp = map fst ps" "c2_tmp = map snd ps"
    "c1_hist s1 = c1_hist s" "c2_hist s1 = c2_hist s" "g_hist s1 = g_hist s"
    "st_calls s1 = st_calls s + 2 * p_n_critic p"
    "\<forall>c. st_calls s \<le> c \<and> c < st_calls s + 2 * p_n_critic p \<longrightarrow> replied e c"
    by auto
  let ?s2 = "s1\<lparr>c1_hist := c1_hist s1 @ [mean c1_tmp], c2_hist := c2_hist s1 @ [mean c2_tmp],
               st_rng := g'\<rparr>"
  from gan obtain r where s3: "s3 = ?s2\<lparr>st_store := apply_updates (p_gan_model p) r (st_store ?s2),
        st_calls := Suc (st_calls ?s2),
        st_trace := st_trace ?s2 @ [TrainOnBatch GanModel X_gan (neg (ones (p_n_batch p) 1)) (loss r)
          (apply_updates (p_gan_model p) r (st_store ?s2))]\<rparr>"
    and gl: "g_loss = loss r"
    and bg: "backend e GanModel (st_calls ?s2) (st_store ?s2) X_gan (neg (ones (p_n_batch p) 1)) = Some r"
    by (rule train_on_batch_InrE)
  have rg: "replied e (st_calls s + 2 * p_n_critic p)"
    unfolding replied_def using bg L(11)
    by (intro exI [of _ GanModel] exI [of _ "st_store s1"] exI [of _ X_gan]
        exI [of _ "neg (ones (p_n_batch p) 1)"]) simp
  define gen where "gen = TrainOnBatch GanModel X_gan (replicate (p_n_batch p) [- 1]) g_loss
      (apply_updates (p_gan_model p) r (st_store s1))"
  have isgen: "is_generator_update p gen"
    unfolding is_generator_update_def gen_def
    using generate_latent_points_shape [OF lat] by blast
  define s4 where "s4 = s3\<lparr>g_hist := g_hist s3 @ [g_loss]\<rparr>"
  have s4: "st_trace s4 = st_trace s @ concat subs @ [gen]"
    "c1_hist s4 = c1_hist s @ [mean (map fst ps)]"
    "c2_hist s4 = c2_hist s @ [mean (map snd ps)]"
    "g_hist s4 = g_hist s @ [g_loss]"
    "st_calls s4 = st_calls s + (2 * p_n_critic p + 1)"
    using L(1-11) by (simp_all add: s4_def s3 gen_def gl neg_ones)
  obtain ckpt where sink: "(i + 1) mod p_bat_per_epo p = 0 \<longrightarrow> sink_ok e (i + 1)" and ckpt: "if (i + 1) mod p_bat_per_epo p = 0
            then \<exists>imgs g. ckpt = [Checkpoint (i + 1) imgs g] else ckpt = []"
    and s': "st_trace s' = st_trace s4 @ ckpt" "c1_hist s' = c1_hist s4" "c2_hist s' = c2_hist s4"
      "g_hist s' = g_hist s4" "st_calls s' = st_calls s4"
  proof (cases "(i + 1) mod p_bat_per_epo p = 0")
    case True
    from due True have "summarize_performance e i (p_latent_dim p) 100 s4 = Inr s'"
      by (simp add: s4_def)
    then obtain imgs g2 where "sink_ok e (i + 1)" and
      "s' = s4\<lparr>st_rng := g2,
               st_trace := st_trace s4 @ [Checkpoint (i + 1) imgs (generator_net (st_store s4))]\<rparr>"
      by (rule summarize_performance_InrE)
    then show ?thesis using True
      by (intro that [of "[Checkpoint (i + 1) imgs (generator_net (st_store s4))]"]) simp_all
  next
    case False
    from not_due False have "s' = s4" by (simp add: s4_def)
    then show ?thesis using False by (intro that [of "[]"]) simp_all
  qed
  define evs where "evs = concat subs @ gen # ckpt"
  have shape: "is_train_step e p i evs"
    unfolding is_train_step_def evs_def using L(1,3) isgen ckpt by blast
  have c: "model_losses CModel ckpt = [] \<and> model_losses GanModel ckpt = []"
    using ckpt by (auto split: if_splits)
  have lc: "model_losses CModel evs = concat (map (\<lambda>(a, b). [a, b]) ps)"
    using c L(4) by (simp add: evs_def gen_def)
  have lg: "model_losses GanModel evs = [g_loss]"
    using c concat_losses(1) [OF L(3)] by (simp add: evs_def gen_def)
  have f1: "st_trace s' = st_trace s @ evs" by (simp add: s' s4 evs_def)
  have f2: "c1_hist s' = c1_hist s @ [mean (evens (model_losses CModel evs))]"
    by (simp add: s' s4 lc evens_odds_pairs)
  have f3: "c2_hist s' = c2_hist s @ [mean (odds (model_losses CModel evs))]"
    by (simp add: s' s4 lc evens_odds_pairs)
  have f4: "g_hist s' = g_hist s @ model_losses GanModel evs"
    by (simp add: s' s4 lg)
  have f5: "st_calls s' = st_calls s + (2 * p_n_critic p + 1)"
    by (simp add: s' s4)
  have f6: "\<forall>c. st_calls s \<le> c \<and> c < st_calls s + (2 * p_n_critic p + 1) \<longrightarrow> replied e c"
  proof (intro allI impI)
    fix c assume c: "st_calls s \<le> c \<and> c < st_calls s + (2 * p_n_critic p + 1)"
    show "replied e c"
    proof (cases "c < st_calls s + 2 * p_n_critic p")
      case True
      then show ?thesis using c L(12) by simp
    next
      case False
      then have "c = st_calls s + 2 * p_n_critic p" using c by arith
      then show ?thesis using rg by simp
    qed
  qed
  show ?thesis
    by (intro exI [of _ evs] conjI) (rule shape f1 f2 f3 f4 f5 f6 sink)+
qed

lemma train_loop_effect:
  assumes "train_loop e p steps s = Inr s'"
  shows "\<exists>tr. length tr = length steps
       \<and> (\<forall>k<length steps. is_train_step e p (steps ! k) (tr ! k))
       \<and> st_trace s' = st_trace s @ concat tr
       \<and> c1_hist s' = c1_hist s @ map (\<lambda>evs. mean (evens (model_losses CModel evs))) tr
       \<and> c2_hist s' = c2_hist s @ map (\<lambda>evs. mean (odds (model_losses CModel evs))) tr
       \<and> g_hist s' = g_hist s @ concat (map (model_losses GanModel) tr)
       \<and> st_calls s' = st_calls s + length steps * (2 * p_n_critic p + 1)
       \<and> (\<forall>c. st_calls s \<le> c \<and> c < st_calls s + length steps * (2 * p_n_critic p + 1)
             \<longrightarrow> replied e c)
       \<and> (\<forall>k<length steps. (steps ! k + 1) mod p_bat_per_epo p = 0 \<longrightarrow> sink_ok e (steps ! k + 1))"
proof -
  define Q where "Q = (\<lambda>j (sa :: state). \<exists>tr. length tr = j
       \<and> (\<forall>k<j. is_train_step e p (steps ! k) (tr ! k))
       \<and> st_trace sa = st_trace s @ concat tr
       \<and> c1_hist sa = c1_hist s @ map (\<lambda>evs. mean (evens (model_losses CModel evs))) tr
       \<and> c2_hist sa = c2_hist s @ map (\<lambda>evs. mean (odds (model_losses CModel evs))) tr
       \<and> g_hist sa = g_hist s @ concat (map (model_losses GanModel) tr)
       \<and> st_calls sa = st_calls s + j * (2 * p_n_critic p + 1)
       \<and> (\<forall>c. st_calls s \<le> c \<and> c < st_calls s + j * (2 * p_n_critic p + 1) \<longrightarrow> replied e c)
       \<and> (\<forall>k<j. (steps ! k + 1) mod p_bat_per_epo p = 0 \<longrightarrow> sink_ok e (steps ! k + 1)))"
  have "Q (length steps) s'"
  proof (rule train_loop_invariant [OF assms])
    show "Q 0 s" unfolding Q_def by auto
  next
    fix j sa sb
    assume j: "j < length steps" and q: "Q j sa"
      and step: "train_step e p (steps ! j) sa = Inr sb"
    from q obtain tr where IH: "length tr = j"
      "\<forall>k<j. is_train_step e p (steps ! k) (tr ! k)"
      "st_trace sa = st_trace s @ concat tr"
      "c1_hist sa = c1_hist s @ map (\<lambda>evs. mean (evens (model_losses CModel evs))) tr"
      "c2_hist sa = c2_hist s @ map (\<lambda>evs. mean (odds (model_losses CModel evs))) tr"
      "g_hist sa = g_hist s @ concat (map (model_losses GanModel) tr)"
      "st_calls sa = st_calls s + j * (2 * p_n_critic p + 1)"
      "\<forall>c. st_calls s \<le> c \<and> c < st_calls s + j * (2 * p_n_critic p + 1) \<longrightarrow> replied e c"
      "\<forall>k<j. (steps ! k + 1) mod p_bat_per_epo p = 0 \<longrightarrow> sink_ok e (steps ! k + 1)"
      unfolding Q_def by blast
    from train_step_effect [OF step] obtain evs where E:
      "is_train_step e p (steps ! j) evs"
      "st_trace sb = st_trace sa @ evs"
      "c1_hist sb = c1_hist sa @ [mean (evens (model_losses CModel evs))]"
      "c2_hist sb = c2_hist sa @ [mean (odds (model_losses CModel evs))]"
      "g_hist sb = g_hist sa @ model_losses GanModel evs"
      "st_calls sb = st_calls sa + (2 * p_n_critic p + 1)"
      "\<forall>c. st_calls sa \<le> c \<and> c < st_calls sa + (2 * p_n_critic p + 1) \<longrightarrow> replied e c"
      "(steps ! j + 1) mod p_bat_per_epo p = 0 \<longrightarrow> sink_ok e (steps ! j + 1)"
      by (elim exE conjE) (rule that; assumption)
    have shape: "\<forall>k<Suc j. is_train_step e p (steps ! k) ((tr @ [evs]) ! k)"
      using IH(1,2) E(1) by (auto simp: less_Suc_eq nth_append)
    have sinks: "\<forall>k<Suc j. (steps ! k + 1) mod p_bat_per_epo p = 0 \<longrightarrow> sink_ok e (steps ! k + 1)"
      using IH(9) E(8) by (auto simp: less_Suc_eq)
    have calls: "st_calls sb = st_calls s + Suc j * (2 * p_n_critic p + 1)"
      using IH(7) E(6) by simp
    have replies: "\<forall>c. st_calls s \<le> c \<and> c < st_calls s + Suc j * (2 * p_n_critic p + 1)
        \<longrightarrow> replied e c"
    proof (intro allI impI)
      fix c assume c: "st_calls s \<le> c \<and> c < st_calls s + Suc j * (2 * p_n_critic p + 1)"
      show "replied e c"
      proof (cases "c < st_calls sa")
        case True
        then show ?thesis using c IH(7,8) by simp
      next
        case False
        then show ?thesis using c IH(7) E(7) by simp
      qed
    qed
    have len: "length (tr @ [evs]) = Suc j" using IH(1) by simp
    have t: "st_trace sb = st_trace s @ concat (tr @ [evs])" using IH(3) E(2) by simp
    have h1: "c1_hist sb = c1_hist s @ map (\<lambda>evs. mean (evens (model_losses CModel evs))) (tr @ [evs])"
      using IH(4) E(3) by simp
    have h2: "c2_hist sb = c2_hist s @ map (\<lambda>evs. mean (odds (model_losses CModel evs))) (tr @ [evs])"
      using IH(5) E(4) by simp
    have h3: "g_hist sb = g_hist s @ concat (map (model_losses GanModel) (tr @ [evs]))"
      using IH(6) E(5) by simp
    show "Q (Suc j) sb"
      unfolding Q_def using len shape t h1 h2 h3 calls replies sinks by blast
  qed
  then show ?thesis unfolding Q_def by simp
qed

lemma train_InrE:
  assumes "train e s c_model gan_model dataset latent_dim n_epochs n_batch n_critic = Inr s'"
  obtains s1 where "n_batch \<noteq> 0"
    and "train_loop e (train_params c_model gan_model dataset latent_dim n_batch n_critic)
           [0..<(length dataset div n_batch) * n_epochs]
           (s\<lparr>c1_hist := [], c2_hist := [], g_hist := []\<rparr>) = Inr s1"
    and "plot_ok e"
    and "s' = s1\<lparr>st_trace := st_trace s1 @ [PlotHistory (c1_hist s1) (c2_hist s1) (g_hist s1)]\<rparr>"
  using assms unfolding train_def Let_def plot_history_def
  by (auto simp: train_params_def split: sum.splits if_splits)

text \<open>A completed run of \<open>train\<close>: its events step by step, and its three histories.\<close>

lemma train_effect:
  assumes "train e s c_model gan_model dataset latent_dim n_epochs n_batch n_critic = Inr s'"
  shows "\<exists>tr. length tr = (length dataset div n_batch) * n_epochs
       \<and> (\<forall>k<(length dataset div n_batch) * n_epochs.
            is_train_step e (train_params c_model gan_model dataset latent_dim n_batch n_critic) k (tr ! k))
       \<and> st_trace s' = st_trace s @ concat tr @ [PlotHistory (c1_hist s') (c2_hist s') (g_hist s')]
       \<and> c1_hist s' = map (\<lambda>evs. mean (evens (model_losses CModel evs))) tr
       \<and> c2_hist s' = map (\<lambda>evs. mean (odds (model_losses CModel evs))) tr
       \<and> g_hist s' = concat (map (model_losses GanModel) tr)
       \<and> st_calls s' = st_calls s + (length dataset div n_batch) * n_epochs * (2 * n_critic + 1)
       \<and> (\<forall>c. st_calls s \<le> c
              \<and> c < st_calls s + (length dataset div n_batch) * n_epochs * (2 * n_critic + 1)
             \<longrightarrow> replied e c)
       \<and> (\<forall>k<(length dataset div n_batch) * n_epochs.
             (k + 1) mod (length dataset div n_batch) = 0 \<longrightarrow> sink_ok e (k + 1))
       \<and> plot_ok e \<and> n_batch \<noteq> 0"
proof -
  let ?p = "train_params c_model gan_model dataset latent_dim n_batch n_critic"
  let ?n = "(length dataset div n_batch) * n_epochs"
  from assms obtain s1 where
    loop: "train_loop e ?p [0..<?n] (s\<lparr>c1_hist := [], c2_hist := [], g_hist := []\<rparr>) = Inr s1"
    and s': "s' = s1\<lparr>st_trace := st_trace s1 @ [PlotHistory (c1_hist s1) (c2_hist s1) (g_hist s1)]\<rparr>"
    and ok: "plot_ok e" "n_batch \<noteq> 0"
    by (rule train_InrE)
  have pp: "p_n_critic ?p = n_critic" "p_bat_per_epo ?p = length dataset div n_batch"
    by (simp_all add: train_params_def)
  from train_loop_effect [OF loop] obtain tr where T: "length tr = ?n"
    "\<forall>k<?n. is_train_step e ?p ([0..<?n] ! k) (tr ! k)"
    "st_trace s1 = st_trace s @ concat tr"
    "c1_hist s1 = map (\<lambda>evs. mean (evens (model_losses CModel evs))) tr"
    "c2_hist s1 = map (\<lambda>evs. mean (odds (model_losses CModel evs))) tr"
    "g_hist s1 = concat (map (model_losses GanModel) tr)"
    "st_calls s1 = st_calls s + ?n * (2 * n_critic + 1)"
    "\<forall>c. st_calls s \<le> c \<and> c < st_calls s + ?n * (2 * n_critic + 1) \<longrightarrow> replied e c"
    "\<forall>k<?n. ([0..<?n] ! k + 1) mod (length dataset div n_batch) = 0 \<longrightarrow> sink_ok e ([0..<?n] ! k + 1)"
    unfolding pp by auto
  have shape: "\<forall>k<?n. is_train_step e ?p k (tr ! k)" using T(2) by simp
  have sinks: "\<forall>k<?n. (k + 1) mod (length dataset div n_batch) = 0 \<longrightarrow> sink_ok e (k + 1)"
    using T(9) by simp
  show ?thesis using T(1,3-8) shape sinks ok by (intro exI [of _ tr]) (simp add: s')
qed

subsection \<open>When a run completes and when it fails\<close>

lemma backend_totalD:
  "backend_total e \<Longrightarrow> \<exists>r. backend e mid c st X y = Some r"
  by (auto simp: backend_total_def)

lemma train_on_batch_total:
  assumes "backend_total e"
  shows "\<exists>l s'. train_on_batch e mid m X y s = Inr (l, s')"
proof -
  from backend_totalD [OF assms] obtain r
    where "backend e mid (st_calls s) (st_store s) X y = Some r" by blast
  from train_on_batch_Some [OF this] show ?thesis by blast
qed

lemma critic_substep_total:
  assumes "backend_total e" and "p_dataset p \<noteq> [] \<and> 0 < p_half_batch p"
  shows "\<exists>r. critic_substep e p s = Inr r"
proof -
  from assms(2) have "p_dataset p \<noteq> [] \<or> p_half_batch p = 0" and half: "0 < p_half_batch p"
    by simp_all
  from generate_real_samples_total [OF this(1)] obtain X_real y_real g1
    where a: "generate_real_samples (p_dataset p) (p_half_batch p) (st_rng s)
        = Inr ((X_real, y_real), g1)" by blast
  from train_on_batch_total [OF assms(1)] obtain l1 s1
    where b: "train_on_batch e CModel (p_c_model p) X_real y_real (s\<lparr>st_rng := g1\<rparr>) = Inr (l1, s1)"
    by blast
  from generate_fake_samples_total [OF half] obtain X_fake y_fake g2
    where c: "generate_fake_samples (forward e (generator_net (st_store s1))) (p_latent_dim p)
        (p_half_batch p) (st_rng s1) = Inr ((X_fake, y_fake), g2)" by blast
  from train_on_batch_total [OF assms(1)] obtain l2 s2
    where d: "train_on_batch e CModel (p_c_model p) X_fake y_fake (s1\<lparr>st_rng := g2\<rparr>) = Inr (l2, s2)"
    by blast
  show ?thesis by (simp add: critic_substep_def a b c d)
qed

lemma critic_loop_total:
  assumes "backend_total e" and "p_dataset p \<noteq> [] \<and> 0 < p_half_batch p"
  shows "\<exists>r. critic_loop e p k (s, t1, t2) = Inr r"
proof (induction k arbitrary: s t1 t2)
  case 0
  then show ?case by simp
next
  case (Suc k)
  from critic_substep_total [OF assms] obtain s' l1 l2
    where "critic_substep e p s = Inr (s', l1, l2)" by (metis prod_cases3)
  then show ?case using Suc.IH [of s' "t1 @ [l1]" "t2 @ [l2]"] by simp
qed

lemma summarize_performance_ok:
  assumes "sink_ok e (step + 1)"
  shows "\<exists>s'. summarize_performance e step latent_dim 100 s = Inr s'"
proof -
  have "(0::nat) < 100" by simp
  from generate_fake_samples_total [OF this] obtain X y g'
    where "generate_fake_samples (forward e (generator_net (st_store s))) latent_dim 100 (st_rng s)
        = Inr ((X, y), g')" by blast
  then show ?thesis using assms by (simp add: summarize_performance_def)
qed

lemma summarize_performance_sink_failure:
  assumes "\<not> sink_ok e (step + 1)"
  shows "summarize_performance e step latent_dim 100 s = Inl SinkError"
proof -
  have "(0::nat) < 100" by simp
  from generate_fake_samples_total [OF this] obtain X y g'
    where "generate_fake_samples (forward e (generator_net (st_store s))) latent_dim 100 (st_rng s)
        = Inr ((X, y), g')" by blast
  then show ?thesis using assms by (simp add: summarize_performance_def)
qed

lemma train_step_before_checkpoint:
  assumes "backend_total e" and "p_dataset p \<noteq> [] \<and> 0 < p_half_batch p"
    and "p_bat_per_epo p \<noteq> 0"
  shows "\<exists>s4. train_step e p i s =
           (if (i + 1) mod p_bat_per_epo p = 0
            then summarize_performance e i (p_latent_dim p) 100 s4 else Inr s4)"
proof -
  from critic_loop_total [OF assms(1,2)] obtain s1 c1_tmp c2_tmp
    where a: "critic_loop e p (p_n_critic p) (s, [], []) = Inr (s1, c1_tmp, c2_tmp)"
    by (metis prod_cases3)
  let ?s2 = "s1\<lparr>c1_hist := c1_hist s1 @ [mean c1_tmp], c2_hist := c2_hist s1 @ [mean c2_tmp]\<rparr>"
  obtain X_gan g' where b: "generate_latent_points (p_latent_dim p) (p_n_batch p) (st_rng ?s2)
      = Inr (X_gan, g')"
    by (simp add: generate_latent_points_Inr)
  from train_on_batch_total [OF assms(1)] obtain g_loss s3
    where c: "train_on_batch e GanModel (p_gan_model p) X_gan (neg (ones (p_n_batch p) 1))
        (?s2\<lparr>st_rng := g'\<rparr>) = Inr (g_loss, s3)" by blast
  show ?thesis
    unfolding train_step_def Let_def a sum.case prod.case b c
    using assms(3) by (intro exI [of _ "s3\<lparr>g_hist := g_hist s3 @ [g_loss]\<rparr>"]) simp
qed

lemma train_step_total:
  assumes "backend_total e" and "p_dataset p \<noteq> [] \<and> 0 < p_half_batch p"
    and "p_bat_per_epo p \<noteq> 0"
    and "(i + 1) mod p_bat_per_epo p = 0 \<longrightarrow> sink_ok e (i + 1)"
  shows "\<exists>s'. train_step e p i s = Inr s'"
proof -
  from train_step_before_checkpoint [OF assms(1-3)] obtain s4
    where s4: "train_step e p i s =
           (if (i + 1) mod p_bat_per_epo p = 0
            then summarize_performance e i (p_latent_dim p) 100 s4 else Inr s4)" by blast
  show ?thesis
  proof (cases "(i + 1) mod p_bat_per_epo p = 0")
    case True
    with assms(4) have "sink_ok e (i + 1)" by simp
    from summarize_performance_ok [OF this] show ?thesis using s4 True by simp
  next
    case False
    then show ?thesis using s4 by simp
  qed
qed

lemma train_step_sink_failure:
  assumes "backend_total e" and "p_dataset p \<noteq> [] \<and> 0 < p_half_batch p"
    and "p_bat_per_epo p \<noteq> 0"
    and "(i + 1) mod p_bat_per_epo p = 0" and "\<not> sink_ok e (i + 1)"
  shows "train_step e p i s = Inl SinkError"
proof -
  from train_step_before_checkpoint [OF assms(1-3)] obtain s4
    where s4: "train_step e p i s =
           (if (i + 1) mod p_bat_per_epo p = 0
            then summarize_performance e i (p_latent_dim p) 100 s4 else Inr s4)" by blast
  show ?thesis using s4 assms(4) summarize_performance_sink_failure [OF assms(5)] by simp
qed

lemma train_loop_total:
  assumes "backend_total e" and "p_dataset p \<noteq> [] \<and> 0 < p_half_batch p"
    and "p_bat_per_epo p \<noteq> 0"
    and "\<forall>i\<in>set steps. (i + 1) mod p_bat_per_epo p = 0 \<longrightarrow> sink_ok e (i + 1)"
  shows "\<exists>s'. train_loop e p steps s = Inr s'"
  using assms(4)
proof (induction steps arbitrary: s)
  case Nil
  then show ?case by simp
next
  case (Cons i steps)
  from Cons.prems have "(i + 1) mod p_bat_per_epo p = 0 \<longrightarrow> sink_ok e (i + 1)" by simp
  from train_step_total [OF assms(1-3) this] obtain s1
    where "train_step e p i s = Inr s1" by blast
  then show ?case using Cons.IH [of s1] Cons.prems by simp
qed

lemma train_loop_append:
  "train_loop e p (xs @ ys) s =
     (case train_loop e p xs s of Inl err \<Rightarrow> Inl err | Inr s' \<Rightarrow> train_loop e p ys s')"
  by (induction xs arbitrary: s) (auto split: sum.splits)

lemma train_params_simps [simp]:
  "p_c_model (train_params c_model gan_model dataset latent_dim n_batch n_critic) = c_model"
  "p_gan_model (train_params c_model gan_model dataset latent_dim n_batch n_critic) = gan_model"
  "p_dataset (train_params c_model gan_model dataset latent_dim n_batch n_critic) = dataset"
  "p_latent_dim (train_params c_model gan_model dataset latent_dim n_batch n_critic) = latent_dim"
  "p_n_batch (train_params c_model gan_model dataset latent_dim n_batch n_critic) = n_batch"
  "p_n_critic (train_params c_model gan_model dataset latent_dim n_batch n_critic) = n_critic"
  "p_bat_per_epo (train_params c_model gan_model dataset latent_dim n_batch n_critic)
     = length dataset div n_batch"
  "p_half_batch (train_params c_model gan_model dataset latent_dim n_batch n_critic) = n_batch div 2"
  by (simp_all add: train_params_def)

lemma train_unfold:
  "n_batch \<noteq> 0 \<Longrightarrow>
   train e s c_model gan_model dataset latent_dim n_epochs n_batch n_critic =
     (case train_loop e (train_params c_model gan_model dataset latent_dim n_batch n_critic)
             [0..<(length dataset div n_batch) * n_epochs]
             (s\<lparr>c1_hist := [], c2_hist := [], g_hist := []\<rparr>) of
        Inl err \<Rightarrow> Inl err
      | Inr s' \<Rightarrow> plot_history e s')"
  by (simp add: train_def Let_def)

text \<open>
  With a backend and sinks that never fail, and a batch size of at least two (so that the
  half batch is not empty), a run completes.
\<close>

lemma train_total:
  assumes "reliable e" and "2 \<le> n_batch"
  shows "\<exists>s'. train e s c_model gan_model dataset latent_dim n_epochs n_batch n_critic = Inr s'"
proof -
  let ?p = "train_params c_model gan_model dataset latent_dim n_batch n_critic"
  let ?n = "(length dataset div n_batch) * n_epochs"
  let ?s0 = "s\<lparr>c1_hist := [], c2_hist := [], g_hist := []\<rparr>"
  have bt: "backend_total e" and sinks: "\<forall>t. sink_ok e t" and plot: "plot_ok e"
    using assms(1) by (simp_all add: reliable_def)
  have "\<exists>s1. train_loop e ?p [0..<?n] ?s0 = Inr s1"
  proof (cases "length dataset div n_batch = 0")
    case True
    then show ?thesis by simp
  next
    case False
    then have "dataset \<noteq> []" by auto
    moreover have "0 < n_batch div 2" using assms(2) by simp
    ultimately show ?thesis
      using False sinks by (intro train_loop_total [OF bt]) simp_all
  qed
  then obtain s1 where "train_loop e ?p [0..<?n] ?s0 = Inr s1" by blast
  moreover have "n_batch \<noteq> 0" using assms(2) by simp
  ultimately show ?thesis using plot by (simp add: train_unfold plot_history_def)
qed

text \<open>The first checkpoint whose sink fails ends the run with that failure.\<close>

lemma train_sink_failure:
  assumes "backend_total e" and "2 \<le> n_batch"
    and "i < (length dataset div n_batch) * n_epochs"
    and "(i + 1) mod (length dataset div n_batch) = 0" and "\<not> sink_ok e (i + 1)"
    and "\<forall>j<i. (j + 1) mod (length dataset div n_batch) = 0 \<longrightarrow> sink_ok e (j + 1)"
  shows "train e s c_model gan_model dataset latent_dim n_epochs n_batch n_critic = Inl SinkError"
proof -
  let ?p = "train_params c_model gan_model dataset latent_dim n_batch n_critic"
  let ?n = "(length dataset div n_batch) * n_epochs"
  let ?s0 = "s\<lparr>c1_hist := [], c2_hist := [], g_hist := []\<rparr>"
  have nb: "n_batch \<noteq> 0" using assms(2) by simp
  have bpe: "p_bat_per_epo ?p \<noteq> 0"
    using assms(3) by (cases "length dataset div n_batch = 0") simp_all
  then have "p_dataset ?p \<noteq> []" by auto
  moreover have "0 < p_half_batch ?p" using assms(2) by simp
  ultimately have data: "p_dataset ?p \<noteq> [] \<and> 0 < p_half_batch ?p" by simp
  have split: "[0..<?n] = [0..<i] @ i # [Suc i..<?n]"
    using assms(3) by (metis le_add2 le_add_same_cancel2 less_imp_add_positive upt_add_eq_append upt_conv_Cons)
  have "\<forall>j\<in>set [0..<i]. (j + 1) mod p_bat_per_epo ?p = 0 \<longrightarrow> sink_ok e (j + 1)"
    using assms(6) by simp
  from train_loop_total [OF assms(1) data bpe this] obtain s1
    where pre: "train_loop e ?p [0..<i] ?s0 = Inr s1" by blast
  have "train_step e ?p i s1 = Inl SinkError"
    using assms(4,5) by (intro train_step_sink_failure [OF assms(1) data bpe]) simp_all
  then have "train_loop e ?p [0..<?n] ?s0 = Inl SinkError"
    unfolding split by (simp add: train_loop_append pre)
  then show ?thesis by (simp add: train_unfold [OF nb])
qed

text \<open>A backend call that fails ends the run with a failure.\<close>

lemma train_backend_failure:
  assumes "\<not> replied e c" and "st_calls s \<le> c"
    and "c < st_calls s + (length dataset div n_batch) * n_epochs * (2 * n_critic + 1)"
  shows "\<exists>err. train e s c_model gan_model dataset latent_dim n_epochs n_batch n_critic = Inl err"
proof (cases "train e s c_model gan_model dataset latent_dim n_epochs n_batch n_critic")
  case (Inl err)
  then show ?thesis by blast
next
  case (Inr s')
  from train_effect [OF Inr] have "\<forall>c. st_calls s \<le> c
      \<and> c < st_calls s + (length dataset div n_batch) * n_epochs * (2 * n_critic + 1)
      \<longrightarrow> replied e c" by blast
  with assms show ?thesis by blast
qed

text \<open>A dataset smaller than the batch: no step, no failure.\<close>

lemma train_small_dataset:
  assumes "length dataset < n_batch" and "plot_ok e"
  shows "train e s c_model gan_model dataset latent_dim n_epochs n_batch n_critic =
     Inr (s\<lparr>c1_hist := [], c2_hist := [], g_hist := [],
            st_trace := st_trace s @ [PlotHistory [] [] []]\<rparr>)"
proof -
  have "n_batch \<noteq> 0" using assms(1) by simp
  from train_unfold [OF this] show ?thesis
    using assms by (simp add: plot_history_def)
qed

lemma reliable_demo_env: "reliable demo_env"
  by (simp add: reliable_def backend_total_def demo_env_def demo_backend_def)

subsection \<open>The constrained weights along a run\<close>

lemma range_invariant_frame [simp]:
  "range_invariant which sk (s\<lparr>st_rng := g\<rparr>) = range_invariant which sk s"
  "range_invariant which sk (s\<lparr>c1_hist := h1\<rparr>) = range_invariant which sk s"
  "range_invariant which sk (s\<lparr>c2_hist := h2\<rparr>) = range_invariant which sk s"
  "range_invariant which sk (s\<lparr>g_hist := h3\<rparr>) = range_invariant which sk s"
  by (simp_all add: range_invariant_def)

lemma train_on_batch_range_critic:
  assumes "covered m sk" and "range_invariant which sk s"
    and "train_on_batch e mid m X y s = Inr (l, s')"
  shows "range_invariant which sk s' \<and> list_ex is_update (st_trace s')"
proof -
  from assms(3) obtain r where s': "s' = s\<lparr>st_store := apply_updates m r (st_store s),
        st_calls := Suc (st_calls s),
        st_trace := st_trace s @ [TrainOnBatch mid X y (loss r) (apply_updates m r (st_store s))]\<rparr>"
    by (rule train_on_batch_InrE)
  have sk: "skeleton (critic_net (st_store s)) = sk" using assms(2) by (simp add: range_invariant_def)
  have "constrained_in_range (update_net m r Critic (critic_net (st_store s)))"
    using assms(1) sk by (intro constrained_in_range_established) simp
  then show ?thesis using assms(2) sk by (auto simp: s' range_invariant_def)
qed

lemma train_on_batch_range_other:
  assumes "covered m0 sk" and "range_invariant which sk s"
    and "which GanModel \<longrightarrow> list_ex is_update (st_trace s)"
    and "train_on_batch e GanModel m X y s = Inr (l, s')"
  shows "range_invariant which sk s'"
proof -
  from assms(4) obtain r where s': "s' = s\<lparr>st_store := apply_updates m r (st_store s),
        st_calls := Suc (st_calls s),
        st_trace := st_trace s @ [TrainOnBatch GanModel X y (loss r) (apply_updates m r (st_store s))]\<rparr>"
    by (rule train_on_batch_InrE)
  have sk: "skeleton (critic_net (st_store s)) = sk" using assms(2) by (simp add: range_invariant_def)
  have keep: "constrained_in_range (update_net m r Critic (critic_net (st_store s)))"
    if "constrained_in_range (critic_net (st_store s))"
    using assms(1) sk that by (intro constrained_in_range_preserved [of m0]) simp_all
  have old: "which GanModel \<and> list_ex is_update (st_trace s) \<longrightarrow> constrained_in_range (critic_net (st_store s))"
    using assms(2) by (simp add: range_invariant_def)
  show ?thesis
    using assms(2,3) sk keep old by (auto simp: s' range_invariant_def)
qed

lemma critic_substep_range:
  assumes "covered (p_c_model p) sk" and "range_invariant which sk s"
    and "critic_substep e p s = Inr (s2, l1, l2)"
  shows "range_invariant which sk s2 \<and> list_ex is_update (st_trace s2)"
proof -
  from assms(3) obtain X_real y_real g1 s1 X_fake y_fake g2 where
    t1: "train_on_batch e CModel (p_c_model p) X_real y_real (s\<lparr>st_rng := g1\<rparr>) = Inr (l1, s1)"
    and t2: "train_on_batch e CModel (p_c_model p) X_fake y_fake (s1\<lparr>st_rng := g2\<rparr>) = Inr (l2, s2)"
    by (rule critic_substep_InrE)
  have "range_invariant which sk s1"
    using train_on_batch_range_critic [OF assms(1) _ t1] assms(2) by simp
  then show ?thesis
    using train_on_batch_range_critic [OF assms(1) _ t2] by simp
qed

lemma critic_loop_range:
  assumes "covered (p_c_model p) sk" and "range_invariant which sk s"
    and "critic_loop e p k (s, t1, t2) = Inr (s', t1', t2')"
  shows "range_invariant which sk s' \<and> (0 < k \<longrightarrow> list_ex is_update (st_trace s'))"
proof -
  define Q where "Q = (\<lambda>(j :: nat) (a :: state \<times> real list \<times> real list).
     range_invariant which sk (fst a) \<and> (0 < j \<longrightarrow> list_ex is_update (st_trace (fst a))))"
  have "Q k (s', t1', t2')"
  proof (rule critic_loop_invariant [OF assms(3)])
    show "Q 0 (s, t1, t2)" using assms(2) by (simp add: Q_def)
  next
    fix j sa u1 u2 sb l1 l2
    assume "Q j (sa, u1, u2)" and "critic_substep e p sa = Inr (sb, l1, l2)"
    then show "Q (Suc j) (sb, u1 @ [l1], u2 @ [l2])"
      using critic_substep_range [OF assms(1), of which sa e sb l1 l2] by (simp add: Q_def)
  qed
  then show ?thesis by (simp add: Q_def)
qed

lemma train_step_range:
  assumes "covered (p_c_model p) sk" and "range_invariant which sk s"
    and "which GanModel \<longrightarrow> 0 < p_n_critic p"
    and "train_step e p i s = Inr s'"
  shows "range_invariant which sk s'"
proof -
  from assms(4) obtain s1 c1_tmp c2_tmp X_gan g' g_loss s3 where
    loop: "critic_loop e p (p_n_critic p) (s, [], []) = Inr (s1, c1_tmp, c2_tmp)"
    and gan: "train_on_batch e GanModel (p_gan_model p) X_gan (neg (ones (p_n_batch p) 1))
           (s1\<lparr>c1_hist := c1_hist s1 @ [mean c1_tmp], c2_hist := c2_hist s1 @ [mean c2_tmp],
               st_rng := g'\<rparr>) = Inr (g_loss, s3)"
    and due: "(i + 1) mod p_bat_per_epo p = 0 \<longrightarrow>
           summarize_performance e i (p_latent_dim p) 100 (s3\<lparr>g_hist := g_hist s3 @ [g_loss]\<rparr>) = Inr s'"
    and not_due: "(i + 1) mod p_bat_per_epo p \<noteq> 0 \<longrightarrow> s' = s3\<lparr>g_hist := g_hist s3 @ [g_loss]\<rparr>"
    by (rule train_step_InrE)
  from critic_loop_range [OF assms(1,2) loop]
  have r1: "range_invariant which sk s1" and ne: "0 < p_n_critic p \<longrightarrow> list_ex is_update (st_trace s1)"
    by simp_all
  have r3: "range_invariant which sk s3"
    using r1 ne assms(3)
    by (intro train_on_batch_range_other [OF assms(1) _ _ gan]) simp_all
  show ?thesis
  proof (cases "(i + 1) mod p_bat_per_epo p = 0")
    case True
    with due obtain imgs g2 where
      "s' = (s3\<lparr>g_hist := g_hist s3 @ [g_loss]\<rparr>)\<lparr>st_rng := g2,
         st_trace := st_trace (s3\<lparr>g_hist := g_hist s3 @ [g_loss]\<rparr>) @
           [Checkpoint (i + 1) imgs (generator_net (st_store (s3\<lparr>g_hist := g_hist s3 @ [g_loss]\<rparr>)))]\<rparr>"
      by (auto elim: summarize_performance_InrE)
    then show ?thesis using r3 by (auto simp: range_invariant_def)
  next
    case False
    with not_due r3 show ?thesis by simp
  qed
qed

lemma train_loop_range:
  assumes "covered (p_c_model p) sk" and "range_invariant which sk s"
    and "which GanModel \<longrightarrow> 0 < p_n_critic p"
    and "train_loop e p steps s = Inr s'"
  shows "range_invariant which sk s'"
proof -
  have "(\<lambda>(j :: nat) (sa :: state). range_invariant which sk sa) (length steps) s'"
    by (rule train_loop_invariant [OF assms(4)])
      (use assms(1-3) in \<open>auto intro: train_step_range\<close>)
  then show ?thesis .
qed

lemma train_range:
  assumes "covered c_model (skeleton (critic_net st))"
    and "which GanModel \<longrightarrow> 0 < n_critic"
    and "train e (initial_state st g) c_model gan_model dataset latent_dim n_epochs n_batch n_critic
          = Inr s'"
  shows "range_invariant which (skeleton (critic_net st)) s'"
proof -
  let ?p = "train_params c_model gan_model dataset latent_dim n_batch n_critic"
  let ?sk = "skeleton (critic_net st)"
  from assms(3) obtain s1 where
    loop: "train_loop e ?p [0..<(length dataset div n_batch) * n_epochs]
        ((initial_state st g)\<lparr>c1_hist := [], c2_hist := [], g_hist := []\<rparr>) = Inr s1"
    and s': "s' = s1\<lparr>st_trace := st_trace s1 @ [PlotHistory (c1_hist s1) (c2_hist s1) (g_hist s1)]\<rparr>"
    by (rule train_InrE)
  have init: "range_invariant which ?sk
      ((initial_state st g)\<lparr>c1_hist := [], c2_hist := [], g_hist := []\<rparr>)"
    by (simp add: range_invariant_def initial_state_def)
  have "range_invariant which ?sk s1"
    using assms(1,2) by (intro train_loop_range [OF _ init _ loop]) simp_all
  then show ?thesis
    unfolding s' range_invariant_def by auto
qed

subsection \<open>Counting the events of a run\<close>

lemma model_losses_concat:
  "model_losses mid (concat tr) = concat (map (model_losses mid) tr)"
  by (induction tr) simp_all

lemma checkpoint_tags_concat:
  "checkpoint_tags (concat tr) = concat (map checkpoint_tags tr)"
  by (induction tr) simp_all

lemma length_concat_const:
  "\<forall>x\<in>set xs. length (f x) = c \<Longrightarrow> length (concat (map f xs)) = length xs * c"
  by (induction xs) simp_all

lemma length_evens_odds: "length (evens xs) + length (odds xs) = length xs"
  by (induction xs rule: evens.induct) simp_all

lemma concat_steps_filter:
  assumes "length tr = n"
    and "\<forall>k<n. f (tr ! k) = (if P (k + 1) then [k + 1] else [])"
  shows "concat (map f tr) = filter P [1..<Suc n]"
  using assms
proof (induction tr arbitrary: n rule: rev_induct)
  case Nil
  then show ?case by simp
next
  case (snoc x tr)
  then obtain m where n: "n = Suc m" and m: "length tr = m" by (cases n) auto
  have "\<forall>k<m. f (tr ! k) = (if P (k + 1) then [k + 1] else [])"
    using snoc.prems(2) m n by (metis less_Suc_eq nth_append)
  then have IH: "concat (map f tr) = filter P [1..<Suc m]" using snoc.IH [OF m] by simp
  have "(tr @ [x]) ! m = x" using m by (simp add: nth_append)
  then have "f x = (if P (m + 1) then [m + 1] else [])"
    using snoc.prems(2) [rule_format, of m] n by simp
  then show ?case using IH n by simp
qed

lemma is_train_step_all:
  assumes "length tr = n" and "\<forall>k<n. is_train_step e p k (tr ! k)"
  shows "\<forall>evs\<in>set tr. length (model_losses GanModel evs) = 1"
    and "\<forall>evs\<in>set tr. length (model_losses CModel evs) = 2 * p_n_critic p"
    and "\<forall>k<n. checkpoint_tags (tr ! k) = (if (k + 1) mod p_bat_per_epo p = 0 then [k + 1] else [])"
proof -
  have each: "\<exists>k<n. evs = tr ! k" if "evs \<in> set tr" for evs
    using that assms(1) by (metis in_set_conv_nth)
  show "\<forall>evs\<in>set tr. length (model_losses GanModel evs) = 1"
    using each assms(2) is_train_step_facts(1) by blast
  show "\<forall>evs\<in>set tr. length (model_losses CModel evs) = 2 * p_n_critic p"
  proof
    fix evs assume "evs \<in> set tr"
    with each assms(2) obtain k where "is_train_step e p k evs" by blast
    from is_train_step_facts(2,3) [OF this] length_evens_odds [of "model_losses CModel evs"]
    show "length (model_losses CModel evs) = 2 * p_n_critic p" by simp
  qed
  show "\<forall>k<n. checkpoint_tags (tr ! k) = (if (k + 1) mod p_bat_per_epo p = 0 then [k + 1] else [])"
    using assms(2) is_train_step_facts(4) by blast
qed

text \<open>
  Claim C7. A run of \<open>train\<close> that completes has executed exactly
  \<open>(N div B) * E\<close> training steps, \<open>N\<close> the size of the dataset, \<open>B\<close> the batch size and
  \<open>E\<close> the number of epochs: that many updates of the generator, \<open>2 * n_critic\<close> times
  that many updates of the critic, and three loss histories of that length. Its
  checkpoints are tagged, in order, with the one-based step numbers up to
  \<open>(N div B) * E\<close> that are multiples of \<open>N div B\<close>.
\<close>

theorem train_steps_and_checkpoints:
  assumes "train e s c_model gan_model dataset latent_dim n_epochs n_batch n_critic = Inr s'"
  shows "\<exists>evs. st_trace s' = st_trace s @ evs
       \<and> length (model_losses GanModel evs) = (length dataset div n_batch) * n_epochs
       \<and> length (model_losses CModel evs)
           = (length dataset div n_batch) * n_epochs * (2 * n_critic)
       \<and> length (c1_hist s') = (length dataset div n_batch) * n_epochs
       \<and> length (c2_hist s') = (length dataset div n_batch) * n_epochs
       \<and> length (g_hist s') = (length dataset div n_batch) * n_epochs
       \<and> checkpoint_tags evs =
           filter (\<lambda>t. t mod (length dataset div n_batch) = 0)
             [1..<Suc ((length dataset div n_batch) * n_epochs)]"
proof -
  let ?p = "train_params c_model gan_model dataset latent_dim n_batch n_critic"
  let ?n = "(length dataset div n_batch) * n_epochs"
  from train_effect [OF assms] obtain tr where T: "length tr = ?n"
    "\<forall>k<?n. is_train_step e ?p k (tr ! k)"
    "st_trace s' = st_trace s @ concat tr @ [PlotHistory (c1_hist s') (c2_hist s') (g_hist s')]"
    "c1_hist s' = map (\<lambda>evs. mean (evens (model_losses CModel evs))) tr"
    "c2_hist s' = map (\<lambda>evs. mean (odds (model_losses CModel evs))) tr"
    "g_hist s' = concat (map (model_losses GanModel) tr)"
    by (elim exE conjE) (rule that; assumption)
  note A = is_train_step_all [OF T(1,2)]
  define evs where "evs = concat tr @ [PlotHistory (c1_hist s') (c2_hist s') (g_hist s')]"
  have g: "length (concat (map (model_losses GanModel) tr)) = ?n"
    using length_concat_const [OF A(1)] T(1) by simp
  have c: "length (concat (map (model_losses CModel) tr)) = ?n * (2 * n_critic)"
    using length_concat_const [OF A(2)] T(1) by simp
  have tags: "concat (map checkpoint_tags tr)
      = filter (\<lambda>t. t mod (length dataset div n_batch) = 0) [1..<Suc ?n]"
    using A(3) by (intro concat_steps_filter [OF T(1)]) simp
  have f1: "st_trace s' = st_trace s @ evs" by (simp add: T(3) evs_def)
  have f2: "length (model_losses GanModel evs) = ?n"
    using g by (simp add: evs_def model_losses_concat)
  have f3: "length (model_losses CModel evs) = ?n * (2 * n_critic)"
    using c by (simp add: evs_def model_losses_concat)
  have f4: "length (c1_hist s') = ?n" "length (c2_hist s') = ?n" "length (g_hist s') = ?n"
    using T(1) g by (simp_all add: T(4,5,6))
  have f5: "checkpoint_tags evs
      = filter (\<lambda>t. t mod (length dataset div n_batch) = 0) [1..<Suc ?n]"
    using tags by (simp add: evs_def checkpoint_tags_concat)
  show ?thesis
    by (intro exI [of _ evs] conjI) (rule f1 f2 f3 f4 f5)+
qed

lemma scenario_tags: "filter (\<lambda>t. t mod 10 = 0) [1..<Suc 10] = [10::nat]"
  by code_simp

theorem train_steps_and_checkpoints_witness:
  "\<exists>s'. train demo_env (initial_state (fst (notebook_setup 10 demo_init demo_init)) demo_rng)
           (fst (snd (notebook_setup 10 demo_init demo_init)))
           (snd (snd (notebook_setup 10 demo_init demo_init)))
           (replicate 100 (replicate 64 0)) 10 1 10 2 = Inr s'
     \<and> length (model_losses GanModel (st_trace s')) = 10
     \<and> length (model_losses CModel (st_trace s')) = 40
     \<and> length (c1_hist s') = 10 \<and> length (c2_hist s') = 10 \<and> length (g_hist s') = 10
     \<and> checkpoint_tags (st_trace s') = [10]"
proof -
  let ?s = "initial_state (fst (notebook_setup 10 demo_init demo_init)) demo_rng"
  let ?D = "replicate 100 (replicate 64 (0::real))"
  have "(2::nat) \<le> 10" by simp
  from train_total [OF reliable_demo_env this] obtain s'
    where run: "train demo_env ?s (fst (snd (notebook_setup 10 demo_init demo_init)))
           (snd (snd (notebook_setup 10 demo_init demo_init))) ?D 10 1 10 2 = Inr s'"
    by blast
  have n: "(length ?D div 10) * 1 = 10" "length ?D div 10 = 10" by simp_all
  have t0: "st_trace ?s = []" by (simp add: initial_state_def)
  from train_steps_and_checkpoints [OF run] obtain evs where E:
    "st_trace s' = st_trace ?s @ evs"
    "length (model_losses GanModel evs) = (length ?D div 10) * 1"
    "length (model_losses CModel evs) = (length ?D div 10) * 1 * (2 * 2)"
    "length (c1_hist s') = (length ?D div 10) * 1"
    "length (c2_hist s') = (length ?D div 10) * 1"
    "length (g_hist s') = (length ?D div 10) * 1"
    "checkpoint_tags evs = filter (\<lambda>t. t mod (length ?D div 10) = 0) [1..<Suc ((length ?D div 10) * 1)]"
    by (elim exE conjE) (rule that; assumption)
  have tr: "st_trace s' = evs" using E(1) t0 by simp
  have "checkpoint_tags (st_trace s') = [10]"
    using E(7) scenario_tags unfolding tr n by simp
  moreover have "length (model_losses GanModel (st_trace s')) = 10"
    "length (model_losses CModel (st_trace s')) = 40"
    "length (c1_hist s') = 10" "length (c2_hist s') = 10" "length (g_hist s') = 10"
    using E(2-6) unfolding tr n by simp_all
  ultimately show ?thesis using run by blast
qed

subsection \<open>The loss histories\<close>

lemma mean_arithmetic:
  "mean xs = (if length xs = 0 then None else Some (sum_list xs / real (length xs)))"
  by (simp add: mean_def)

lemma train_loop_histories:
  assumes "train_loop e p steps s = Inr s'"
  shows "\<exists>n1 n2 n3. length n1 = length steps \<and> length n2 = length steps
       \<and> length n3 = length steps
       \<and> c1_hist s' = c1_hist s @ n1 \<and> c2_hist s' = c2_hist s @ n2 \<and> g_hist s' = g_hist s @ n3"
proof -
  let ?p = p
  from train_loop_effect [OF assms] obtain tr where T: "length tr = length steps"
    "\<forall>k<length steps. is_train_step e p (steps ! k) (tr ! k)"
    "c1_hist s' = c1_hist s @ map (\<lambda>evs. mean (evens (model_losses CModel evs))) tr"
    "c2_hist s' = c2_hist s @ map (\<lambda>evs. mean (odds (model_losses CModel evs))) tr"
    "g_hist s' = g_hist s @ concat (map (model_losses GanModel) tr)"
    by (elim exE conjE) (rule that; assumption)
  have "\<forall>evs\<in>set tr. length (model_losses GanModel evs) = 1"
  proof
    fix evs assume "evs \<in> set tr"
    then obtain k where "k < length steps" "evs = tr ! k"
      using T(1) by (metis in_set_conv_nth)
    then show "length (model_losses GanModel evs) = 1"
      using T(2) is_train_step_facts(1) by blast
  qed
  from length_concat_const [OF this]
  have "length (concat (map (model_losses GanModel) tr)) = length steps" using T(1) by simp
  then show ?thesis using T(1,3,4,5)
    by (intro exI [of _ "map (\<lambda>evs. mean (evens (model_losses CModel evs))) tr"]
        exI [of _ "map (\<lambda>evs. mean (odds (model_losses CModel evs))) tr"]
        exI [of _ "concat (map (model_losses GanModel) tr)"]) simp
qed

text \<open>
  Claim C6. A training step appends exactly one value to each of the three loss
  histories: to the first the arithmetic mean of the \<open>n_critic\<close> losses of the step's
  updates of the critic on real batches (the first of each sub-step), to the second the
  mean of the \<open>n_critic\<close> losses of its updates on fake batches, to the third the loss of
  the generator's update. So \<open>T\<close> completed steps append \<open>T\<close> values to each history and
  leave what was there in place; from the empty histories that \<open>train\<close> starts with, each
  has length \<open>T\<close>.
\<close>

theorem loss_histories_append_means:
  "(train_step e p i s = Inr s' \<longrightarrow>
      (\<exists>evs g_loss. st_trace s' = st_trace s @ evs \<and> is_train_step e p i evs
         \<and> length (evens (model_losses CModel evs)) = p_n_critic p
         \<and> length (odds (model_losses CModel evs)) = p_n_critic p
         \<and> model_losses GanModel evs = [g_loss]
         \<and> c1_hist s' = c1_hist s @
             [if p_n_critic p = 0 then None
              else Some (sum_list (evens (model_losses CModel evs)) / real (p_n_critic p))]
         \<and> c2_hist s' = c2_hist s @
             [if p_n_critic p = 0 then None
              else Some (sum_list (odds (model_losses CModel evs)) / real (p_n_critic p))]
         \<and> g_hist s' = g_hist s @ [g_loss]))
   \<and> (train_loop e p [0..<T] s1 = Inr s2 \<longrightarrow>
        (\<exists>n1 n2 n3. length n1 = T \<and> length n2 = T \<and> length n3 = T
           \<and> c1_hist s2 = c1_hist s1 @ n1 \<and> c2_hist s2 = c2_hist s1 @ n2
           \<and> g_hist s2 = g_hist s1 @ n3))
   \<and> (train_loop e p [0..<T] (s3\<lparr>c1_hist := [], c2_hist := [], g_hist := []\<rparr>) = Inr s4 \<longrightarrow>
        length (c1_hist s4) = T \<and> length (c2_hist s4) = T \<and> length (g_hist s4) = T)"
proof (intro conjI impI)
  assume step: "train_step e p i s = Inr s'"
  from train_step_effect [OF step] obtain evs where E:
    "is_train_step e p i evs"
    "st_trace s' = st_trace s @ evs"
    "c1_hist s' = c1_hist s @ [mean (evens (model_losses CModel evs))]"
    "c2_hist s' = c2_hist s @ [mean (odds (model_losses CModel evs))]"
    "g_hist s' = g_hist s @ model_losses GanModel evs"
    by (elim exE conjE) (rule that; assumption)
  note F = is_train_step_facts [OF E(1)]
  from F(1) obtain g_loss where g: "model_losses GanModel evs = [g_loss]"
    by (cases "model_losses GanModel evs") auto
  have m1: "mean (evens (model_losses CModel evs)) =
      (if p_n_critic p = 0 then None
       else Some (sum_list (evens (model_losses CModel evs)) / real (p_n_critic p)))"
    using F(2) by (simp add: mean_arithmetic)
  have m2: "mean (odds (model_losses CModel evs)) =
      (if p_n_critic p = 0 then None
       else Some (sum_list (odds (model_losses CModel evs)) / real (p_n_critic p)))"
    using F(3) by (simp add: mean_arithmetic)
  have h1: "c1_hist s' = c1_hist s @
             [if p_n_critic p = 0 then None
              else Some (sum_list (evens (model_losses CModel evs)) / real (p_n_critic p))]"
    using E(3) m1 by simp
  have h2: "c2_hist s' = c2_hist s @
             [if p_n_critic p = 0 then None
              else Some (sum_list (odds (model_losses CModel evs)) / real (p_n_critic p))]"
    using E(4) m2 by simp
  have h3: "g_hist s' = g_hist s @ [g_loss]" using E(5) g by simp
  show "\<exists>evs g_loss. st_trace s' = st_trace s @ evs \<and> is_train_step e p i evs
         \<and> length (evens (model_losses CModel evs)) = p_n_critic p
         \<and> length (odds (model_losses CModel evs)) = p_n_critic p
         \<and> model_losses GanModel evs = [g_loss]
         \<and> c1_hist s' = c1_hist s @
             [if p_n_critic p = 0 then None
              else Some (sum_list (evens (model_losses CModel evs)) / real (p_n_critic p))]
         \<and> c2_hist s' = c2_hist s @
             [if p_n_critic p = 0 then None
              else Some (sum_list (odds (model_losses CModel evs)) / real (p_n_critic p))]
         \<and> g_hist s' = g_hist s @ [g_loss]"
    by (intro exI [of _ evs] exI [of _ g_loss] conjI) (rule E(1,2) F(2,3) g h1 h2 h3)+
next
  assume "train_loop e p [0..<T] s1 = Inr s2"
  from train_loop_histories [OF this]
  show "\<exists>n1 n2 n3. length n1 = T \<and> length n2 = T \<and> length n3 = T
           \<and> c1_hist s2 = c1_hist s1 @ n1 \<and> c2_hist s2 = c2_hist s1 @ n2
           \<and> g_hist s2 = g_hist s1 @ n3"
    by simp
next
  assume loop: "train_loop e p [0..<T] (s3\<lparr>c1_hist := [], c2_hist := [], g_hist := []\<rparr>) = Inr s4"
  from train_loop_histories [OF loop] obtain n1 n2 n3 where
    "length n1 = T" "length n2 = T" "length n3 = T"
    "c1_hist s4 = n1" "c2_hist s4 = n2" "g_hist s4 = n3" by auto
  then show "length (c1_hist s4) = T" and "length (c2_hist s4) = T" and "length (g_hist s4) = T"
    by simp_all
qed

theorem loss_histories_append_means_witness:
  "\<exists>s' s2.
     train_step demo_env
       (train_params (fst (snd (notebook_setup 2 demo_init demo_init)))
          (snd (snd (notebook_setup 2 demo_init demo_init))) [[0.5], [0.25]] 2 2 3)
       0 (initial_state (fst (notebook_setup 2 demo_init demo_init)) demo_rng) = Inr s'
     \<and> length (c1_hist s') = 1 \<and> length (c2_hist s') = 1 \<and> length (g_hist s') = 1
     \<and> train_loop demo_env
       (train_params (fst (snd (notebook_setup 2 demo_init demo_init)))
          (snd (snd (notebook_setup 2 demo_init demo_init))) [[0.5], [0.25]] 2 2 3)
       [0..<4] (initial_state (fst (notebook_setup 2 demo_init demo_init)) demo_rng) = Inr s2
     \<and> length (c1_hist s2) = 4 \<and> length (c2_hist s2) = 4 \<and> length (g_hist s2) = 4"
proof -
  let ?p = "train_params (fst (snd (notebook_setup 2 demo_init demo_init)))
          (snd (snd (notebook_setup 2 demo_init demo_init))) [[0.5], [0.25]] 2 2 3"
  let ?s = "initial_state (fst (notebook_setup 2 demo_init demo_init)) demo_rng"
  have bt: "backend_total demo_env" and sinks: "\<forall>t. sink_ok demo_env t"
    using reliable_demo_env by (simp_all add: reliable_def)
  have data: "p_dataset ?p \<noteq> [] \<and> 0 < p_half_batch ?p" and bpe: "p_bat_per_epo ?p \<noteq> 0"
    by simp_all
  from train_step_total [OF bt data bpe] sinks obtain s'
    where step: "train_step demo_env ?p 0 ?s = Inr s'" by blast
  from train_loop_total [OF bt data bpe] sinks obtain s2
    where loop: "train_loop demo_env ?p [0..<4] ?s = Inr s2" by blast
  have empty: "c1_hist ?s = [] \<and> c2_hist ?s = [] \<and> g_hist ?s = []"
    by (simp add: initial_state_def)
  note inst = loss_histories_append_means [of demo_env ?p 0 ?s s' 4 ?s s2 ?s s2]
  from inst step obtain evs g_loss where
    "c1_hist s' = c1_hist ?s @
             [if p_n_critic ?p = 0 then None
              else Some (sum_list (evens (model_losses CModel evs)) / real (p_n_critic ?p))]"
    "c2_hist s' = c2_hist ?s @
             [if p_n_critic ?p = 0 then None
              else Some (sum_list (odds (model_losses CModel evs)) / real (p_n_critic ?p))]"
    "g_hist s' = g_hist ?s @ [g_loss]"
    by blast
  then have one: "length (c1_hist s') = 1 \<and> length (c2_hist s') = 1 \<and> length (g_hist s') = 1"
    using empty by simp
  from inst loop obtain n1 n2 n3 where "length n1 = 4" "length n2 = 4" "length n3 = 4"
    "c1_hist s2 = c1_hist ?s @ n1" "c2_hist s2 = c2_hist ?s @ n2" "g_hist s2 = g_hist ?s @ n3"
    by blast
  then have four: "length (c1_hist s2) = 4 \<and> length (c2_hist s2) = 4 \<and> length (g_hist s2) = 4"
    using empty by simp
  have same: "?s\<lparr>c1_hist := [], c2_hist := [], g_hist := []\<rparr> = ?s"
    by (simp add: initial_state_def)
  from inst loop have again:
    "length (c1_hist s2) = 4 \<and> length (c2_hist s2) = 4 \<and> length (g_hist s2) = 4"
    unfolding same by blast
  show ?thesis using step loop one four again by blast
qed

subsection \<open>The kernels that carry the constraint\<close>

lemma skeleton_constraints:
  "map (\<lambda>(k, t, ws). map (\<lambda>(n, c, tr). c) ws) (skeleton ls)
   = map (\<lambda>l. map w_constraint (l_weights l)) ls"
  by (simp add: skeleton_def comp_def)

lemma notebook_setup_constraints:
  assumes "notebook_setup latent_dim c_init g_init = (st, c_model, gan_model)"
  shows "map (\<lambda>l. map w_constraint (l_weights l)) (critic_net st) = critic_constraints"
  unfolding notebook_setup_critic [OF assms]
  by (simp add: define_critic_def Let_def kernel_layer_def batch_normalization_def
      plain_layer_def critic_constraints_def)

lemma constraints_nth:
  assumes "map (\<lambda>l. map w_constraint (l_weights l)) ls = cs"
    and "i < length cs" and "j < length (cs ! i)"
  shows "i < length ls \<and> j < length (l_weights (ls ! i))
     \<and> w_constraint (l_weights (ls ! i) ! j) = cs ! i ! j"
proof -
  have len: "length ls = length cs" using assms(1) by (metis length_map)
  then have i: "i < length ls" using assms(2) by simp
  have row: "cs ! i = map w_constraint (l_weights (ls ! i))"
    using assms(1) i by (metis nth_map)
  then have j: "j < length (l_weights (ls ! i))" using assms(3) by simp
  show ?thesis using i j row by simp
qed

lemma constrained_weight_bounds:
  assumes "constrained_in_range ls" and "i < length ls" and "j < length (l_weights (ls ! i))"
    and "w_constraint (l_weights (ls ! i) ! j) = Some k"
  shows "\<forall>v\<in>set (w_value (l_weights (ls ! i) ! j)). - clip_value k \<le> v \<and> v \<le> clip_value k"
proof -
  have "weight_in_range (l_weights (ls ! i) ! j)"
    using assms(1-3) by (simp add: constrained_in_range_iff)
  then show ?thesis using assms(4) by (simp add: weight_in_range_def list_all_iff)
qed

lemma critic_kernel_bounds:
  assumes "map (\<lambda>l. map w_constraint (l_weights l)) ls = critic_constraints"
    and "constrained_in_range ls"
  shows "\<forall>i\<in>set [0, 3, 6, 9].
           \<forall>v\<in>set (w_value (l_weights (ls ! i) ! 0)). - 0.005 \<le> v \<and> v \<le> 0.005"
proof -
  have one: "\<forall>v\<in>set (w_value (l_weights (ls ! i) ! 0)). - 0.005 \<le> v \<and> v \<le> 0.005"
    if "i < length critic_constraints" and "0 < length (critic_constraints ! i)"
      and "critic_constraints ! i ! 0 = Some \<lparr>clip_value = 0.005\<rparr>" for i
  proof -
    from constraints_nth [OF assms(1) that(1,2)]
    have "i < length ls" "0 < length (l_weights (ls ! i))"
      "w_constraint (l_weights (ls ! i) ! 0) = Some \<lparr>clip_value = 0.005\<rparr>"
      using that(3) by simp_all
    from constrained_weight_bounds [OF assms(2) this] show ?thesis by simp
  qed
  have "\<forall>i\<in>set [0, 3, 6, 9]. i < length critic_constraints
      \<and> 0 < length (critic_constraints ! i)
      \<and> critic_constraints ! i ! 0 = Some \<lparr>clip_value = 0.005\<rparr>"
    by (simp add: critic_constraints_def Let_def)
  then show ?thesis using one by blast
qed

lemma range_invariant_events:
  assumes "range_invariant which sk s" and "TrainOnBatch mid X y l w \<in> set (st_trace s)"
    and "which mid"
  shows "constrained_in_range (critic_net w) \<and> skeleton (critic_net w) = sk"
  using assms unfolding range_invariant_def by blast

subsection \<open>What the updates of a run store\<close>



















lemma replayed_frame [simp]:
  "replayed e st0 (s\<lparr>st_rng := g\<rparr>) = replayed e st0 s"
  "replayed e st0 (s\<lparr>c1_hist := h1\<rparr>) = replayed e st0 s"
  "replayed e st0 (s\<lparr>c2_hist := h2\<rparr>) = replayed e st0 s"
  "replayed e st0 (s\<lparr>g_hist := h3\<rparr>) = replayed e st0 s"
  by (simp_all add: replayed_def)








subsection \<open>The order of a step\<close>



subsection \<open>The constrained weights after every update\<close>

text \<open>
  Claim C1, as amended. In a completed run of \<open>train\<close> on the notebook's models with at
  least one sub-step of the critic per step, after every optimizer update (of the
  critic or of the composite) every weight of the critic that carries the constraint
  lies within \<open>[-0.005, 0.005]\<close>. The weights that carry it are the kernels of the four
  \<^verbatim>\<open>Conv2D\<close> layers, at the start and after every update. (The other parameters of the
  critic are not clipped, see the counterexample.)
\<close>

theorem constrained_critic_weights_stay_clipped:
  assumes "notebook_setup latent_dim c_init g_init = (st, c_model, gan_model)"
    and "train e (initial_state st g) c_model gan_model dataset latent_dim n_epochs n_batch n_critic
           = Inr s'"
    and "1 \<le> n_critic"
  shows "map (\<lambda>l. map w_constraint (l_weights l)) (critic_net st) = critic_constraints
       \<and> (\<forall>mid X y l w. TrainOnBatch mid X y l w \<in> set (st_trace s') \<longrightarrow>
             map (\<lambda>l. map w_constraint (l_weights l)) (critic_net w) = critic_constraints
             \<and> constrained_in_range (critic_net w)
             \<and> (\<forall>i\<in>set [0, 3, 6, 9].
                   \<forall>v\<in>set (w_value (l_weights (critic_net w ! i) ! 0)). - 0.005 \<le> v \<and> v \<le> 0.005))"
proof -
  let ?sk = "skeleton (critic_net st)"
  have cov: "covered c_model ?sk" by (rule notebook_setup_covered [OF assms(1)])
  have inv: "range_invariant (\<lambda>mid. True) ?sk s'"
    using assms(3) by (intro train_range [OF cov _ assms(2)]) simp
  have cs: "map (\<lambda>l. map w_constraint (l_weights l)) (critic_net st) = critic_constraints"
    by (rule notebook_setup_constraints [OF assms(1)])
  have clipped: "map (\<lambda>l. map w_constraint (l_weights l)) (critic_net w) = critic_constraints
      \<and> constrained_in_range (critic_net w)
      \<and> (\<forall>i\<in>set [0, 3, 6, 9].
            \<forall>v\<in>set (w_value (l_weights (critic_net w ! i) ! 0)). - 0.005 \<le> v \<and> v \<le> 0.005)"
    if ev: "TrainOnBatch mid X y l w \<in> set (st_trace s')" for mid X y l w
  proof -
    from range_invariant_events [OF inv ev]
    have r: "constrained_in_range (critic_net w)" and sk: "skeleton (critic_net w) = ?sk"
      by simp_all
    have c: "map (\<lambda>l. map w_constraint (l_weights l)) (critic_net w) = critic_constraints"
      using sk cs skeleton_constraints [of "critic_net w"] skeleton_constraints [of "critic_net st"]
      by simp
    from critic_kernel_bounds [OF c r] c r show ?thesis by simp
  qed
  show ?thesis using cs clipped by blast
qed

lemma train_has_generator_update:
  assumes "train e s c_model gan_model dataset latent_dim n_epochs n_batch n_critic = Inr s'"
    and "0 < (length dataset div n_batch) * n_epochs"
  shows "\<exists>z l w. TrainOnBatch GanModel z (replicate n_batch [- 1]) l w \<in> set (st_trace s')"
proof -
  let ?p = "train_params c_model gan_model dataset latent_dim n_batch n_critic"
  let ?n = "(length dataset div n_batch) * n_epochs"
  from train_effect [OF assms(1)] obtain tr where T: "length tr = ?n"
    "\<forall>k<?n. is_train_step e ?p k (tr ! k)"
    "st_trace s' = st_trace s @ concat tr @ [PlotHistory (c1_hist s') (c2_hist s') (g_hist s')]"
    by (elim exE conjE) (rule that; assumption)
  from T(2) assms(2) have "is_train_step e ?p 0 (tr ! 0)" by blast
  then obtain subs gen ckpt where evs: "tr ! 0 = concat subs @ gen # ckpt"
    and gen: "is_generator_update ?p gen"
    unfolding is_train_step_def by blast
  from gen obtain z l w where g: "gen = TrainOnBatch GanModel z (replicate n_batch [- 1]) l w"
    unfolding is_generator_update_def by auto
  have "tr ! 0 \<in> set tr" using T(1) assms(2) by simp
  then have "gen \<in> set (concat tr)" using evs by (metis in_set_conv_decomp set_concat UN_I)
  then show ?thesis using T(3) g by auto
qed

theorem constrained_critic_weights_stay_clipped_witness:
  "\<exists>s' z l w.
     (1::nat) \<le> 5
     \<and> train demo_env (initial_state (fst (notebook_setup 2 demo_init demo_init)) demo_rng)
         (fst (snd (notebook_setup 2 demo_init demo_init)))
         (snd (snd (notebook_setup 2 demo_init demo_init)))
         [[0.5], [0.25], [0.125], [0]] 2 3 2 5 = Inr s'
     \<and> TrainOnBatch GanModel z (replicate 2 [- 1]) l w \<in> set (st_trace s')
     \<and> constrained_in_range (critic_net w)
     \<and> list_all (\<lambda>v. - 0.005 \<le> v \<and> v \<le> 0.005) (w_value (l_weights (critic_net w ! 0) ! 0))
     \<and> list_all (\<lambda>v. - 0.005 \<le> v \<and> v \<le> 0.005) (w_value (l_weights (critic_net w ! 9) ! 0))"
proof -
  obtain st c_model gan_model
    where nb: "notebook_setup 2 demo_init demo_init = (st, c_model, gan_model)"
    by (cases "notebook_setup 2 demo_init demo_init") auto
  let ?D = "[[0.5], [0.25], [0.125], [0 :: real]]"
  have b: "(2::nat) \<le> 2" and k: "(1::nat) \<le> 5" by simp_all
  from train_total [OF reliable_demo_env b] obtain s'
    where run: "train demo_env (initial_state st demo_rng) c_model gan_model ?D 2 3 2 5 = Inr s'"
    by blast
  have "0 < (length ?D div 2) * 3" by simp
  from train_has_generator_update [OF run this] obtain z l w
    where ev: "TrainOnBatch GanModel z (replicate 2 [- 1]) l w \<in> set (st_trace s')" by blast
  from constrained_critic_weights_stay_clipped [OF nb run k] ev
  have "constrained_in_range (critic_net w)
      \<and> (\<forall>i\<in>set [0, 3, 6, 9].
            \<forall>v\<in>set (w_value (l_weights (critic_net w ! i) ! 0)). - 0.005 \<le> v \<and> v \<le> 0.005)"
    by blast
  then have "constrained_in_range (critic_net w)
     \<and> list_all (\<lambda>v. - 0.005 \<le> v \<and> v \<le> 0.005) (w_value (l_weights (critic_net w ! 0) ! 0))
     \<and> list_all (\<lambda>v. - 0.005 \<le> v \<and> v \<le> 0.005) (w_value (l_weights (critic_net w ! 9) ! 0))"
    by (simp add: list_all_iff)
  then show ?thesis using run ev k nb
    by (intro exI [of _ s'] exI [of _ z] exI [of _ l] exI [of _ w]) simp
qed

subsection \<open>The parameters that are not clipped\<close>

lemma demo_update_value:
  assumes "train_on_batch demo_env mid m X y s = Inr (l, s')"
    and "(Critic, i, j) \<in> set (collected_trainable_weights m)"
    and "i < length (critic_net (st_store s))"
    and "j < length (l_weights (critic_net (st_store s) ! i))"
    and "w_constraint (l_weights (critic_net (st_store s) ! i) ! j) = None"
  shows "w_value (l_weights (critic_net (st_store s') ! i) ! j)
           = map (\<lambda>v. v - 1 / 10000) (w_value (l_weights (critic_net (st_store s) ! i) ! j))
       \<and> i < length (critic_net (st_store s'))
       \<and> j < length (l_weights (critic_net (st_store s') ! i))
       \<and> w_constraint (l_weights (critic_net (st_store s') ! i) ! j) = None"
proof -
  from assms(1) obtain r where b: "backend demo_env mid (st_calls s) (st_store s) X y = Some r"
    and s': "s' = s\<lparr>st_store := apply_updates m r (st_store s), st_calls := Suc (st_calls s),
            st_trace := st_trace s @ [TrainOnBatch mid X y (loss r) (apply_updates m r (st_store s))]\<rparr>"
    by (rule train_on_batch_InrE)
  have nv: "new_value r (Critic, i, j)
      = map (\<lambda>v. v - 1 / 10000) (w_value (l_weights (critic_net (st_store s) ! i) ! j))"
    using b by (auto simp: demo_env_def demo_backend_def net_layers_def)
  have w: "l_weights (critic_net (st_store s') ! i) ! j
      = update_weight m r Critic i (critic_net (st_store s) ! i) j
          (l_weights (critic_net (st_store s) ! i) ! j)"
    using assms(3,4) by (simp add: s' update_net_nth update_layer_nth)
  show ?thesis
    using assms(2-5) nv
    by (simp add: w update_weight_def apply_constraint_def) (simp add: s' update_net_nth)
qed

lemma all_withinD:
  assumes "all_within c ls" and "i < length ls" and "j < length (l_weights (ls ! i))"
    and "v \<in> set (w_value (l_weights (ls ! i) ! j))"
  shows "- c \<le> v \<and> v \<le> c"
proof -
  have "ls ! i \<in> set ls" and "l_weights (ls ! i) ! j \<in> set (l_weights (ls ! i))"
    using assms(2,3) by simp_all
  then show ?thesis using assms(1,4) unfolding all_within_def list_all_iff by blast
qed

text \<open>
  One sub-step of the critic from the notebook's initial models, on the example
  backend: the scale \<open>gamma\<close> of the first normalization layer starts at one, carries no
  constraint, and is \<open>0.9998\<close> after the sub-step's two updates, far outside
  \<open>[-0.005, 0.005]\<close>.
\<close>

theorem constrained_critic_weights_stay_clipped_counterexample:
  "\<not> all_within 0.005
      (critic_net (st_store (fst (projr
         (critic_substep demo_env
            (train_params (fst (snd (notebook_setup 2 demo_init demo_init)))
               (snd (snd (notebook_setup 2 demo_init demo_init))) [[0.5], [0.25]] 2 2 1)
            (initial_state (fst (notebook_setup 2 demo_init demo_init)) demo_rng))))))"
proof -
  obtain st c_model gan_model
    where nb: "notebook_setup 2 demo_init demo_init = (st, c_model, gan_model)"
    by (cases "notebook_setup 2 demo_init demo_init") auto
  let ?p = "train_params c_model gan_model [[0.5], [0.25]] 2 2 1"
  let ?s = "initial_state st demo_rng"
  note facts = demo_critic_facts [OF nb]
  have bt: "backend_total demo_env" using reliable_demo_env by (simp add: reliable_def)
  have "p_dataset ?p \<noteq> [] \<and> 0 < p_half_batch ?p" by simp
  from critic_substep_total [OF bt this] obtain s2 l1 l2
    where sub: "critic_substep demo_env ?p ?s = Inr (s2, l1, l2)" by (metis prod_cases3)
  from sub obtain X_real y_real g1 s1 X_fake y_fake g2 where
    t1: "train_on_batch demo_env CModel (p_c_model ?p) X_real y_real (?s\<lparr>st_rng := g1\<rparr>) = Inr (l1, s1)"
    and t2: "train_on_batch demo_env CModel (p_c_model ?p) X_fake y_fake (s1\<lparr>st_rng := g2\<rparr>) = Inr (l2, s2)"
    by (rule critic_substep_InrE)
  have cm: "p_c_model ?p = snd (define_critic demo_init)"
    using notebook_setup_c_model [OF nb] by simp
  have c0: "critic_net st = map freeze (fst (define_critic demo_init))"
    by (rule notebook_setup_critic [OF nb])
  have coll: "(Critic, 1, 0) \<in> set (collected_trainable_weights (p_c_model ?p))"
    unfolding cm define_critic_collected
    by (simp add: define_critic_def Let_def kernel_layer_def batch_normalization_def plain_layer_def)
  have start: "1 < length (critic_net (st_store (?s\<lparr>st_rng := g1\<rparr>)))"
    "0 < length (l_weights (critic_net (st_store (?s\<lparr>st_rng := g1\<rparr>)) ! 1))"
    "w_constraint (l_weights (critic_net (st_store (?s\<lparr>st_rng := g1\<rparr>)) ! 1) ! 0) = None"
    "w_value (l_weights (critic_net (st_store (?s\<lparr>st_rng := g1\<rparr>)) ! 1) ! 0) = replicate 64 1"
    unfolding c0
    by (simp_all add: initial_state_def c0 define_critic_def Let_def kernel_layer_def
        batch_normalization_def plain_layer_def freeze_def)
  from demo_update_value [OF t1 coll start(1,2,3)]
  have one: "w_value (l_weights (critic_net (st_store s1) ! 1) ! 0) = replicate 64 (1 - 1 / 10000)"
    "1 < length (critic_net (st_store (s1\<lparr>st_rng := g2\<rparr>)))"
    "0 < length (l_weights (critic_net (st_store (s1\<lparr>st_rng := g2\<rparr>)) ! 1))"
    "w_constraint (l_weights (critic_net (st_store (s1\<lparr>st_rng := g2\<rparr>)) ! 1) ! 0) = None"
    using start(4) by simp_all
  from demo_update_value [OF t2 coll one(2,3,4)]
  have two: "w_value (l_weights (critic_net (st_store s2) ! 1) ! 0) = replicate 64 (9998 / 10000)"
    "1 < length (critic_net (st_store s2))"
    "0 < length (l_weights (critic_net (st_store s2) ! 1))"
    using one(1) by simp_all
  have "\<not> all_within 0.005 (critic_net (st_store s2))"
  proof
    assume "all_within 0.005 (critic_net (st_store s2))"
    from all_withinD [OF this two(2,3), of "9998 / 10000"] two(1) show False by simp
  qed
  then show ?thesis using sub nb by simp
qed

subsection \<open>What \<open>train\<close> does about failures\<close>

text \<open>What fails in a step, after any number of completed steps, is the failure of the run.\<close>

lemma train_prefix_failure:
  assumes "n_batch \<noteq> 0" and "i < (length dataset div n_batch) * n_epochs"
    and "train_loop e (train_params c_model gan_model dataset latent_dim n_batch n_critic) [0..<i]
           (s\<lparr>c1_hist := [], c2_hist := [], g_hist := []\<rparr>) = Inr si"
    and "train_step e (train_params c_model gan_model dataset latent_dim n_batch n_critic) i si
           = Inl err"
  shows "train e s c_model gan_model dataset latent_dim n_epochs n_batch n_critic = Inl err"
proof -
  let ?p = "train_params c_model gan_model dataset latent_dim n_batch n_critic"
  let ?n = "(length dataset div n_batch) * n_epochs"
  let ?s0 = "s\<lparr>c1_hist := [], c2_hist := [], g_hist := []\<rparr>"
  have split: "[0..<?n] = [0..<i] @ i # [Suc i..<?n]"
    using assms(2) by (metis le_add2 le_add_same_cancel2 less_imp_add_positive upt_add_eq_append upt_conv_Cons)
  have "train_loop e ?p [0..<?n] ?s0 = Inl err"
    unfolding split by (simp add: train_loop_append assms(3,4))
  then show ?thesis by (simp add: train_unfold [OF assms(1)])
qed

lemma critic_loop_add:
  "critic_loop e p (k + m) a =
     (case critic_loop e p k a of Inl err \<Rightarrow> Inl err | Inr a' \<Rightarrow> critic_loop e p m a')"
proof (induction k arbitrary: a)
  case 0
  then show ?case by simp
next
  case (Suc k)
  obtain s t1 t2 where a: "a = (s, t1, t2)" by (cases a)
  show ?case unfolding a using Suc.IH by (simp split: sum.splits)
qed

text \<open>What fails in a sub-step of the critic, after any number of completed sub-steps, fails the step.\<close>

lemma critic_prefix_failure:
  assumes "k < p_n_critic p" and "critic_loop e p k (s, [], []) = Inr (sk, t1, t2)"
    and "critic_substep e p sk = Inl err"
  shows "train_step e p i s = Inl err"
proof -
  define m where "m = p_n_critic p - Suc k"
  have m: "p_n_critic p = k + Suc m" using assms(1) by (simp add: m_def)
  have "critic_loop e p (k + Suc m) (s, [], []) = critic_loop e p (Suc m) (sk, t1, t2)"
    by (subst critic_loop_add) (simp only: assms(2) sum.case)
  also have "\<dots> = Inl err"
    by (simp only: critic_loop.simps assms(3) sum.case)
  finally have "critic_loop e p (p_n_critic p) (s, [], []) = Inl err"
    by (simp only: m)
  then show ?thesis unfolding train_step_def by (simp only: sum.case)
qed

lemma critic_substep_real_update_fails:
  assumes "generate_real_samples (p_dataset p) (p_half_batch p) (st_rng s) = Inr ((X, y), g1)"
    and "backend e CModel (st_calls s) (st_store s) X y = None"
  shows "critic_substep e p s = Inl BackendError"
proof -
  have "train_on_batch e CModel (p_c_model p) X y (s\<lparr>st_rng := g1\<rparr>) = Inl BackendError"
    using assms(2) by (intro train_on_batch_None) simp
  then show ?thesis by (simp add: critic_substep_def assms(1))
qed

lemma critic_substep_fake_update_fails:
  assumes "generate_real_samples (p_dataset p) (p_half_batch p) (st_rng s) = Inr ((X, y), g1)"
    and "train_on_batch e CModel (p_c_model p) X y (s\<lparr>st_rng := g1\<rparr>) = Inr (l1, s1)"
    and "generate_fake_samples (forward e (generator_net (st_store s1))) (p_latent_dim p)
           (p_half_batch p) (st_rng s1) = Inr ((Xf, yf), g2)"
    and "backend e CModel (st_calls s1) (st_store s1) Xf yf = None"
  shows "critic_substep e p s = Inl BackendError"
proof -
  have "train_on_batch e CModel (p_c_model p) Xf yf (s1\<lparr>st_rng := g2\<rparr>) = Inl BackendError"
    using assms(4) by (intro train_on_batch_None) simp
  then show ?thesis by (simp add: critic_substep_def assms(1,2,3))
qed

lemma critic_substep_empty_half_batch:
  assumes "generate_real_samples (p_dataset p) (p_half_batch p) (st_rng s) = Inr ((X, y), g1)"
    and "train_on_batch e CModel (p_c_model p) X y (s\<lparr>st_rng := g1\<rparr>) = Inr (l1, s1)"
    and "p_half_batch p = 0"
  shows "critic_substep e p s = Inl ValueError"
  using assms(1,2) unfolding critic_substep_def assms(3)
  by (simp add: generate_fake_samples_empty)

lemma train_step_generator_update_fails:
  assumes "critic_loop e p (p_n_critic p) (s, [], []) = Inr (s1, t1, t2)"
    and "generate_latent_points (p_latent_dim p) (p_n_batch p) (st_rng s1) = Inr (Xg, g')"
    and "backend e GanModel (st_calls s1) (st_store s1) Xg (neg (ones (p_n_batch p) 1)) = None"
  shows "train_step e p i s = Inl BackendError"
proof -
  let ?s2 = "s1\<lparr>c1_hist := c1_hist s1 @ [mean t1], c2_hist := c2_hist s1 @ [mean t2]\<rparr>"
  have b: "generate_latent_points (p_latent_dim p) (p_n_batch p) (st_rng ?s2) = Inr (Xg, g')"
    using assms(2) by simp
  have c: "train_on_batch e GanModel (p_gan_model p) Xg (neg (ones (p_n_batch p) 1))
      (?s2\<lparr>st_rng := g'\<rparr>) = Inl BackendError"
    using assms(3) by (intro train_on_batch_None) simp
  show ?thesis
    unfolding train_step_def Let_def assms(1) sum.case prod.case b c by simp
qed

lemma train_step_checkpoint_fails:
  assumes "critic_loop e p (p_n_critic p) (s, [], []) = Inr (s1, t1, t2)"
    and "generate_latent_points (p_latent_dim p) (p_n_batch p) (st_rng s1) = Inr (Xg, g')"
    and "train_on_batch e GanModel (p_gan_model p) Xg (neg (ones (p_n_batch p) 1))
           (s1\<lparr>c1_hist := c1_hist s1 @ [mean t1], c2_hist := c2_hist s1 @ [mean t2],
               st_rng := g'\<rparr>) = Inr (gl, s3)"
    and "p_bat_per_epo p \<noteq> 0" and "(i + 1) mod p_bat_per_epo p = 0" and "\<not> sink_ok e (i + 1)"
  shows "train_step e p i s = Inl SinkError"
proof -
  let ?s2 = "s1\<lparr>c1_hist := c1_hist s1 @ [mean t1], c2_hist := c2_hist s1 @ [mean t2]\<rparr>"
  have b: "generate_latent_points (p_latent_dim p) (p_n_batch p) (st_rng ?s2) = Inr (Xg, g')"
    using assms(2) by simp
  have c: "train_on_batch e GanModel (p_gan_model p) Xg (neg (ones (p_n_batch p) 1))
      (?s2\<lparr>st_rng := g'\<rparr>) = Inr (gl, s3)"
    using assms(3) by simp
  show ?thesis
    unfolding train_step_def Let_def assms(1) sum.case prod.case b c
    using assms(4,5) summarize_performance_sink_failure [OF assms(6)] by simp
qed


lemma train_real_update_failure:
  assumes "n_batch \<noteq> 0" and "i < (length dataset div n_batch) * n_epochs"
    and "train_loop e (train_params c_model gan_model dataset latent_dim n_batch n_critic) [0..<i]
           (s\<lparr>c1_hist := [], c2_hist := [], g_hist := []\<rparr>) = Inr si"
    and "k < n_critic"
    and "critic_loop e (train_params c_model gan_model dataset latent_dim n_batch n_critic) k
           (si, [], []) = Inr (sk, t1, t2)"
    and "generate_real_samples dataset (n_batch div 2) (st_rng sk) = Inr ((X, y), g1)"
    and "backend e CModel (st_calls sk) (st_store sk) X y = None"
  shows "train e s c_model gan_model dataset latent_dim n_epochs n_batch n_critic = Inl BackendError"
proof -
  let ?p = "train_params c_model gan_model dataset latent_dim n_batch n_critic"
  have real: "generate_real_samples (p_dataset ?p) (p_half_batch ?p) (st_rng sk) = Inr ((X, y), g1)"
    using assms(6) by simp
  have k: "k < p_n_critic ?p" using assms(4) by simp
  have "critic_substep e ?p sk = Inl BackendError"
    by (rule critic_substep_real_update_fails [OF real assms(7)])
  then have "train_step e ?p i si = Inl BackendError"
    by (rule critic_prefix_failure [OF k assms(5)])
  then show ?thesis by (rule train_prefix_failure [OF assms(1,2,3)])
qed

lemma train_fake_update_failure:
  assumes "n_batch \<noteq> 0" and "i < (length dataset div n_batch) * n_epochs"
    and "train_loop e (train_params c_model gan_model dataset latent_dim n_batch n_critic) [0..<i]
           (s\<lparr>c1_hist := [], c2_hist := [], g_hist := []\<rparr>) = Inr si"
    and "k < n_critic"
    and "critic_loop e (train_params c_model gan_model dataset latent_dim n_batch n_critic) k
           (si, [], []) = Inr (sk, t1, t2)"
    and "generate_real_samples dataset (n_batch div 2) (st_rng sk) = Inr ((X, y), g1)"
    and "train_on_batch e CModel c_model X y (sk\<lparr>st_rng := g1\<rparr>) = Inr (l1, s1)"
    and "generate_fake_samples (forward e (generator_net (st_store s1))) latent_dim (n_batch div 2)
           (st_rng s1) = Inr ((Xf, yf), g2)"
    and "backend e CModel (st_calls s1) (st_store s1) Xf yf = None"
  shows "train e s c_model gan_model dataset latent_dim n_epochs n_batch n_critic = Inl BackendError"
proof -
  let ?p = "train_params c_model gan_model dataset latent_dim n_batch n_critic"
  have real: "generate_real_samples (p_dataset ?p) (p_half_batch ?p) (st_rng sk) = Inr ((X, y), g1)"
    using assms(6) by simp
  have t1: "train_on_batch e CModel (p_c_model ?p) X y (sk\<lparr>st_rng := g1\<rparr>) = Inr (l1, s1)"
    using assms(7) by simp
  have fake: "generate_fake_samples (forward e (generator_net (st_store s1))) (p_latent_dim ?p)
           (p_half_batch ?p) (st_rng s1) = Inr ((Xf, yf), g2)"
    using assms(8) by simp
  have k: "k < p_n_critic ?p" using assms(4) by simp
  have "critic_substep e ?p sk = Inl BackendError"
    by (rule critic_substep_fake_update_fails [OF real t1 fake assms(9)])
  then have "train_step e ?p i si = Inl BackendError"
    by (rule critic_prefix_failure [OF k assms(5)])
  then show ?thesis by (rule train_prefix_failure [OF assms(1,2,3)])
qed

lemma train_empty_half_batch:
  assumes "n_batch \<noteq> 0" and "i < (length dataset div n_batch) * n_epochs"
    and "train_loop e (train_params c_model gan_model dataset latent_dim n_batch n_critic) [0..<i]
           (s\<lparr>c1_hist := [], c2_hist := [], g_hist := []\<rparr>) = Inr si"
    and "k < n_critic"
    and "critic_loop e (train_params c_model gan_model dataset latent_dim n_batch n_critic) k
           (si, [], []) = Inr (sk, t1, t2)"
    and "generate_real_samples dataset (n_batch div 2) (st_rng sk) = Inr ((X, y), g1)"
    and "train_on_batch e CModel c_model X y (sk\<lparr>st_rng := g1\<rparr>) = Inr (l1, s1)"
    and "n_batch div 2 = 0"
  shows "train e s c_model gan_model dataset latent_dim n_epochs n_batch n_critic = Inl ValueError"
proof -
  let ?p = "train_params c_model gan_model dataset latent_dim n_batch n_critic"
  have real: "generate_real_samples (p_dataset ?p) (p_half_batch ?p) (st_rng sk) = Inr ((X, y), g1)"
    using assms(6) by simp
  have t1: "train_on_batch e CModel (p_c_model ?p) X y (sk\<lparr>st_rng := g1\<rparr>) = Inr (l1, s1)"
    using assms(7) by simp
  have half: "p_half_batch ?p = 0" using assms(8) by simp
  have k: "k < p_n_critic ?p" using assms(4) by simp
  have "critic_substep e ?p sk = Inl ValueError"
    by (rule critic_substep_empty_half_batch [OF real t1 half])
  then have "train_step e ?p i si = Inl ValueError"
    by (rule critic_prefix_failure [OF k assms(5)])
  then show ?thesis by (rule train_prefix_failure [OF assms(1,2,3)])
qed

lemma train_generator_update_failure:
  assumes "n_batch \<noteq> 0" and "i < (length dataset div n_batch) * n_epochs"
    and "train_loop e (train_params c_model gan_model dataset latent_dim n_batch n_critic) [0..<i]
           (s\<lparr>c1_hist := [], c2_hist := [], g_hist := []\<rparr>) = Inr si"
    and "critic_loop e (train_params c_model gan_model dataset latent_dim n_batch n_critic) n_critic
           (si, [], []) = Inr (sc, u1, u2)"
    and "generate_latent_points latent_dim n_batch (st_rng sc) = Inr (Xg, gg)"
    and "backend e GanModel (st_calls sc) (st_store sc) Xg (replicate n_batch [- 1]) = None"
  shows "train e s c_model gan_model dataset latent_dim n_epochs n_batch n_critic = Inl BackendError"
proof -
  let ?p = "train_params c_model gan_model dataset latent_dim n_batch n_critic"
  have loop: "critic_loop e ?p (p_n_critic ?p) (si, [], []) = Inr (sc, u1, u2)"
    using assms(4) by simp
  have lat: "generate_latent_points (p_latent_dim ?p) (p_n_batch ?p) (st_rng sc) = Inr (Xg, gg)"
    using assms(5) by simp
  have b: "backend e GanModel (st_calls sc) (st_store sc) Xg (neg (ones (p_n_batch ?p) 1)) = None"
    using assms(6) by (simp add: neg_ones)
  have "train_step e ?p i si = Inl BackendError"
    by (rule train_step_generator_update_fails [OF loop lat b])
  then show ?thesis by (rule train_prefix_failure [OF assms(1,2,3)])
qed

lemma train_checkpoint_failure:
  assumes "n_batch \<noteq> 0" and "i < (length dataset div n_batch) * n_epochs"
    and "train_loop e (train_params c_model gan_model dataset latent_dim n_batch n_critic) [0..<i]
           (s\<lparr>c1_hist := [], c2_hist := [], g_hist := []\<rparr>) = Inr si"
    and "critic_loop e (train_params c_model gan_model dataset latent_dim n_batch n_critic) n_critic
           (si, [], []) = Inr (sc, u1, u2)"
    and "generate_latent_points latent_dim n_batch (st_rng sc) = Inr (Xg, gg)"
    and "train_on_batch e GanModel gan_model Xg (replicate n_batch [- 1])
           (sc\<lparr>c1_hist := c1_hist sc @ [mean u1], c2_hist := c2_hist sc @ [mean u2],
               st_rng := gg\<rparr>) = Inr (gl, s3)"
    and "(i + 1) mod (length dataset div n_batch) = 0" and "\<not> sink_ok e (i + 1)"
  shows "train e s c_model gan_model dataset latent_dim n_epochs n_batch n_critic = Inl SinkError"
proof -
  let ?p = "train_params c_model gan_model dataset latent_dim n_batch n_critic"
  have loop: "critic_loop e ?p (p_n_critic ?p) (si, [], []) = Inr (sc, u1, u2)"
    using assms(4) by simp
  have lat: "generate_latent_points (p_latent_dim ?p) (p_n_batch ?p) (st_rng sc) = Inr (Xg, gg)"
    using assms(5) by simp
  have gan: "train_on_batch e GanModel (p_gan_model ?p) Xg (neg (ones (p_n_batch ?p) 1))
           (sc\<lparr>c1_hist := c1_hist sc @ [mean u1], c2_hist := c2_hist sc @ [mean u2],
               st_rng := gg\<rparr>) = Inr (gl, s3)"
    using assms(6) by (simp add: neg_ones)
  have bpe: "p_bat_per_epo ?p \<noteq> 0"
    using assms(2) by (cases "length dataset div n_batch = 0") simp_all
  have due: "(i + 1) mod p_bat_per_epo ?p = 0" using assms(7) by simp
  have "train_step e ?p i si = Inl SinkError"
    by (rule train_step_checkpoint_fails [OF loop lat gan bpe due assms(8)])
  then show ?thesis by (rule train_prefix_failure [OF assms(1,2,3)])
qed

text \<open>
  A backend that refuses every batch holding an image whose size is not \<open>d\<close> ends the run
  at the first update of the critic when no image of the dataset has that size.
\<close>

lemma train_shape_mismatch:
  assumes "\<forall>c st X y. (\<exists>x\<in>set X. length x \<noteq> d) \<longrightarrow> backend e CModel c st X y = None"
    and "\<forall>x\<in>set dataset. length x \<noteq> d"
    and "2 \<le> n_batch" and "1 \<le> n_critic" and "0 < (length dataset div n_batch) * n_epochs"
  shows "train e s c_model gan_model dataset latent_dim n_epochs n_batch n_critic = Inl BackendError"
proof -
  let ?p = "train_params c_model gan_model dataset latent_dim n_batch n_critic"
  let ?s0 = "s\<lparr>c1_hist := [], c2_hist := [], g_hist := []\<rparr>"
  have nb: "n_batch \<noteq> 0" using assms(3) by simp
  have "length dataset div n_batch \<noteq> 0"
    using assms(5) by (cases "length dataset div n_batch = 0") simp_all
  then have ne: "dataset \<noteq> []" by auto
  then have "dataset \<noteq> [] \<or> n_batch div 2 = 0" by simp
  from generate_real_samples_total [OF this] obtain X y g1
    where real: "generate_real_samples dataset (n_batch div 2) (st_rng ?s0) = Inr ((X, y), g1)"
    by blast
  from generate_real_samples_InrD [OF real]
  have len: "length X = n_batch div 2" and sub: "set X \<subseteq> set dataset" by simp_all
  have "X \<noteq> []" using len assms(3) by auto
  then obtain x where x: "x \<in> set X" by (cases X) auto
  then have "length x \<noteq> d" using sub assms(2) by blast
  with x have "\<exists>x\<in>set X. length x \<noteq> d" by blast
  then have none: "backend e CModel (st_calls ?s0) (st_store ?s0) X y = None"
    using assms(1) by blast
  have pre: "train_loop e ?p [0..<0] ?s0 = Inr ?s0" by simp
  have k: "0 < n_critic" using assms(4) by simp
  have loop: "critic_loop e ?p 0 (?s0, [], []) = Inr (?s0, [], [])" by simp
  show ?thesis
    by (rule train_real_update_failure [OF nb assms(5) pre k loop real none])
qed


text \<open>
  Claim C9, as amended. \<open>train\<close> checks nothing before its loop and catches nothing in it.
  A batch size of zero raises at the first division. A dataset smaller than the batch
  size is no error: the run makes no step and returns with empty histories. In the loop,
  whatever a step raises after any number of completed steps ends the run with that
  failure. In particular, after any number of completed steps and sub-steps of the
  critic: a backend failure on the real batch, on the fake batch, or on the latent batch
  of the generator's update ends the run with the backend's failure; a half batch of
  size zero ends it with the \<^verbatim>\<open>ValueError\<close> of \<^verbatim>\<open>predict\<close>; and a checkpoint whose sink fails
  ends it with the sink's failure. A mismatch of image sizes is one such backend failure:
  a backend that refuses every batch holding an image whose size is not \<open>d\<close> ends the run
  at the first update of the critic when no image of the dataset has size \<open>d\<close>.
\<close>

theorem train_checks_nothing_catches_nothing:
  "(n_batch = 0 \<longrightarrow>
        train e s c_model gan_model dataset latent_dim n_epochs n_batch n_critic
          = Inl ZeroDivisionError)
   \<and> (length dataset < n_batch \<and> plot_ok e \<longrightarrow>
        train e s c_model gan_model dataset latent_dim n_epochs n_batch n_critic
          = Inr (s\<lparr>c1_hist := [], c2_hist := [], g_hist := [],
                   st_trace := st_trace s @ [PlotHistory [] [] []]\<rparr>))
   \<and> (n_batch \<noteq> 0 \<and> i < (length dataset div n_batch) * n_epochs
        \<and> train_loop e (train_params c_model gan_model dataset latent_dim n_batch n_critic) [0..<i]
              (s\<lparr>c1_hist := [], c2_hist := [], g_hist := []\<rparr>) = Inr si
        \<and> train_step e (train_params c_model gan_model dataset latent_dim n_batch n_critic) i si = Inl err \<longrightarrow>
        train e s c_model gan_model dataset latent_dim n_epochs n_batch n_critic
          = Inl err)
   \<and> (n_batch \<noteq> 0 \<and> i < (length dataset div n_batch) * n_epochs
        \<and> train_loop e (train_params c_model gan_model dataset latent_dim n_batch n_critic) [0..<i]
              (s\<lparr>c1_hist := [], c2_hist := [], g_hist := []\<rparr>) = Inr si
        \<and> k < n_critic
        \<and> critic_loop e (train_params c_model gan_model dataset latent_dim n_batch n_critic) k
              (si, [], []) = Inr (sk, t1, t2)
        \<and> generate_real_samples dataset (n_batch div 2) (st_rng sk) = Inr ((X, y), g1)
        \<and> backend e CModel (st_calls sk) (st_store sk) X y = None \<longrightarrow>
        train e s c_model gan_model dataset latent_dim n_epochs n_batch n_critic
          = Inl BackendError)
   \<and> (n_batch \<noteq> 0 \<and> i < (length dataset div n_batch) * n_epochs
        \<and> train_loop e (train_params c_model gan_model dataset latent_dim n_batch n_critic) [0..<i]
              (s\<lparr>c1_hist := [], c2_hist := [], g_hist := []\<rparr>) = Inr si
        \<and> k < n_critic
        \<and> critic_loop e (train_params c_model gan_model dataset latent_dim n_batch n_critic) k
              (si, [], []) = Inr (sk, t1, t2)
        \<and> generate_real_samples dataset (n_batch div 2) (st_rng sk) = Inr ((X, y), g1)
        \<and> train_on_batch e CModel c_model X y (sk\<lparr>st_rng := g1\<rparr>) = Inr (l1, s1)
        \<and> generate_fake_samples (forward e (generator_net (st_store s1))) latent_dim (n_batch div 2)
              (st_rng s1) = Inr ((Xf, yf), g2)
        \<and> backend e CModel (st_calls s1) (st_store s1) Xf yf = None \<longrightarrow>
        train e s c_model gan_model dataset latent_dim n_epochs n_batch n_critic
          = Inl BackendError)
   \<and> (n_batch \<noteq> 0 \<and> i < (length dataset div n_batch) * n_epochs
        \<and> train_loop e (train_params c_model gan_model dataset latent_dim n_batch n_critic) [0..<i]
              (s\<lparr>c1_hist := [], c2_hist := [], g_hist := []\<rparr>) = Inr si
        \<and> k < n_critic
        \<and> critic_loop e (train_params c_model gan_model dataset latent_dim n_batch n_critic) k
              (si, [], []) = Inr (sk, t1, t2)
        \<and> generate_real_samples dataset (n_batch div 2) (st_rng sk) = Inr ((X, y), g1)
        \<and> train_on_batch e CModel c_model X y (sk\<lparr>st_rng := g1\<rparr>) = Inr (l1, s1)
        \<and> n_batch div 2 = 0 \<longrightarrow>
        train e s c_model gan_model dataset latent_dim n_epochs n_batch n_critic
          = Inl ValueError)
   \<and> (n_batch \<noteq> 0 \<and> i < (length dataset div n_batch) * n_epochs
        \<and> train_loop e (train_params c_model gan_model dataset latent_dim n_batch n_critic) [0..<i]
              (s\<lparr>c1_hist := [], c2_hist := [], g_hist := []\<rparr>) = Inr si
        \<and> critic_loop e (train_params c_model gan_model dataset latent_dim n_batch n_critic) n_critic
              (si, [], []) = Inr (sc, u1, u2)
        \<and> generate_latent_points latent_dim n_batch (st_rng sc) = Inr (Xg, gg)
        \<and> backend e GanModel (st_calls sc) (st_store sc) Xg (replicate n_batch [- 1]) = None \<longrightarrow>
        train e s c_model gan_model dataset latent_dim n_epochs n_batch n_critic
          = Inl BackendError)
   \<and> (n_batch \<noteq> 0 \<and> i < (length dataset div n_batch) * n_epochs
        \<and> train_loop e (train_params c_model gan_model dataset latent_dim n_batch n_critic) [0..<i]
              (s\<lparr>c1_hist := [], c2_hist := [], g_hist := []\<rparr>) = Inr si
        \<and> critic_loop e (train_params c_model gan_model dataset latent_dim n_batch n_critic) n_critic
              (si, [], []) = Inr (sc, u1, u2)
        \<and> generate_latent_points latent_dim n_batch (st_rng sc) = Inr (Xg, gg)
        \<and> train_on_batch e GanModel gan_model Xg (replicate n_batch [- 1])
              (sc\<lparr>c1_hist := c1_hist sc @ [mean u1], c2_hist := c2_hist sc @ [mean u2],
                  st_rng := gg\<rparr>) = Inr (gl, s3)
        \<and> (i + 1) mod (length dataset div n_batch) = 0 \<and> \<not> sink_ok e (i + 1) \<longrightarrow>
        train e s c_model gan_model dataset latent_dim n_epochs n_batch n_critic
          = Inl SinkError)
   \<and> ((\<forall>c st X y. (\<exists>x\<in>set X. length x \<noteq> d) \<longrightarrow> backend e CModel c st X y = None)
        \<and> (\<forall>x\<in>set dataset. length x \<noteq> d)
        \<and> 2 \<le> n_batch \<and> 1 \<le> n_critic \<and> 0 < (length dataset div n_batch) * n_epochs \<longrightarrow>
        train e s c_model gan_model dataset latent_dim n_epochs n_batch n_critic
          = Inl BackendError)"
proof (intro conjI impI)
  assume "n_batch = 0"
  then show "train e s c_model gan_model dataset latent_dim n_epochs n_batch n_critic
      = Inl ZeroDivisionError"
    by (simp add: train_def)
next
  assume "length dataset < n_batch \<and> plot_ok e"
  then show "train e s c_model gan_model dataset latent_dim n_epochs n_batch n_critic
          = Inr (s\<lparr>c1_hist := [], c2_hist := [], g_hist := [],
                   st_trace := st_trace s @ [PlotHistory [] [] []]\<rparr>)"
    using train_small_dataset by blast
next
  assume h: "n_batch \<noteq> 0 \<and> i < (length dataset div n_batch) * n_epochs
        \<and> train_loop e (train_params c_model gan_model dataset latent_dim n_batch n_critic) [0..<i]
              (s\<lparr>c1_hist := [], c2_hist := [], g_hist := []\<rparr>) = Inr si
        \<and> train_step e (train_params c_model gan_model dataset latent_dim n_batch n_critic) i si = Inl err"
  show "train e s c_model gan_model dataset latent_dim n_epochs n_batch n_critic
          = Inl err"
    using h by (elim conjE) (rule train_prefix_failure; assumption)
next
  assume h: "n_batch \<noteq> 0 \<and> i < (length dataset div n_batch) * n_epochs
        \<and> train_loop e (train_params c_model gan_model dataset latent_dim n_batch n_critic) [0..<i]
              (s\<lparr>c1_hist := [], c2_hist := [], g_hist := []\<rparr>) = Inr si
        \<and> k < n_critic
        \<and> critic_loop e (train_params c_model gan_model dataset latent_dim n_batch n_critic) k
              (si, [], []) = Inr (sk, t1, t2)
        \<and> generate_real_samples dataset (n_batch div 2) (st_rng sk) = Inr ((X, y), g1)
        \<and> backend e CModel (st_calls sk) (st_store sk) X y = None"
  show "train e s c_model gan_model dataset latent_dim n_epochs n_batch n_critic
          = Inl BackendError"
    using h by (elim conjE) (rule train_real_update_failure; assumption)
next
  assume h: "n_batch \<noteq> 0 \<and> i < (length dataset div n_batch) * n_epochs
        \<and> train_loop e (train_params c_model gan_model dataset latent_dim n_batch n_critic) [0..<i]
              (s\<lparr>c1_hist := [], c2_hist := [], g_hist := []\<rparr>) = Inr si
        \<and> k < n_critic
        \<and> critic_loop e (train_params c_model gan_model dataset latent_dim n_batch n_critic) k
              (si, [], []) = Inr (sk, t1, t2)
        \<and> generate_real_samples dataset (n_batch div 2) (st_rng sk) = Inr ((X, y), g1)
        \<and> train_on_batch e CModel c_model X y (sk\<lparr>st_rng := g1\<rparr>) = Inr (l1, s1)
        \<and> generate_fake_samples (forward e (generator_net (st_store s1))) latent_dim (n_batch div 2)
              (st_rng s1) = Inr ((Xf, yf), g2)
        \<and> backend e CModel (st_calls s1) (st_store s1) Xf yf = None"
  show "train e s c_model gan_model dataset latent_dim n_epochs n_batch n_critic
          = Inl BackendError"
    using h by (elim conjE) (rule train_fake_update_failure; assumption)
next
  assume h: "n_batch \<noteq> 0 \<and> i < (length dataset div n_batch) * n_epochs
        \<and> train_loop e (train_params c_model gan_model dataset latent_dim n_batch n_critic) [0..<i]
              (s\<lparr>c1_hist := [], c2_hist := [], g_hist := []\<rparr>) = Inr si
        \<and> k < n_critic
        \<and> critic_loop e (train_params c_model gan_model dataset latent_dim n_batch n_critic) k
              (si, [], []) = Inr (sk, t1, t2)
        \<and> generate_real_samples dataset (n_batch div 2) (st_rng sk) = Inr ((X, y), g1)
        \<and> train_on_batch e CModel c_model X y (sk\<lparr>st_rng := g1\<rparr>) = Inr (l1, s1)
        \<and> n_batch div 2 = 0"
  show "train e s c_model gan_model dataset latent_dim n_epochs n_batch n_critic
          = Inl ValueError"
    using h by (elim conjE) (rule train_empty_half_batch; assumption)
next
  assume h: "n_batch \<noteq> 0 \<and> i < (length dataset div n_batch) * n_epochs
        \<and> train_loop e (train_params c_model gan_model dataset latent_dim n_batch n_critic) [0..<i]
              (s\<lparr>c1_hist := [], c2_hist := [], g_hist := []\<rparr>) = Inr si
        \<and> critic_loop e (train_params c_model gan_model dataset latent_dim n_batch n_critic) n_critic
              (si, [], []) = Inr (sc, u1, u2)
        \<and> generate_latent_points latent_dim n_batch (st_rng sc) = Inr (Xg, gg)
        \<and> backend e GanModel (st_calls sc) (st_store sc) Xg (replicate n_batch [- 1]) = None"
  show "train e s c_model gan_model dataset latent_dim n_epochs n_batch n_critic
          = Inl BackendError"
    using h by (elim conjE) (rule train_generator_update_failure; assumption)
next
  assume h: "n_batch \<noteq> 0 \<and> i < (length dataset div n_batch) * n_epochs
        \<and> train_loop e (train_params c_model gan_model dataset latent_dim n_batch n_critic) [0..<i]
              (s\<lparr>c1_hist := [], c2_hist := [], g_hist := []\<rparr>) = Inr si
        \<and> critic_loop e (train_params c_model gan_model dataset latent_dim n_batch n_critic) n_critic
              (si, [], []) = Inr (sc, u1, u2)
        \<and> generate_latent_points latent_dim n_batch (st_rng sc) = Inr (Xg, gg)
        \<and> train_on_batch e GanModel gan_model Xg (replicate n_batch [- 1])
              (sc\<lparr>c1_hist := c1_hist sc @ [mean u1], c2_hist := c2_hist sc @ [mean u2],
                  st_rng := gg\<rparr>) = Inr (gl, s3)
        \<and> (i + 1) mod (length dataset div n_batch) = 0 \<and> \<not> sink_ok e (i + 1)"
  show "train e s c_model gan_model dataset latent_dim n_epochs n_batch n_critic
          = Inl SinkError"
    using h by (elim conjE) (rule train_checkpoint_failure; assumption)
next
  assume h: "(\<forall>c st X y. (\<exists>x\<in>set X. length x \<noteq> d) \<longrightarrow> backend e CModel c st X y = None)
        \<and> (\<forall>x\<in>set dataset. length x \<noteq> d)
        \<and> 2 \<le> n_batch \<and> 1 \<le> n_critic \<and> 0 < (length dataset div n_batch) * n_epochs"
  show "train e s c_model gan_model dataset latent_dim n_epochs n_batch n_critic
          = Inl BackendError"
    using h by (elim conjE) (rule train_shape_mismatch; assumption)
qed


text \<open>
  Two runs on the notebook's models. With one image and a batch size of two, \<open>train\<close>
  returns normally: no step, empty histories. With two images, a batch size of two and
  a checkpoint sink that fails, the run ends with the sink's failure.
\<close>

theorem train_checks_nothing_catches_nothing_counterexample:
  "train demo_env (initial_state (fst (notebook_setup 2 demo_init demo_init)) demo_rng)
     (fst (snd (notebook_setup 2 demo_init demo_init)))
     (snd (snd (notebook_setup 2 demo_init demo_init)))
     [[0.5]] 2 1 2 1
   = Inr ((initial_state (fst (notebook_setup 2 demo_init demo_init)) demo_rng)
            \<lparr>st_trace := [PlotHistory [] [] []]\<rparr>)
   \<and> train (demo_env\<lparr>sink_ok := (\<lambda>t. False)\<rparr>)
       (initial_state (fst (notebook_setup 2 demo_init demo_init)) demo_rng)
       (fst (snd (notebook_setup 2 demo_init demo_init)))
       (snd (snd (notebook_setup 2 demo_init demo_init)))
       [[0.5], [0.25]] 2 1 2 1
     = Inl SinkError"
proof -
  let ?s = "initial_state (fst (notebook_setup 2 demo_init demo_init)) demo_rng"
  let ?cm = "fst (snd (notebook_setup 2 demo_init demo_init))"
  let ?gm = "snd (snd (notebook_setup 2 demo_init demo_init))"
  have small: "length [[0.5 :: real]] < 2" and plot: "plot_ok demo_env"
    by (simp_all add: demo_env_def)
  have a: "train demo_env ?s ?cm ?gm [[0.5]] 2 1 2 1 = Inr (?s\<lparr>st_trace := [PlotHistory [] [] []]\<rparr>)"
    unfolding train_small_dataset [OF small plot] by (simp add: initial_state_def)
  let ?e = "demo_env\<lparr>sink_ok := (\<lambda>t. False)\<rparr>"
  have bt: "backend_total ?e"
    by (simp add: backend_total_def demo_env_def demo_backend_def)
  have b: "train ?e ?s ?cm ?gm [[0.5], [0.25]] 2 1 2 1 = Inl SinkError"
    by (rule train_sink_failure [OF bt, of _ 0]) simp_all
  show ?thesis using a b by (rule conjI)
qed

theorem train_checks_nothing_catches_nothing_witness:
  "train demo_env (initial_state (fst (notebook_setup 2 demo_init demo_init)) demo_rng)
     (fst (snd (notebook_setup 2 demo_init demo_init)))
     (snd (snd (notebook_setup 2 demo_init demo_init)))
     [[0.5], [0.25]] 2 1 0 1
   = Inl ZeroDivisionError
   \<and> train demo_env (initial_state (fst (notebook_setup 2 demo_init demo_init)) demo_rng)
       (fst (snd (notebook_setup 2 demo_init demo_init)))
       (snd (snd (notebook_setup 2 demo_init demo_init)))
       [[0.5], [0.25]] 2 1 3 1
     = Inr ((initial_state (fst (notebook_setup 2 demo_init demo_init)) demo_rng)
              \<lparr>c1_hist := [], c2_hist := [], g_hist := [],
                st_trace := st_trace (initial_state (fst (notebook_setup 2 demo_init demo_init)) demo_rng)
                  @ [PlotHistory [] [] []]\<rparr>)
   \<and> train (shape_env 64)
       (initial_state (fst (notebook_setup 2 demo_init demo_init)) demo_rng)
       (fst (snd (notebook_setup 2 demo_init demo_init)))
       (snd (snd (notebook_setup 2 demo_init demo_init)))
       [[0.5], [0.25]] 2 1 2 1
     = Inl BackendError
   \<and> train fake_refusing_env
       (initial_state (fst (notebook_setup 2 demo_init demo_init)) demo_rng)
       (fst (snd (notebook_setup 2 demo_init demo_init)))
       (snd (snd (notebook_setup 2 demo_init demo_init)))
       [[0.5], [0.25]] 2 1 2 1
     = Inl BackendError
   \<and> train demo_env
       (initial_state (fst (notebook_setup 2 demo_init demo_init)) demo_rng)
       (fst (snd (notebook_setup 2 demo_init demo_init)))
       (snd (snd (notebook_setup 2 demo_init demo_init)))
       [[0.5]] 2 1 1 1
     = Inl ValueError
   \<and> train composite_refusing_env
       (initial_state (fst (notebook_setup 2 demo_init demo_init)) demo_rng)
       (fst (snd (notebook_setup 2 demo_init demo_init)))
       (snd (snd (notebook_setup 2 demo_init demo_init)))
       [[0.5], [0.25]] 2 1 2 0
     = Inl BackendError
   \<and> train (demo_env\<lparr>sink_ok := (\<lambda>t. t \<noteq> 4)\<rparr>)
       (initial_state (fst (notebook_setup 2 demo_init demo_init)) demo_rng)
       (fst (snd (notebook_setup 2 demo_init demo_init)))
       (snd (snd (notebook_setup 2 demo_init demo_init)))
       [[0.5], [0.25], [0.125], [0]] 2 2 2 1
     = Inl SinkError"
proof -
  let ?init = "initial_state (fst (notebook_setup 2 demo_init demo_init)) demo_rng"
  let ?cm = "fst (snd (notebook_setup 2 demo_init demo_init))"
  let ?gm = "snd (snd (notebook_setup 2 demo_init demo_init))"
  let ?D1 = "[[0.5 :: real]]"
  let ?D2 = "[[0.5], [0.25 :: real]]"
  let ?D4 = "[[0.5], [0.25], [0.125], [0 :: real]]"
  let ?start = "?init\<lparr>c1_hist := [], c2_hist := [], g_hist := []\<rparr>"
  have two: "(2::nat) \<noteq> 0" and one: "(1::nat) \<noteq> 0" by simp_all
  have bt: "backend_total demo_env" using reliable_demo_env by (simp add: reliable_def)

  \<comment> \<open>a batch size of zero\<close>
  have w1: "train demo_env ?init ?cm ?gm ?D2 2 1 0 1 = Inl ZeroDivisionError"
    by (rule train_checks_nothing_catches_nothing [where s = "?init" and c_model = "?cm" and gan_model = "?gm" and latent_dim = 2 and e = demo_env and dataset = "?D2" and n_epochs = 1 and n_batch = 0 and n_critic = 1, THEN conjunct1, THEN mp]) simp

  \<comment> \<open>a dataset smaller than the batch\<close>
  have h2: "length ?D2 < 3 \<and> plot_ok demo_env" by (simp add: demo_env_def)
  have w2: "train demo_env ?init ?cm ?gm ?D2 2 1 3 1
      = Inr (?init\<lparr>c1_hist := [], c2_hist := [], g_hist := [],
               st_trace := st_trace ?init @ [PlotHistory [] [] []]\<rparr>)"
    by (rule train_checks_nothing_catches_nothing [where s = "?init" and c_model = "?cm" and gan_model = "?gm" and latent_dim = 2 and e = demo_env and dataset = "?D2" and n_epochs = 1 and n_batch = 3 and n_critic = 1, THEN conjunct2, THEN conjunct1, THEN mp]) (rule h2)

  \<comment> \<open>the backend refuses the first real batch: its images have the wrong size\<close>
  let ?e3 = "shape_env 64"
  let ?P3 = "train_params ?cm ?gm ?D2 2 2 1"
  have i3: "0 < (length ?D2 div 2) * 1" by simp
  have pre3: "train_loop ?e3 ?P3 [0..<0] ?start = Inr ?start" by simp
  have k3: "(0::nat) < 1" by simp
  have loop3: "critic_loop ?e3 ?P3 0 (?start, [], []) = Inr (?start, [], [])" by simp
  have "?D2 \<noteq> [] \<or> (2::nat) div 2 = 0" by simp
  from generate_real_samples_total [OF this] obtain X y g1
    where real3: "generate_real_samples ?D2 (2 div 2) (st_rng ?start) = Inr ((X, y), g1)"
    by blast
  from generate_real_samples_InrD [OF real3]
  have y: "y = replicate (2 div 2) [- 1]" and lenX: "length X = 2 div 2" and subX: "set X \<subseteq> set ?D2"
    by simp_all
  have "X \<noteq> []" using lenX by auto
  then obtain x where x: "x \<in> set X" by (cases X) auto
  then have "length x \<noteq> 64" using subX by auto
  with x have bad: "list_ex (\<lambda>x. length x \<noteq> 64) X" unfolding list_ex_iff by blast
  have none3: "backend ?e3 CModel (st_calls ?start) (st_store ?start) X y = None"
    using bad by (simp add: shape_env_def)
  have h3: "(2::nat) \<noteq> 0 \<and> 0 < (length ?D2 div 2) * 1
        \<and> train_loop ?e3 ?P3 [0..<0] ?start = Inr ?start
        \<and> (0::nat) < 1
        \<and> critic_loop ?e3 ?P3 0 (?start, [], []) = Inr (?start, [], [])
        \<and> generate_real_samples ?D2 (2 div 2) (st_rng ?start) = Inr ((X, y), g1)
        \<and> backend ?e3 CModel (st_calls ?start) (st_store ?start) X y = None"
    by (intro conjI) (rule two i3 pre3 k3 loop3 real3 none3)+
  have w3: "train ?e3 ?init ?cm ?gm ?D2 2 1 2 1 = Inl BackendError"
    by (rule train_checks_nothing_catches_nothing [where s = "?init" and c_model = "?cm" and gan_model = "?gm" and latent_dim = 2 and e = "?e3" and dataset = "?D2" and n_epochs = 1 and n_batch = 2 and n_critic = 1 and i = 0 and si = "?start" and k = 0 and sk = "?start" and ?t1.0 = "[]" and ?t2.0 = "[]" and X = X and y = y and ?g1.0 = g1, THEN conjunct2, THEN conjunct2, THEN conjunct2, THEN conjunct1, THEN mp]) (rule h3)

  \<comment> \<open>the same failure, as the failure of the first step\<close>
  have real3': "generate_real_samples (p_dataset ?P3) (p_half_batch ?P3) (st_rng ?start)
      = Inr ((X, y), g1)"
    using real3 by simp
  have k3': "0 < p_n_critic ?P3" by simp
  have step3: "train_step ?e3 ?P3 0 ?start = Inl BackendError"
    by (rule critic_prefix_failure [OF k3' loop3
          critic_substep_real_update_fails [OF real3' none3]])
  have hs: "(2::nat) \<noteq> 0 \<and> 0 < (length ?D2 div 2) * 1
        \<and> train_loop ?e3 ?P3 [0..<0] ?start = Inr ?start
        \<and> train_step ?e3 ?P3 0 ?start = Inl BackendError"
    by (intro conjI) (rule two i3 pre3 step3)+
  have ws: "train ?e3 ?init ?cm ?gm ?D2 2 1 2 1 = Inl BackendError"
    by (rule train_checks_nothing_catches_nothing [where s = "?init" and c_model = "?cm" and gan_model = "?gm" and latent_dim = 2 and e = "?e3" and dataset = "?D2" and n_epochs = 1 and n_batch = 2 and n_critic = 1 and i = 0 and si = "?start" and err = BackendError, THEN conjunct2, THEN conjunct2, THEN conjunct1, THEN mp]) (rule hs)

  \<comment> \<open>the same failure, from the sizes of the images\<close>
  have h9: "(\<forall>c st X y. (\<exists>x\<in>set X. length x \<noteq> 64) \<longrightarrow> backend ?e3 CModel c st X y = None)
        \<and> (\<forall>x\<in>set ?D2. length x \<noteq> 64)
        \<and> (2::nat) \<le> 2 \<and> (1::nat) \<le> 1 \<and> 0 < (length ?D2 div 2) * 1"
    by (simp add: shape_env_def list_ex_iff)
  have w9: "train ?e3 ?init ?cm ?gm ?D2 2 1 2 1 = Inl BackendError"
    by (rule train_checks_nothing_catches_nothing [where s = "?init" and c_model = "?cm" and gan_model = "?gm" and latent_dim = 2 and e = "?e3" and dataset = "?D2" and n_epochs = 1 and n_batch = 2 and n_critic = 1 and d = 64, THEN conjunct2, THEN conjunct2, THEN conjunct2, THEN conjunct2, THEN conjunct2, THEN conjunct2, THEN conjunct2, THEN conjunct2, THEN mp]) (rule h9)

  \<comment> \<open>the backend refuses the first fake batch\<close>
  let ?e4 = "fake_refusing_env"
  have pre4: "train_loop ?e4 ?P3 [0..<0] ?start = Inr ?start" by simp
  have loop4: "critic_loop ?e4 ?P3 0 (?start, [], []) = Inr (?start, [], [])" by simp
  have "[1] \<notin> set y" unfolding y by simp
  then obtain r1 where b1: "backend ?e4 CModel (st_calls (?start\<lparr>st_rng := g1\<rparr>))
      (st_store (?start\<lparr>st_rng := g1\<rparr>)) X y = Some r1"
    by (simp add: fake_refusing_env_def demo_env_def demo_backend_def)
  define s1 where "s1 = (?start\<lparr>st_rng := g1\<rparr>)\<lparr>st_store := apply_updates ?cm r1 (st_store (?start\<lparr>st_rng := g1\<rparr>)),
      st_calls := Suc (st_calls (?start\<lparr>st_rng := g1\<rparr>)),
      st_trace := st_trace (?start\<lparr>st_rng := g1\<rparr>) @ [TrainOnBatch CModel X y (loss r1)
        (apply_updates ?cm r1 (st_store (?start\<lparr>st_rng := g1\<rparr>)))]\<rparr>"
  have t4: "train_on_batch ?e4 CModel ?cm X y (?start\<lparr>st_rng := g1\<rparr>) = Inr (loss r1, s1)"
    unfolding s1_def by (rule train_on_batch_Some [OF b1])
  have "(0::nat) < 2 div 2" by simp
  from generate_fake_samples_total [OF this] obtain Xf yf g2
    where fake4: "generate_fake_samples (forward ?e4 (generator_net (st_store s1))) 2 (2 div 2)
        (st_rng s1) = Inr ((Xf, yf), g2)"
    by blast
  from generate_fake_samples_InrD [OF fake4] have "yf = replicate (2 div 2) [1]" by simp
  then have "[1] \<in> set yf" by simp
  then have none4: "backend ?e4 CModel (st_calls s1) (st_store s1) Xf yf = None"
    by (simp add: fake_refusing_env_def)
  have h4: "(2::nat) \<noteq> 0 \<and> 0 < (length ?D2 div 2) * 1
        \<and> train_loop ?e4 ?P3 [0..<0] ?start = Inr ?start
        \<and> (0::nat) < 1
        \<and> critic_loop ?e4 ?P3 0 (?start, [], []) = Inr (?start, [], [])
        \<and> generate_real_samples ?D2 (2 div 2) (st_rng ?start) = Inr ((X, y), g1)
        \<and> train_on_batch ?e4 CModel ?cm X y (?start\<lparr>st_rng := g1\<rparr>) = Inr (loss r1, s1)
        \<and> generate_fake_samples (forward ?e4 (generator_net (st_store s1))) 2 (2 div 2)
              (st_rng s1) = Inr ((Xf, yf), g2)
        \<and> backend ?e4 CModel (st_calls s1) (st_store s1) Xf yf = None"
    by (intro conjI) (rule two i3 pre4 k3 loop4 real3 t4 fake4 none4)+
  have w4: "train ?e4 ?init ?cm ?gm ?D2 2 1 2 1 = Inl BackendError"
    by (rule train_checks_nothing_catches_nothing [where s = "?init" and c_model = "?cm" and gan_model = "?gm" and latent_dim = 2 and e = "?e4" and dataset = "?D2" and n_epochs = 1 and n_batch = 2 and n_critic = 1 and i = 0 and si = "?start" and k = 0 and sk = "?start" and ?t1.0 = "[]" and ?t2.0 = "[]" and X = X and y = y and ?g1.0 = g1 and ?l1.0 = "loss r1" and ?s1.0 = s1 and Xf = Xf and yf = yf and ?g2.0 = g2, THEN conjunct2, THEN conjunct2, THEN conjunct2, THEN conjunct2, THEN conjunct1, THEN mp]) (rule h4)

  \<comment> \<open>a batch size of one: the half batch is empty\<close>
  let ?P5 = "train_params ?cm ?gm ?D1 2 1 1"
  have i5: "0 < (length ?D1 div 1) * 1" by simp
  have pre5: "train_loop demo_env ?P5 [0..<0] ?start = Inr ?start" by simp
  have loop5: "critic_loop demo_env ?P5 0 (?start, [], []) = Inr (?start, [], [])" by simp
  have "?D1 \<noteq> [] \<or> (1::nat) div 2 = 0" by simp
  from generate_real_samples_total [OF this] obtain X5 y5 g5
    where real5: "generate_real_samples ?D1 (1 div 2) (st_rng ?start) = Inr ((X5, y5), g5)"
    by blast
  from train_on_batch_total [OF bt] obtain l5 s5
    where t5: "train_on_batch demo_env CModel ?cm X5 y5 (?start\<lparr>st_rng := g5\<rparr>) = Inr (l5, s5)"
    by blast
  have half5: "(1::nat) div 2 = 0" by simp
  have h5: "(1::nat) \<noteq> 0 \<and> 0 < (length ?D1 div 1) * 1
        \<and> train_loop demo_env ?P5 [0..<0] ?start = Inr ?start
        \<and> (0::nat) < 1
        \<and> critic_loop demo_env ?P5 0 (?start, [], []) = Inr (?start, [], [])
        \<and> generate_real_samples ?D1 (1 div 2) (st_rng ?start) = Inr ((X5, y5), g5)
        \<and> train_on_batch demo_env CModel ?cm X5 y5 (?start\<lparr>st_rng := g5\<rparr>) = Inr (l5, s5)
        \<and> (1::nat) div 2 = 0"
    by (intro conjI) (rule one i5 pre5 k3 loop5 real5 t5 half5)+
  have w5: "train demo_env ?init ?cm ?gm ?D1 2 1 1 1 = Inl ValueError"
    by (rule train_checks_nothing_catches_nothing [where s = "?init" and c_model = "?cm" and gan_model = "?gm" and latent_dim = 2 and e = demo_env and dataset = "?D1" and n_epochs = 1 and n_batch = 1 and n_critic = 1 and i = 0 and si = "?start" and k = 0 and sk = "?start" and ?t1.0 = "[]" and ?t2.0 = "[]" and X = X5 and y = y5 and ?g1.0 = g5 and ?l1.0 = l5 and ?s1.0 = s5, THEN conjunct2, THEN conjunct2, THEN conjunct2, THEN conjunct2, THEN conjunct2, THEN conjunct1, THEN mp]) (rule h5)

  \<comment> \<open>the backend refuses the generator's update\<close>
  let ?e6 = "composite_refusing_env"
  let ?P6 = "train_params ?cm ?gm ?D2 2 2 0"
  have pre6: "train_loop ?e6 ?P6 [0..<0] ?start = Inr ?start" by simp
  have loop6: "critic_loop ?e6 ?P6 0 (?start, [], []) = Inr (?start, [], [])" by simp
  obtain Xg gg where lat6: "generate_latent_points 2 2 (st_rng ?start) = Inr (Xg, gg)"
    by (simp add: generate_latent_points_Inr)
  have none6: "backend ?e6 GanModel (st_calls ?start) (st_store ?start) Xg (replicate 2 [- 1]) = None"
    by (simp add: composite_refusing_env_def)
  have h6: "(2::nat) \<noteq> 0 \<and> 0 < (length ?D2 div 2) * 1
        \<and> train_loop ?e6 ?P6 [0..<0] ?start = Inr ?start
        \<and> critic_loop ?e6 ?P6 0 (?start, [], []) = Inr (?start, [], [])
        \<and> generate_latent_points 2 2 (st_rng ?start) = Inr (Xg, gg)
        \<and> backend ?e6 GanModel (st_calls ?start) (st_store ?start) Xg (replicate 2 [- 1]) = None"
    by (intro conjI) (rule two i3 pre6 loop6 lat6 none6)+
  have w6: "train ?e6 ?init ?cm ?gm ?D2 2 1 2 0 = Inl BackendError"
    by (rule train_checks_nothing_catches_nothing [where s = "?init" and c_model = "?cm" and gan_model = "?gm" and latent_dim = 2 and e = "?e6" and dataset = "?D2" and n_epochs = 1 and n_batch = 2 and n_critic = 0 and i = 0 and si = "?start" and sc = "?start" and ?u1.0 = "[]" and ?u2.0 = "[]" and Xg = Xg and gg = gg, THEN conjunct2, THEN conjunct2, THEN conjunct2, THEN conjunct2, THEN conjunct2, THEN conjunct2, THEN conjunct1, THEN mp]) (rule h6)

  \<comment> \<open>the sink of the second checkpoint fails, after three completed steps\<close>
  let ?e7 = "demo_env\<lparr>sink_ok := (\<lambda>t. t \<noteq> 4)\<rparr>"
  let ?P7 = "train_params ?cm ?gm ?D4 2 2 1"
  have bt7: "backend_total ?e7"
    by (simp add: backend_total_def demo_env_def demo_backend_def)
  have data7: "p_dataset ?P7 \<noteq> [] \<and> 0 < p_half_batch ?P7" and bpe7: "p_bat_per_epo ?P7 \<noteq> 0"
    by simp_all
  have sinks7: "\<forall>i\<in>set [0..<3]. (i + 1) mod p_bat_per_epo ?P7 = 0 \<longrightarrow> sink_ok ?e7 (i + 1)"
    by simp
  from train_loop_total [OF bt7 data7 bpe7 sinks7] obtain si
    where pre7: "train_loop ?e7 ?P7 [0..<3] ?start = Inr si" by blast
  from critic_loop_total [OF bt7 data7] obtain sc u1 u2
    where loop7: "critic_loop ?e7 ?P7 1 (si, [], []) = Inr (sc, u1, u2)"
    by (metis prod_cases3)
  obtain Xg7 gg7 where lat7: "generate_latent_points 2 2 (st_rng sc) = Inr (Xg7, gg7)"
    by (simp add: generate_latent_points_Inr)
  from train_on_batch_total [OF bt7] obtain gl s3
    where gan7: "train_on_batch ?e7 GanModel ?gm Xg7 (replicate 2 [- 1])
           (sc\<lparr>c1_hist := c1_hist sc @ [mean u1], c2_hist := c2_hist sc @ [mean u2],
               st_rng := gg7\<rparr>) = Inr (gl, s3)"
    by blast
  have i7: "3 < (length ?D4 div 2) * 2" by simp
  have len4: "length ?D4 div 2 = 2" by simp
  have due7: "(3 + 1) mod (length ?D4 div 2) = 0" unfolding len4 by simp
  have fails7: "\<not> sink_ok ?e7 (3 + 1)" by simp
  have h7: "(2::nat) \<noteq> 0 \<and> 3 < (length ?D4 div 2) * 2
        \<and> train_loop ?e7 ?P7 [0..<3] ?start = Inr si
        \<and> critic_loop ?e7 ?P7 1 (si, [], []) = Inr (sc, u1, u2)
        \<and> generate_latent_points 2 2 (st_rng sc) = Inr (Xg7, gg7)
        \<and> train_on_batch ?e7 GanModel ?gm Xg7 (replicate 2 [- 1])
              (sc\<lparr>c1_hist := c1_hist sc @ [mean u1], c2_hist := c2_hist sc @ [mean u2],
                  st_rng := gg7\<rparr>) = Inr (gl, s3)
        \<and> (3 + 1) mod (length ?D4 div 2) = 0 \<and> \<not> sink_ok ?e7 (3 + 1)"
    by (intro conjI) (rule two i7 pre7 loop7 lat7 gan7 due7 fails7)+
  have w7: "train ?e7 ?init ?cm ?gm ?D4 2 2 2 1 = Inl SinkError"
    by (rule train_checks_nothing_catches_nothing [where s = "?init" and c_model = "?cm" and gan_model = "?gm" and latent_dim = 2 and e = "?e7" and dataset = "?D4" and n_epochs = 2 and n_batch = 2 and n_critic = 1 and i = 3 and si = si and sc = sc and ?u1.0 = u1 and ?u2.0 = u2 and Xg = Xg7 and gg = gg7 and gl = gl and ?s3.0 = s3, THEN conjunct2, THEN conjunct2, THEN conjunct2, THEN conjunct2, THEN conjunct2, THEN conjunct2, THEN conjunct2, THEN conjunct1, THEN mp]) (rule h7)

  show ?thesis by (intro conjI) (rule w1 w2 w3 w4 w5 w6 w7)+
qed

end
